(* ===== verification/Prelude.thy ===== *)
theory Prelude
  imports Complex_Main "HOL-Library.Sublist"
begin

text \<open>
  Shared vocabulary of the development.  The fee tracker is a Python/Flask program; the
  parts of the Python runtime its business rules call on strings (\<open>str.lower\<close>,
  \<open>str.strip\<close>, \<open>str.title\<close>, the substring test \<open>x in s\<close>) are modelled here once,
  on ASCII text: Isabelle's \<open>char\<close> is a byte, so a non-ASCII code point is several
  bytes that none of these helpers changes, whereas Python would case-map it.  Amounts of
  money are Python floats in the source; they are modelled as exact rationals
  (\<open>money = rat\<close>), so binary floating-point rounding of sums and products is not
  modelled, while Python's \<open>round(x, 2)\<close> (round half to even on the value) is.
\<close>

named_theorems py_str "equations of the Python string helpers on their own results"
named_theorems fee_db "rewrite rules on the database tables of the fee tracker"
named_theorems money_simps "facts on rounded amounts of money"

type_synonym money = rat

subsection \<open>Characters\<close>

definition py_lower_char :: "char \<Rightarrow> char" where
  "py_lower_char c = (let n = of_char c :: nat in if 65 \<le> n \<and> n \<le> 90 then char_of (n + 32) else c)"

definition py_upper_char :: "char \<Rightarrow> char" where
  "py_upper_char c = (let n = of_char c :: nat in if 97 \<le> n \<and> n \<le> 122 then char_of (n - 32) else c)"

definition py_is_cased :: "char \<Rightarrow> bool" where
  "py_is_cased c = (let n = of_char c :: nat in (65 \<le> n \<and> n \<le> 90) \<or> (97 \<le> n \<and> n \<le> 122))"

definition py_isspace :: "char \<Rightarrow> bool" where
  "py_isspace c = (let n = of_char c :: nat in (9 \<le> n \<and> n \<le> 13) \<or> (28 \<le> n \<and> n \<le> 32))"

subsection \<open>Strings\<close>

definition py_lower :: "string \<Rightarrow> string" where
  "py_lower s = map py_lower_char s"

definition py_strip :: "string \<Rightarrow> string" where
  "py_strip s = rev (dropWhile py_isspace (rev (dropWhile py_isspace s)))"

fun py_title_from :: "bool \<Rightarrow> string \<Rightarrow> string" where
  "py_title_from prev [] = []"
| "py_title_from prev (c # cs) =
     (if prev then py_lower_char c else py_upper_char c) # py_title_from (py_is_cased c) cs"

definition py_title :: "string \<Rightarrow> string" where
  "py_title s = py_title_from False s"

fun py_in :: "string \<Rightarrow> string \<Rightarrow> bool" where
  "py_in n [] = (n = [])"
| "py_in n (c # cs) = (prefix n (c # cs) \<or> py_in n cs)"

fun py_split_from :: "char \<Rightarrow> string \<Rightarrow> string \<Rightarrow> string list" where
  "py_split_from sep cur [] = [rev cur]"
| "py_split_from sep cur (c # cs) =
     (if c = sep then rev cur # py_split_from sep [] cs else py_split_from sep (c # cur) cs)"

definition py_split :: "char \<Rightarrow> string \<Rightarrow> string list" where
  "py_split sep s = py_split_from sep [] s"

fun py_join :: "char \<Rightarrow> string list \<Rightarrow> string" where
  "py_join sep [] = []"
| "py_join sep [x] = x"
| "py_join sep (x # xs) = x @ sep # py_join sep xs"

fun update_first :: "('a \<Rightarrow> bool) \<Rightarrow> ('a \<Rightarrow> 'a) \<Rightarrow> 'a list \<Rightarrow> 'a list" where
  "update_first P f [] = []"
| "update_first P f (x # xs) = (if P x then f x # xs else x # update_first P f xs)"

subsection \<open>Lemmas on the character maps\<close>

lemma of_char_py_lower_char:
  "(of_char (py_lower_char c) :: nat) =
     (let n = of_char c :: nat in if 65 \<le> n \<and> n \<le> 90 then n + 32 else n)"
  by (simp add: py_lower_char_def Let_def)

lemma of_char_py_upper_char:
  "(of_char (py_upper_char c) :: nat) =
     (let n = of_char c :: nat in if 97 \<le> n \<and> n \<le> 122 then n - 32 else n)"
proof -
  have "(of_char c :: nat) - 32 < 256" using nat_of_char_less_256 [of c] by arith
  then show ?thesis by (simp add: py_upper_char_def Let_def)
qed

lemma char_eq_by_code: "(of_char c :: nat) = of_char d \<Longrightarrow> c = d"
  by simp

lemmas of_char_py_case = of_char_py_lower_char of_char_py_upper_char

lemma py_lower_char_idem [simp, py_str]: "py_lower_char (py_lower_char c) = py_lower_char c"
  by (rule char_eq_by_code) (auto simp: of_char_py_case Let_def simp del: of_char_eq_iff)

lemma py_lower_upper_char [simp, py_str]: "py_lower_char (py_upper_char c) = py_lower_char c"
  by (rule char_eq_by_code) (auto simp: of_char_py_case Let_def simp del: of_char_eq_iff)

lemma py_upper_lower_char [simp, py_str]: "py_upper_char (py_lower_char c) = py_upper_char c"
  by (rule char_eq_by_code) (auto simp: of_char_py_case Let_def simp del: of_char_eq_iff)

lemma py_is_cased_lower [simp, py_str]: "py_is_cased (py_lower_char c) = py_is_cased c"
  by (simp add: py_is_cased_def Let_def of_char_py_case)

lemma py_isspace_lower [simp, py_str]: "py_isspace (py_lower_char c) = py_isspace c"
  by (simp add: py_isspace_def Let_def of_char_py_case)

subsection \<open>Lemmas on the string functions\<close>

lemma py_lower_Nil [simp]: "py_lower [] = []"
  by (simp add: py_lower_def)

lemma py_lower_eq_Nil [simp]: "py_lower s = [] \<longleftrightarrow> s = []"
  by (simp add: py_lower_def)

lemma py_lower_idem [simp, py_str]: "py_lower (py_lower s) = py_lower s"
  by (simp add: py_lower_def)

lemma py_strip_lower [py_str]: "py_strip (py_lower s) = py_lower (py_strip s)"
  by (simp add: py_strip_def py_lower_def dropWhile_map rev_map comp_def)

lemma py_strip_idem [simp, py_str]: "py_strip (py_strip s) = py_strip s"
proof -
  define a where "a = dropWhile py_isspace s"
  define b where "b = rev (dropWhile py_isspace (rev a))"
  obtain t where ab: "a = b @ t"
    by (metis b_def rev_append rev_rev_ident takeWhile_dropWhile_id)
  have "dropWhile py_isspace b = b"
  proof (cases b)
    case (Cons x xs)
    with ab have "a \<noteq> []" and "hd a = x" by simp_all
    then have "\<not> py_isspace x" unfolding a_def by (metis hd_dropWhile)
    with Cons show ?thesis by simp
  qed simp
  moreover have "dropWhile py_isspace (rev b) = rev b"
    by (simp add: b_def)
  ultimately show ?thesis
    by (simp add: py_strip_def flip: a_def b_def)
qed

lemma py_lower_title_from [simp, py_str]: "py_lower (py_title_from b s) = py_lower s"
  by (induction b s rule: py_title_from.induct) (simp_all add: py_lower_def)

lemma py_lower_title [simp, py_str]: "py_lower (py_title s) = py_lower s"
  by (simp add: py_title_def)

lemma py_in_sublist: "py_in n h \<longleftrightarrow> sublist n h"
  by (induction h) (auto simp: sublist_Cons_right)

lemma find_Some_mem: "find P xs = Some x \<Longrightarrow> x \<in> set xs \<and> P x"
  by (induction xs) (auto split: if_splits)

lemma set_map_filter_iff: "y \<in> set (List.map_filter f xs) \<longleftrightarrow> (\<exists>x \<in> set xs. f x = Some y)"
  by (induction xs) (auto split: option.splits)

lemma py_in_trans [trans]: "py_in a b \<Longrightarrow> py_in b c \<Longrightarrow> py_in a c"
  by (auto simp: py_in_sublist intro: sublist_order.order_trans)

lemma py_split_from_nonempty: "py_split_from sep cur s \<noteq> []"
  by (induction sep cur s rule: py_split_from.induct) auto

lemma py_join_Cons: "xs \<noteq> [] \<Longrightarrow> py_join sep (x # xs) = x @ sep # py_join sep xs"
  by (cases xs) simp_all

lemma py_split_from_join: "py_join sep (py_split_from sep cur s) = rev cur @ s"
  by (induction sep cur s rule: py_split_from.induct) (auto simp: py_join_Cons py_split_from_nonempty)

lemma py_split_join [py_str]: "py_join sep (py_split sep s) = s"
  by (simp add: py_split_def py_split_from_join)

lemma py_split_from_sep: "sep \<notin> set cur \<Longrightarrow> x \<in> set (py_split_from sep cur s) \<Longrightarrow> sep \<notin> set x"
  by (induction sep cur s rule: py_split_from.induct) (auto split: if_splits)

lemma py_split_sep [py_str]: "x \<in> set (py_split sep s) \<Longrightarrow> sep \<notin> set x"
  unfolding py_split_def by (rule py_split_from_sep) simp_all

lemma length_update_first [simp]: "length (update_first P f xs) = length xs"
  by (induction xs) simp_all

lemma map_update_first [simp]: "(\<And>x. g (f x) = g x) \<Longrightarrow> map g (update_first P f xs) = map g xs"
  by (induction xs) simp_all

lemma set_update_first: "set (update_first P f xs) \<subseteq> set xs \<union> f ` set xs"
  by (induction xs) auto

lemma update_first_find: "find P xs = Some x \<Longrightarrow> \<exists>ys zs. xs = ys @ x # zs \<and> update_first P f xs = ys @ f x # zs"
proof (induction xs)
  case (Cons y xs)
  show ?case
  proof (cases "P y")
    case True
    with Cons.prems show ?thesis by auto
  next
    case False
    with Cons obtain ys zs where "xs = ys @ x # zs" "update_first P f xs = ys @ f x # zs" by auto
    with False show ?thesis by (intro exI [of _ "y # ys"] exI [of _ zs]) simp
  qed
qed simp

lemma ball_map_eq: "map g xs = map g ys \<Longrightarrow> (\<forall>x \<in> set xs. P (g x)) \<longleftrightarrow> (\<forall>y \<in> set ys. P (g y))"
proof -
  assume eq: "map g xs = map g ys"
  have "(\<forall>x \<in> set xs. P (g x)) \<longleftrightarrow> (\<forall>z \<in> set (map g xs). P z)" by simp
  also have "\<dots> \<longleftrightarrow> (\<forall>y \<in> set ys. P (g y))" unfolding eq by simp
  finally show ?thesis .
qed

lemma find_update_first:
  assumes "\<And>b. Q (f b) = Q b" and "\<And>b. g (f b) = g b"
  shows "map_option g (find Q (update_first P f xs)) = map_option g (find Q xs)"
  by (induction xs) (simp_all add: assms)

lemma sum_list_indicator:
  "distinct ks \<Longrightarrow> sum_list (map (\<lambda>k. if c = k then a else 0) ks) = (if c \<in> set ks then a else (0::'a::comm_monoid_add))"
  by (induction ks) auto

lemma sum_list_group_by:
  fixes v :: "'a \<Rightarrow> 'b::comm_monoid_add"
  assumes "distinct ks" and "set (map g xs) \<subseteq> set ks"
  shows "sum_list (map (\<lambda>k. sum_list (map v (filter (\<lambda>x. g x = k) xs))) (filter P ks))
       = sum_list (map v (filter (\<lambda>x. P (g x)) xs))"
  using assms(2)
proof (induction xs)
  case (Cons x xs)
  have "(\<lambda>k. sum_list (map v (filter (\<lambda>y. g y = k) (x # xs))))
      = (\<lambda>k. (if g x = k then v x else 0) + sum_list (map v (filter (\<lambda>y. g y = k) xs)))"
    by auto
  with Cons assms(1) show ?case
    by (simp add: sum_list_addf sum_list_indicator)
qed simp

end
