(* ===== verification/FeeType.thy ===== *)
theory FeeType
  imports Prelude
begin

text \<open>
  Fee-type strings (\<open>src/fee_payments/app.py\<close>, lines 39--65).  \<open>normalize_fee_type\<close>
  maps a free-text fee-type label to the key the database queries match on;
  \<open>get_standardized_fee_type_label\<close> maps it to the name shown on the dashboard.  The
  abstract specification is the enumeration the design notes ask for: a
  \<open>fee_category\<close> and one table of marker substrings, searched in order.  The table
  spells out the specification's marker strings; the lemmas show that the normaliser
  implements it, that normalised keys are stable under normalisation, that the labeler
  is idempotent, and that the labeler agrees with the normaliser on
  normalised keys but not on raw labels.
\<close>

subsection \<open>The code\<close>

definition phase_iii_markers :: "string list" where
  "phase_iii_markers = [''phase 3'', ''phase-3'', ''phase-iii'', ''phase iii'']"

definition phase_ii_markers :: "string list" where
  "phase_ii_markers = [''phase 2'', ''phase-2'', ''phase-ii'', ''phase ii'']"

definition normalize_fee_type :: "string \<Rightarrow> string" where
  "normalize_fee_type fee_type =
     (if fee_type = [] then []
      else
        (let ft = py_strip (py_lower fee_type) in
         if py_in ''crt'' ft then ''crt fee''
         else if list_ex (\<lambda>x. py_in x ft) phase_iii_markers then ''smart interviews phase-iii''
         else if list_ex (\<lambda>x. py_in x ft) phase_ii_markers then ''smart interviews phase-ii''
         else ft))"

definition get_standardized_fee_type_label :: "string \<Rightarrow> string" where
  "get_standardized_fee_type_label fee_type =
     (let ft = py_lower fee_type in
      if py_in ''crt'' ft then ''CRT''
      else if py_in ''phase-iii'' ft \<or> py_in ''phase 3'' ft then ''Phase 3''
      else if py_in ''phase-ii'' ft \<or> py_in ''phase 2'' ft then ''Phase 2''
      else py_title ft)"

subsection \<open>The abstract specification: an enumeration and one table\<close>

datatype fee_category = CRT | Phase_II | Phase_III | Other string

definition fee_category_table :: "(fee_category \<times> string list) list" where
  "fee_category_table =
     [(CRT, [''crt'']),
      (Phase_III, [''phase 3'', ''phase-3'', ''phase-iii'', ''phase iii'']),
      (Phase_II, [''phase 2'', ''phase-2'', ''phase-ii'', ''phase ii''])]"

definition categorize :: "string \<Rightarrow> fee_category" where
  "categorize s =
     (let ft = py_strip (py_lower s) in
      case find (\<lambda>(c, ps). list_ex (\<lambda>p. py_in p ft) ps) fee_category_table of
        Some (c, _) \<Rightarrow> c
      | None \<Rightarrow> Other ft)"

fun canonical_key :: "fee_category \<Rightarrow> string" where
  "canonical_key CRT = ''crt fee''"
| "canonical_key Phase_III = ''smart interviews phase-iii''"
| "canonical_key Phase_II = ''smart interviews phase-ii''"
| "canonical_key (Other ft) = ft"

fun display_label :: "fee_category \<Rightarrow> string" where
  "display_label CRT = ''CRT''"
| "display_label Phase_III = ''Phase 3''"
| "display_label Phase_II = ''Phase 2''"
| "display_label (Other ft) = py_title ft"

subsection \<open>Helper lemmas\<close>

lemma py_lower_strip_lower [simp, py_str]: "py_lower (py_strip (py_lower s)) = py_strip (py_lower s)"
  by (metis py_lower_idem py_strip_lower)

lemma py_strip_lower_fixed [simp, py_str]:
  "py_strip (py_lower (py_strip (py_lower s))) = py_strip (py_lower s)"
  by simp

lemma fee_category_table_markers:
  "fee_category_table = [(CRT, [''crt'']), (Phase_III, phase_iii_markers), (Phase_II, phase_ii_markers)]"
  by (simp add: fee_category_table_def phase_iii_markers_def phase_ii_markers_def)

lemma categorize_cases:
  fixes s defines "ft \<equiv> py_strip (py_lower s)"
  shows "categorize s =
     (if py_in ''crt'' ft then CRT
      else if list_ex (\<lambda>x. py_in x ft) phase_iii_markers then Phase_III
      else if list_ex (\<lambda>x. py_in x ft) phase_ii_markers then Phase_II
      else Other ft)"
  by (simp add: categorize_def fee_category_table_markers ft_def Let_def)

text \<open>The canonical keys, evaluated against every marker once.\<close>

lemma key_markers:
  "\<not> py_in ''crt'' ''smart interviews phase-iii''"
  "list_ex (\<lambda>x. py_in x ''smart interviews phase-iii'') phase_iii_markers"
  "\<not> py_in ''crt'' ''smart interviews phase-ii''"
  "\<not> list_ex (\<lambda>x. py_in x ''smart interviews phase-ii'') phase_iii_markers"
  "list_ex (\<lambda>x. py_in x ''smart interviews phase-ii'') phase_ii_markers"
  "py_in ''crt'' ''crt fee''"
  by (simp_all add: phase_iii_markers_def phase_ii_markers_def)

lemma key_strip_lower [simp]:
  "py_strip (py_lower ''crt fee'') = ''crt fee''"
  "py_strip (py_lower ''smart interviews phase-iii'') = ''smart interviews phase-iii''"
  "py_strip (py_lower ''smart interviews phase-ii'') = ''smart interviews phase-ii''"
  by code_simp+

lemma label_markers:
  "py_in ''phase-iii'' ft \<or> py_in ''phase 3'' ft \<Longrightarrow> list_ex (\<lambda>x. py_in x ft) phase_iii_markers"
  "py_in ''phase-ii'' ft \<or> py_in ''phase 2'' ft \<Longrightarrow> list_ex (\<lambda>x. py_in x ft) phase_ii_markers"
  by (auto simp: phase_iii_markers_def phase_ii_markers_def)

lemma key_labels [simp]:
  "get_standardized_fee_type_label ''crt fee'' = ''CRT''"
  "get_standardized_fee_type_label ''smart interviews phase-iii'' = ''Phase 3''"
  "get_standardized_fee_type_label ''smart interviews phase-ii'' = ''Phase 2''"
  "get_standardized_fee_type_label ''CRT'' = ''CRT''"
  "get_standardized_fee_type_label ''Phase 3'' = ''Phase 3''"
  "get_standardized_fee_type_label ''Phase 2'' = ''Phase 2''"
  by code_simp+

lemma categorize_keys [simp]:
  "categorize ''crt fee'' = CRT"
  "categorize ''smart interviews phase-iii'' = Phase_III"
  "categorize ''smart interviews phase-ii'' = Phase_II"
  by code_simp+

lemma categorize_Other:
  assumes "categorize s = Other ft"
  shows "ft = py_strip (py_lower s)" and "\<not> py_in ''crt'' ft"
    and "\<not> list_ex (\<lambda>x. py_in x ft) phase_iii_markers"
    and "\<not> list_ex (\<lambda>x. py_in x ft) phase_ii_markers"
  using assms by (auto simp: categorize_cases split: if_splits)

lemma normalize_as_key: "normalize_fee_type s = canonical_key (categorize s)"
proof (cases "s = []")
  case True
  then show ?thesis
    by (simp add: normalize_fee_type_def categorize_cases py_strip_def
        phase_iii_markers_def phase_ii_markers_def)
next
  case False
  then show ?thesis
    by (simp add: normalize_fee_type_def categorize_cases Let_def)
qed

lemma categorize_key: "categorize (canonical_key (categorize s)) = categorize s"
proof (cases "categorize s")
  case (Other ft)
  note o = categorize_Other [OF Other]
  have "py_strip (py_lower ft) = ft" using o(1) by simp
  with o(2-4) Other show ?thesis by (simp add: categorize_cases)
qed simp_all

subsection \<open>Properties\<close>

text \<open>
  C1: the normaliser implements the category table of the specification: the canonical
  key of the first category (CRT, then Phase III, then Phase II) one of whose markers
  occurs in the lower-cased, stripped label, and that string itself when none does.
\<close>

theorem normalize_fee_type_refines: "normalize_fee_type s = canonical_key (categorize s)"
  by (rule normalize_as_key)

text \<open>
  C5: a label that mentions a Phase III marker and no CRT is normalised to the Phase III
  key, although every such label also contains the Phase II marker \<open>phase-ii\<close>: the
  Phase III test must come first, and it does.
\<close>

theorem normalize_phase_iii_over_ii:
  assumes "\<not> py_in ''crt'' (py_strip (py_lower s))"
    and "py_in ''phase-iii'' (py_strip (py_lower s))"
  shows "normalize_fee_type s = ''smart interviews phase-iii''
     \<and> py_in ''phase-ii'' (py_strip (py_lower s))"
proof
  have "py_in ''phase-ii'' ''phase-iii''" by simp
  then show "py_in ''phase-ii'' (py_strip (py_lower s))"
    using assms(2) by (rule py_in_trans)
  have "s \<noteq> []" using assms(2) by (auto simp: py_strip_def)
  with assms show "normalize_fee_type s = ''smart interviews phase-iii''"
    by (simp add: normalize_fee_type_def phase_iii_markers_def)
qed

theorem normalize_phase_iii_over_ii_witness:
  "normalize_fee_type '' Smart Interviews Phase-III '' = ''smart interviews phase-iii''
   \<and> py_in ''phase-ii'' (py_strip (py_lower '' Smart Interviews Phase-III ''))"
proof -
  have "\<not> py_in ''crt'' (py_strip (py_lower '' Smart Interviews Phase-III ''))"
    and "py_in ''phase-iii'' (py_strip (py_lower '' Smart Interviews Phase-III ''))"
    by code_simp+
  then show ?thesis by (rule normalize_phase_iii_over_ii)
qed

text \<open>
  C6: a stored key is stable: normalising the normaliser's output changes nothing and
  keeps its category, so a fee type normalised once at upload is matched by the same
  key when a handler normalises it again.
\<close>

theorem normalize_fee_type_key_stable:
  "normalize_fee_type (normalize_fee_type s) = normalize_fee_type s
   \<and> categorize (normalize_fee_type s) = categorize s"
  by (simp add: normalize_as_key categorize_key)

text \<open>
  C7: on a normalised fee type (the form in which uploads store them) the display labeler
  agrees with the normaliser: it shows the display name of the normaliser's category.
\<close>

theorem label_normalize_agree:
  "get_standardized_fee_type_label (normalize_fee_type s) = display_label (categorize s)"
proof (cases "categorize s")
  case (Other ft)
  note o = categorize_Other [OF Other]
  have lower: "py_lower ft = ft" using o(1) by simp
  have "\<not> (py_in ''phase-iii'' ft \<or> py_in ''phase 3'' ft)"
    and "\<not> (py_in ''phase-ii'' ft \<or> py_in ''phase 2'' ft)"
    using o(3,4) label_markers by blast+
  with o(2) lower Other show ?thesis
    by (simp add: normalize_as_key get_standardized_fee_type_label_def)
qed (simp_all add: normalize_as_key)

text \<open>The display labeler is idempotent: a shown label is shown unchanged.\<close>

theorem label_idem:
  "get_standardized_fee_type_label (get_standardized_fee_type_label s) = get_standardized_fee_type_label s"
proof -
  let ?ft = "py_lower s"
  consider (crt) "py_in ''crt'' ?ft"
    | (p3) "\<not> py_in ''crt'' ?ft" "py_in ''phase-iii'' ?ft \<or> py_in ''phase 3'' ?ft"
    | (p2) "\<not> py_in ''crt'' ?ft" "\<not> (py_in ''phase-iii'' ?ft \<or> py_in ''phase 3'' ?ft)"
        "py_in ''phase-ii'' ?ft \<or> py_in ''phase 2'' ?ft"
    | (other) "\<not> py_in ''crt'' ?ft" "\<not> (py_in ''phase-iii'' ?ft \<or> py_in ''phase 3'' ?ft)"
        "\<not> (py_in ''phase-ii'' ?ft \<or> py_in ''phase 2'' ?ft)"
    by blast
  then show ?thesis
  proof cases
    case crt
    then have "get_standardized_fee_type_label s = ''CRT''"
      by (simp add: get_standardized_fee_type_label_def)
    then show ?thesis by simp
  next
    case p3
    then have "get_standardized_fee_type_label s = ''Phase 3''"
      by (simp add: get_standardized_fee_type_label_def)
    then show ?thesis by simp
  next
    case p2
    then have "get_standardized_fee_type_label s = ''Phase 2''"
      by (simp add: get_standardized_fee_type_label_def)
    then show ?thesis by simp
  next
    case other
    then show ?thesis by (simp add: get_standardized_fee_type_label_def)
  qed
qed

text \<open>
  On raw labels the two functions disagree: ``Phase III'' is normalised to the
  Phase III key but labelled ``Phase Iii'', the gap the specification leaves open.
\<close>

theorem label_diverges_on_raw_label:
  "normalize_fee_type ''Phase III'' = ''smart interviews phase-iii''
   \<and> get_standardized_fee_type_label ''Phase III'' = ''Phase Iii''
   \<and> display_label (categorize ''Phase III'') = ''Phase 3''"
  by code_simp

end
