(* ===== verification/Like.thy ===== *)
theory Like
  imports FeeType
begin

text \<open>
  Every query that matches payments or fee entries to a fee type in
  \<open>src/fee_payments/app.py\<close> is the SQL filter
  \<open>db.func.lower(T.fee_type).like(f'%{key}%')\<close> (for instance lines 116--119, 655, 664,
  1466--1471, 1640--1645, 2220--2224).  SQLite's \<open>LIKE\<close> matches \<open>%\<close> against any
  string, \<open>_\<close> against any one character, and every other character against itself up
  to ASCII case; SQLite's \<open>lower()\<close> folds ASCII only, which is \<open>py_lower\<close>.
  \<open>like_match\<close> is that matcher, by recursion on the pattern and then the text.

  The lemmas: for a key without wildcards the filter is the substring test on the
  lower-cased strings; since the Phase II key is a prefix of the Phase III key, a filter
  on the Phase II key selects Phase III rows as well.
\<close>

fun like_match :: "string \<Rightarrow> string \<Rightarrow> bool" where
  "like_match [] t = (t = [])"
| "like_match (p # ps) t =
     (if p = CHR ''%'' then
        like_match ps t \<or> (case t of [] \<Rightarrow> False | _ # ts \<Rightarrow> like_match (p # ps) ts)
      else
        (case t of
          [] \<Rightarrow> False
        | c # ts \<Rightarrow> (p = CHR ''_'' \<or> py_lower_char p = py_lower_char c) \<and> like_match ps ts))"

definition fee_type_like :: "string \<Rightarrow> string \<Rightarrow> bool" where
  "fee_type_like column key = like_match (CHR ''%'' # key @ ''%'') (py_lower column)"

definition wildcard_free :: "string \<Rightarrow> bool" where
  "wildcard_free s \<longleftrightarrow> CHR ''%'' \<notin> set s \<and> CHR ''_'' \<notin> set s"

subsection \<open>Lemmas on the matcher\<close>

lemma like_match_percent_any [simp]: "like_match ''%'' t"
  by (induction t) simp_all

lemma like_match_prefix:
  "wildcard_free n \<Longrightarrow> like_match (n @ ''%'') t \<longleftrightarrow> prefix (py_lower n) (py_lower t)"
proof (induction n arbitrary: t)
  case (Cons p n)
  then have p: "p \<noteq> CHR ''%''" "p \<noteq> CHR ''_''" and "wildcard_free n"
    by (auto simp: wildcard_free_def)
  then show ?case
    using Cons.IH by (cases t) (simp_all add: py_lower_def)
next
  case Nil
  show ?case by (simp del: like_match.simps)
qed

lemma like_match_contains:
  "wildcard_free n \<Longrightarrow> like_match (CHR ''%'' # n @ ''%'') t \<longleftrightarrow> py_in (py_lower n) (py_lower t)"
proof (induction t)
  case Nil
  then show ?case by (simp add: like_match_prefix)
next
  case (Cons c t)
  then show ?case by (simp add: like_match_prefix py_lower_def)
qed

lemma fee_type_like_iff:
  "wildcard_free key \<Longrightarrow> fee_type_like column key \<longleftrightarrow> py_in (py_lower key) (py_lower column)"
  by (simp only: fee_type_like_def like_match_contains py_lower_idem)

lemma canonical_keys_wildcard_free [simp]:
  "wildcard_free ''crt fee''"
  "wildcard_free ''smart interviews phase-iii''"
  "wildcard_free ''smart interviews phase-ii''"
  by (simp_all add: wildcard_free_def)

lemma canonical_key_lower [simp]:
  "py_lower ''crt fee'' = ''crt fee''"
  "py_lower ''smart interviews phase-iii'' = ''smart interviews phase-iii''"
  "py_lower ''smart interviews phase-ii'' = ''smart interviews phase-ii''"
  by code_simp+

lemma phase_ii_key_in_phase_iii_key: "py_in ''smart interviews phase-ii'' ''smart interviews phase-iii''"
  by simp

end
