(* ===== verification/Status.thy ===== *)
theory Status
  imports Prelude
begin

text \<open>
  The payment-status rule.  The source repeats it inline in five handlers of
  \<open>src/fee_payments/app.py\<close> (\<open>get_payment_status_by_fee_type\<close>, lines 133--145;
  \<open>get_fee_type_summary\<close>, 683--689; \<open>student_details\<close>, 1489--1497;
  \<open>delete_paid_students\<close>, 2231--2232) always in the same form: paid if the amount paid
  reaches the fee less a tolerance of 0.01, partially paid if anything was paid, not paid
  otherwise.  The statuses are ordered (not paid, partially paid, paid) by a
  \<open>linorder\<close> instance, so that the library's order reasoning applies to them; the rule
  is monotone in that order.  \<open>unpaid_students\<close> uses a different test (lines 1658--1659,
  no tolerance), modelled as \<open>unpaid_flags\<close>.
\<close>

datatype pay_status = Not_Paid | Partially_Paid | Paid

fun status_rank :: "pay_status \<Rightarrow> nat" where
  "status_rank Not_Paid = 0"
| "status_rank Partially_Paid = 1"
| "status_rank Paid = 2"

instantiation pay_status :: linorder
begin

definition less_eq_pay_status :: "pay_status \<Rightarrow> pay_status \<Rightarrow> bool" where
  "less_eq_pay_status x y \<longleftrightarrow> status_rank x \<le> status_rank y"

definition less_pay_status :: "pay_status \<Rightarrow> pay_status \<Rightarrow> bool" where
  "less_pay_status x y \<longleftrightarrow> status_rank x < status_rank y"

instance
proof
  fix x y z :: pay_status
  show "x < y \<longleftrightarrow> x \<le> y \<and> \<not> y \<le> x" by (auto simp: less_eq_pay_status_def less_pay_status_def)
  show "x \<le> x" by (simp add: less_eq_pay_status_def)
  show "x \<le> y \<Longrightarrow> y \<le> z \<Longrightarrow> x \<le> z" by (simp add: less_eq_pay_status_def)
  show "x \<le> y \<Longrightarrow> y \<le> x \<Longrightarrow> x = y"
    by (cases x; cases y) (simp_all add: less_eq_pay_status_def)
  show "x \<le> y \<or> y \<le> x" by (auto simp: less_eq_pay_status_def)
qed

end

fun status_label :: "pay_status \<Rightarrow> string" where
  "status_label Paid = ''Paid''"
| "status_label Partially_Paid = ''Partially Paid''"
| "status_label Not_Paid = ''Not Paid''"

definition epsilon :: money where
  "epsilon = 1/100"

definition classify_payment :: "money \<Rightarrow> money \<Rightarrow> pay_status" where
  "classify_payment entry_amount paid_amount =
     (if paid_amount \<ge> entry_amount - epsilon then Paid
      else if paid_amount > 0 then Partially_Paid
      else Not_Paid)"

text \<open>
  \<open>unpaid_students\<close> decides \<open>is_not_paid = paid_amount == 0\<close> and
  \<open>is_partially_paid = 0 < paid_amount < fee_amount\<close>, with no tolerance.
\<close>

definition unpaid_flags :: "money \<Rightarrow> money \<Rightarrow> bool \<times> bool" where
  "unpaid_flags fee_amount paid_amount = (paid_amount = 0, 0 < paid_amount \<and> paid_amount < fee_amount)"

lemma pay_status_le_iff [simp]: "x \<le> y \<longleftrightarrow> status_rank x \<le> status_rank y"
  by (simp add: less_eq_pay_status_def)

lemma classify_payment_Paid_iff [money_simps]:
  "classify_payment a p = Paid \<longleftrightarrow> a - epsilon \<le> p"
  by (simp add: classify_payment_def)

lemma classify_payment_cases:
  "classify_payment a p = Paid \<and> a - epsilon \<le> p
   \<or> classify_payment a p = Partially_Paid \<and> 0 < p \<and> p < a - epsilon
   \<or> classify_payment a p = Not_Paid \<and> p \<le> 0 \<and> p < a - epsilon"
  by (auto simp: classify_payment_def)

text \<open>
  The classifier on the boundary cases of the specification: 999.99 of 1000 is paid
  (within the tolerance), 990 is partially paid, nothing is not paid, 1000 is paid.
\<close>

theorem classify_payment_examples:
  "classify_payment 1000 (99999/100) = Paid
   \<and> classify_payment 1000 990 = Partially_Paid
   \<and> classify_payment 1000 0 = Not_Paid
   \<and> classify_payment 1000 1000 = Paid"
  by (simp add: classify_payment_def epsilon_def)

text \<open>
  C8: the status is monotone: paying more never lowers it, and a smaller fee never
  lowers it either.
\<close>

theorem classify_payment_monotone:
  "p \<le> p' \<Longrightarrow> a' \<le> a \<Longrightarrow> classify_payment a p \<le> classify_payment a' p'"
  by (auto simp: classify_payment_def)

theorem classify_payment_monotone_witness:
  "classify_payment 1000 10 \<le> classify_payment 500 600"
proof -
  have "(10::money) \<le> 600" and "(500::money) \<le> 1000" by simp_all
  then show ?thesis by (rule classify_payment_monotone)
qed

end
