(* ===== verification/Store.thy ===== *)
theory Store
  imports Like Status
begin

text \<open>
  The database of the fee tracker (\<open>src/fee_payments/models.py\<close>): the tables
  \<open>student\<close>, \<open>fee_master\<close> and \<open>payment\<close> as lists of records in row-id order, so
  that \<open>.first()\<close> is the first matching element and a query's result keeps the
  table's order.  A new row gets SQLite's next row id, one more than the largest.
  \<open>paid_total\<close> is the aggregate every status computation runs:
  \<open>SUM(amount_paid)\<close> over one student's payments whose lower-cased fee type is
  \<open>LIKE '%key%'\<close>, 0 when there are none (\<open>payment.total_paid if ... else 0\<close>);
  \<open>paid_total_any\<close> is the same sum without the student filter, as two handlers run it.

  \<open>db_wf\<close> states the table invariant the schema and the specification intend:
  registration numbers are unique, row ids are unique, every fee entry and payment
  belongs to an existing student (the foreign keys, which SQLite does not enforce unless
  asked), and there is at most one fee entry per student and fee type.
\<close>

type_synonym date = "nat \<times> nat \<times> nat"

record student =
  student_id :: nat
  regd_no :: string
  name :: string
  batch_year :: string
  branch :: string
  mobile :: "string option"

record fee_entry =
  fee_id :: nat
  fee_regd_no :: string
  fee_type :: string
  amount :: money
  remarks :: "string option"

record payment =
  pay_id :: nat
  pay_regd_no :: string
  pay_batch_year :: string
  pay_fee_type :: string
  amount_paid :: money
  pay_date :: date
  received_by :: string

record fee_db =
  students :: "student list"
  fee_master :: "fee_entry list"
  payments :: "payment list"

definition next_id :: "nat list \<Rightarrow> nat" where
  "next_id ids = Suc (fold max ids 0)"

definition find_student :: "fee_db \<Rightarrow> string \<Rightarrow> student option" where
  "find_student db r = find (\<lambda>s. regd_no s = r) (students db)"

definition fees_of :: "fee_db \<Rightarrow> string \<Rightarrow> fee_entry list" where
  "fees_of db r = filter (\<lambda>e. fee_regd_no e = r) (fee_master db)"

definition matching_payments :: "fee_db \<Rightarrow> string \<Rightarrow> string \<Rightarrow> payment list" where
  "matching_payments db r key = filter (\<lambda>p. pay_regd_no p = r \<and> fee_type_like (pay_fee_type p) key) (payments db)"

definition paid_total :: "fee_db \<Rightarrow> string \<Rightarrow> string \<Rightarrow> money" where
  "paid_total db r key = sum_list (map amount_paid (matching_payments db r key))"

definition paid_total_any :: "fee_db \<Rightarrow> string \<Rightarrow> money" where
  "paid_total_any db key = sum_list (map amount_paid (filter (\<lambda>p. fee_type_like (pay_fee_type p) key) (payments db)))"

definition db_wf :: "fee_db \<Rightarrow> bool" where
  "db_wf db \<longleftrightarrow>
     distinct (map regd_no (students db))
   \<and> distinct (map student_id (students db))
   \<and> distinct (map fee_id (fee_master db))
   \<and> distinct (map pay_id (payments db))
   \<and> (\<forall>e \<in> set (fee_master db). fee_regd_no e \<in> set (map regd_no (students db)))
   \<and> (\<forall>p \<in> set (payments db). pay_regd_no p \<in> set (map regd_no (students db)))
   \<and> distinct (map (\<lambda>e. (fee_regd_no e, fee_type e)) (fee_master db))"

definition empty_db :: fee_db where
  "empty_db = \<lparr>students = [], fee_master = [], payments = []\<rparr>"

text \<open>
  A small database used by the witnesses: student R1 owes and has paid 1000 for CRT;
  student R2 owes 1000 for Phase II and has paid 1000 for Phase III only; student R3
  owes 1000 for CRT and has paid nothing.
\<close>

definition sample_student :: "nat \<Rightarrow> string \<Rightarrow> student" where
  "sample_student i r = \<lparr>student_id = i, regd_no = r, name = ''Student '' @ r,
     batch_year = ''2022-2026'', branch = ''CSE'', mobile = None\<rparr>"

definition sample_fee :: "nat \<Rightarrow> string \<Rightarrow> string \<Rightarrow> money \<Rightarrow> fee_entry" where
  "sample_fee i r t a = \<lparr>fee_id = i, fee_regd_no = r, fee_type = t, amount = a, remarks = None\<rparr>"

definition sample_payment :: "nat \<Rightarrow> string \<Rightarrow> string \<Rightarrow> money \<Rightarrow> payment" where
  "sample_payment i r t a = \<lparr>pay_id = i, pay_regd_no = r, pay_batch_year = ''2022-2026'',
     pay_fee_type = t, amount_paid = a, pay_date = (2024, 1, 15), received_by = ''Office''\<rparr>"

definition sample_db :: fee_db where
  "sample_db =
     \<lparr>students = [sample_student 1 ''R1'', sample_student 2 ''R2'', sample_student 3 ''R3''],
      fee_master = [sample_fee 1 ''R1'' ''crt fee'' 1000,
                    sample_fee 2 ''R2'' ''smart interviews phase-ii'' 1000,
                    sample_fee 3 ''R3'' ''crt fee'' 1000],
      payments = [sample_payment 1 ''R1'' ''crt fee'' 1000,
                  sample_payment 2 ''R2'' ''smart interviews phase-iii'' 1000]\<rparr>"

subsection \<open>Lemmas on the tables\<close>

lemma fold_max_ge: "m \<le> fold max ids (m::nat)"
  by (induction ids arbitrary: m) (simp_all, metis max.cobounded2 order_trans)

lemma fold_max_member: "x \<in> set ids \<Longrightarrow> x \<le> fold max ids (m::nat)"
  by (induction ids arbitrary: m) (auto intro: order_trans [OF max.cobounded1 fold_max_ge])

lemma next_id_fresh: "next_id ids \<notin> set ids"
  using fold_max_member [of _ ids 0] by (fastforce simp: next_id_def)

lemma distinct_snoc_next_id [fee_db]: "distinct ids \<Longrightarrow> distinct (ids @ [next_id ids])"
  by (simp add: next_id_fresh)

lemma find_student_Some [fee_db]: "find_student db r = Some s \<Longrightarrow> s \<in> set (students db) \<and> regd_no s = r"
  by (auto simp: find_student_def dest: find_Some_iff [THEN iffD1] simp: in_set_conv_nth)

lemma find_student_None [fee_db]: "find_student db r = None \<longleftrightarrow> r \<notin> set (map regd_no (students db))"
  by (auto simp: find_student_def find_None_iff)

lemma paid_total_nonneg:
  "(\<forall>p \<in> set (payments db). 0 \<le> amount_paid p) \<Longrightarrow> 0 \<le> paid_total db r key"
  by (auto simp: paid_total_def matching_payments_def intro!: sum_list_nonneg)

lemma paid_total_le_any: "(\<forall>p \<in> set (payments db). 0 \<le> amount_paid p) \<Longrightarrow> paid_total db r key \<le> paid_total_any db key"
proof -
  assume nn: "\<forall>p \<in> set (payments db). 0 \<le> amount_paid p"
  have "sum_list (map amount_paid (filter (\<lambda>p. pay_regd_no p = r \<and> fee_type_like (pay_fee_type p) key) ps))
        \<le> sum_list (map amount_paid (filter (\<lambda>p. fee_type_like (pay_fee_type p) key) ps))"
    if "\<forall>p \<in> set ps. 0 \<le> amount_paid p" for ps
    using that by (induction ps) auto
  with nn show ?thesis by (simp add: paid_total_def paid_total_any_def matching_payments_def)
qed

lemma empty_db_wf: "db_wf empty_db"
  by (simp add: db_wf_def empty_db_def)

end
