(* ===== verification/Money.thy ===== *)
theory Money
  imports Prelude
begin

text \<open>
  Python's \<open>round(x, 2)\<close> as the fee tracker uses it to split payments
  (\<open>src/fee_payments/app.py\<close>, lines 1110--1117, 2088--2094 and 929).  CPython
  rounds the exact value of its argument to the nearest multiple of \<open>10\<^sup>-\<^sup>2\<close>, ties to
  the even neighbour; on the rational model of money that is \<open>py_round2\<close> below.  The
  lemmas bound the rounding error, show that a result is a whole number of cents
  (\<open>is_cents\<close>), that whole cents are left alone, and that cents are closed under sums.
\<close>

definition py_round_int :: "rat \<Rightarrow> int" where
  "py_round_int x =
     (let f = \<lfloor>x\<rfloor>; d = x - of_int f in
      if d < 1/2 then f else if 1/2 < d then f + 1 else if even f then f else f + 1)"

definition py_round2 :: "money \<Rightarrow> money" where
  "py_round2 x = of_int (py_round_int (x * 100)) / 100"

definition is_cents :: "money \<Rightarrow> bool" where
  "is_cents x \<longleftrightarrow> of_int \<lfloor>x * 100\<rfloor> = x * 100"

lemma is_cents_iff: "is_cents x \<longleftrightarrow> (\<exists>k::int. x = of_int k / 100)"
proof
  assume "is_cents x"
  then have h: "of_int \<lfloor>x * 100\<rfloor> = x * 100" by (simp only: is_cents_def)
  have "x = of_int \<lfloor>x * 100\<rfloor> / 100" by (simp only: h)
  then show "\<exists>k::int. x = of_int k / 100" by blast
next
  assume "\<exists>k::int. x = of_int k / 100"
  then obtain k :: int where "x = of_int k / 100" by blast
  then have "x * 100 = of_int k" by simp
  then show "is_cents x" unfolding is_cents_def by (metis floor_of_int)
qed

lemma py_round_int_bound: "\<bar>of_int (py_round_int x) - x\<bar> \<le> 1/2"
proof -
  have "of_int \<lfloor>x\<rfloor> \<le> x" and "x < of_int \<lfloor>x\<rfloor> + 1"
    using floor_correct [of x] by simp_all
  then show ?thesis by (auto simp: py_round_int_def Let_def)
qed

lemma py_round_int_of_int [simp]: "py_round_int (of_int k) = k"
  by (simp add: py_round_int_def)

lemma py_round2_bound [money_simps]: "\<bar>py_round2 x - x\<bar> \<le> 1/200"
proof -
  have "\<bar>of_int (py_round_int (x * 100)) - x * 100\<bar> \<le> 1/2"
    by (rule py_round_int_bound)
  then show ?thesis by (simp add: py_round2_def abs_le_iff field_simps)
qed

lemma py_round2_cents [simp, money_simps]: "is_cents (py_round2 x)"
  by (auto simp: is_cents_iff py_round2_def)

lemma py_round2_of_cents [simp, money_simps]: "is_cents x \<Longrightarrow> py_round2 x = x"
  by (auto simp: is_cents_iff py_round2_def)

lemma is_cents_add [simp, money_simps]: "is_cents x \<Longrightarrow> is_cents y \<Longrightarrow> is_cents (x + y)"
proof -
  assume "is_cents x" "is_cents y"
  then obtain k l :: int where "x = of_int k / 100" "y = of_int l / 100"
    by (auto simp: is_cents_iff)
  then have "x + y = of_int (k + l) / 100" by (simp add: add_divide_distrib)
  then show ?thesis unfolding is_cents_iff by blast
qed

lemma is_cents_diff [simp, money_simps]: "is_cents x \<Longrightarrow> is_cents y \<Longrightarrow> is_cents (x - y)"
proof -
  assume "is_cents x" "is_cents y"
  then obtain k l :: int where "x = of_int k / 100" "y = of_int l / 100"
    by (auto simp: is_cents_iff)
  then have "x - y = of_int (k - l) / 100" by (simp add: diff_divide_distrib)
  then show ?thesis unfolding is_cents_iff by blast
qed

lemma is_cents_0 [simp]: "is_cents 0"
  by (simp add: is_cents_def)

lemma py_round2_mono: "x \<le> y \<Longrightarrow> py_round2 x \<le> py_round2 y"
proof -
  assume xy: "x \<le> y"
  have "py_round_int a \<le> py_round_int b" if "a \<le> b" for a b :: rat
  proof -
    have fl: "\<lfloor>a\<rfloor> = \<lfloor>b\<rfloor> \<or> \<lfloor>a\<rfloor> + 1 \<le> \<lfloor>b\<rfloor>"
      using floor_mono [OF that] by arith
    have "of_int \<lfloor>a\<rfloor> \<le> a" "a < of_int \<lfloor>a\<rfloor> + 1" "of_int \<lfloor>b\<rfloor> \<le> b" "b < of_int \<lfloor>b\<rfloor> + 1"
      using floor_correct [of a] floor_correct [of b] by simp_all
    then show ?thesis using that fl
      by (auto simp: py_round_int_def Let_def)
  qed
  then have "py_round_int (x * 100) \<le> py_round_int (y * 100)" using xy by simp
  then show ?thesis by (simp add: py_round2_def divide_right_mono)
qed

end
