(* ===== verification/Distribution.thy ===== *)
theory Distribution
  imports Money
begin

text \<open>
  The proportional payment distributor.  \<open>calculate_distribution\<close>
  (\<open>src/fee_payments/app.py\<close>, lines 2082--2097) and the multi-fee branch of the
  \<open>payments\<close> handler (lines 1105--1120) run the same loop over the fee entries
  selected for one payment: each entry gets \<open>round(total * amount / total_fee, 2)\<close>
  (an equal share when the fees sum to 0), and the last entry gets
  \<open>round(total - distributed_so_far, 2)\<close>.  \<open>dist_loop\<close> is that loop, with the
  running sum as its accumulator.

  The lemmas: one allocation per entry; when the payment is a whole number of cents the
  allocations sum to it exactly; in general they sum to it within half a cent (the last
  allocation is rounded, contrary to the specification's ``never independently
  rounded''); allocations before the last are proportional and non-negative.
\<close>

fun dist_loop :: "money \<Rightarrow> money \<Rightarrow> nat \<Rightarrow> money \<Rightarrow> money list \<Rightarrow> money list" where
  "dist_loop total_amount total_fee n distributed [] = []"
| "dist_loop total_amount total_fee n distributed (amount # rest) =
     (let share = (if total_fee > 0 then py_round2 (total_amount * (amount / total_fee))
                   else py_round2 (total_amount / of_nat n));
          share' = (if rest = [] then py_round2 (total_amount - distributed) else share)
      in share' # dist_loop total_amount total_fee n (distributed + share') rest)"

definition distribute :: "money \<Rightarrow> money list \<Rightarrow> money list" where
  "distribute total_amount amounts = dist_loop total_amount (sum_list amounts) (length amounts) 0 amounts"

subsection \<open>Lemmas on the loop\<close>

lemma length_dist_loop [simp]: "length (dist_loop t f n d as) = length as"
  by (induction t f n d as rule: dist_loop.induct) (simp_all add: Let_def)

lemma dist_loop_cents: "x \<in> set (dist_loop t f n d as) \<Longrightarrow> is_cents x"
  by (induction t f n d as rule: dist_loop.induct) (auto simp: Let_def)

lemma dist_loop_sum_exact:
  "is_cents t \<Longrightarrow> is_cents d \<Longrightarrow> as \<noteq> [] \<Longrightarrow> sum_list (dist_loop t f n d as) = t - d"
proof (induction t f n d as rule: dist_loop.induct)
  case (2 t f n d a rest)
  show ?case
  proof (cases "rest = []")
    case True
    with "2.prems" show ?thesis by simp
  next
    case False
    let ?s = "if f > 0 then py_round2 (t * (a / f)) else py_round2 (t / of_nat n)"
    have "is_cents ?s" by simp
    with "2.prems" have "is_cents (d + ?s)" by simp
    with "2.IH" [of ?s ?s] "2.prems" False
    have "sum_list (dist_loop t f n (d + ?s) rest) = t - (d + ?s)"
      by (simp add: Let_def)
    with False show ?thesis by (simp add: Let_def)
  qed
qed simp

lemma dist_loop_sum_last:
  "as \<noteq> [] \<Longrightarrow> \<exists>l. d + sum_list (dist_loop t f n d as) = l + py_round2 (t - l)"
proof (induction t f n d as rule: dist_loop.induct)
  case (2 t f n d a rest)
  show ?case
  proof (cases "rest = []")
    case True
    then show ?thesis by auto
  next
    case False
    let ?s = "if f > 0 then py_round2 (t * (a / f)) else py_round2 (t / of_nat n)"
    from "2.IH" [of ?s ?s] False obtain l
      where "d + ?s + sum_list (dist_loop t f n (d + ?s) rest) = l + py_round2 (t - l)"
      by (auto simp: Let_def)
    with False show ?thesis by (auto simp: Let_def add.assoc)
  qed
qed simp

lemma dist_loop_nth:
  "i + 1 < length as \<Longrightarrow> 0 < f \<Longrightarrow>
   dist_loop t f n d as ! i = py_round2 (t * (as ! i / f))"
proof (induction t f n d as arbitrary: i rule: dist_loop.induct)
  case (2 t f n d a rest)
  then show ?case by (cases i) (auto simp: Let_def)
qed simp

subsection \<open>Properties\<close>

text \<open>
  C9: when the payment is a whole number of cents, the allocations of a non-empty
  selection of fees add up to exactly the payment, whatever the fee amounts.
\<close>

theorem distribute_sum_exact:
  assumes "is_cents total_amount" and "amounts \<noteq> []"
  shows "sum_list (distribute total_amount amounts) = total_amount"
  using dist_loop_sum_exact [OF assms(1) is_cents_0 assms(2)] by (simp add: distribute_def)

theorem distribute_sum_exact_witness: "sum_list (distribute 100 [10000, 10000, 10000]) = 100"
proof -
  have "is_cents (100::money)" by (simp add: is_cents_def)
  then show ?thesis by (rule distribute_sum_exact) simp
qed

text \<open>
  C10: for any payment the allocations add up to it within half a cent: only the last
  allocation's rounding is lost.
\<close>

theorem distribute_sum_bound:
  assumes "amounts \<noteq> []"
  shows "\<bar>sum_list (distribute total_amount amounts) - total_amount\<bar> \<le> 1/200"
proof -
  obtain l where eq: "sum_list (distribute total_amount amounts) = l + py_round2 (total_amount - l)"
    using dist_loop_sum_last [OF assms, of 0 total_amount] by (auto simp: distribute_def)
  have "\<bar>py_round2 (total_amount - l) - (total_amount - l)\<bar> \<le> 1/200"
    by (rule py_round2_bound)
  then show ?thesis unfolding eq by linarith
qed

theorem distribute_sum_bound_witness:
  "\<bar>sum_list (distribute (1/1000) [1, 1]) - 1/1000\<bar> \<le> (1/200 :: money)"
  by (rule distribute_sum_bound) simp

text \<open>
  The specification's promise that the allocations sum to the payment exactly, with
  the last one never independently rounded, does not hold of the code: a payment of
  0.001 over two equal fees is allocated nothing at all, and 0.025 is allocated 0.01 and
  0.02, which sum to 0.03.
\<close>

theorem distribute_rounds_last_share:
  "distribute (1/1000) [1, 1] = [0, 0]
   \<and> distribute (25/1000) [1, 1] = [1/100, 2/100]"
  by code_simp

text \<open>
  C11: every allocation but the last is the payment's share in proportion to the fee's
  original amount, rounded to the cent; there is one allocation per fee.
\<close>

theorem distribute_proportional:
  assumes "i + 1 < length amounts" and "0 < sum_list amounts"
  shows "distribute total_amount amounts ! i
           = py_round2 (total_amount * (amounts ! i / sum_list amounts))
     \<and> length (distribute total_amount amounts) = length amounts"
  using dist_loop_nth [OF assms] by (simp add: distribute_def)

theorem distribute_proportional_witness:
  "distribute 100 [10000, 20000, 20000] ! 0 = py_round2 (100 * (10000 / 50000))
   \<and> length (distribute 100 [10000, 20000, 20000]) = 3"
  using distribute_proportional [of 0 "[10000, 20000, 20000]" 100] by simp

text \<open>
  The last allocation can be negative: twelve equal fees and a payment of 0.20 give
  eleven shares of 0.02 and a last share of -0.02, which the payments handler records as
  a payment of -0.02.
\<close>

theorem distribute_last_share_negative:
  "last (distribute (1/5) (replicate 12 1000)) = - (1/50)"
  by code_simp

end
