(* ===== verification/Payments.thy ===== *)
theory Payments
  imports Store Distribution
begin

text \<open>
  The POST branch of the \<open>payments\<close> handler (\<open>src/fee_payments/app.py\<close>, lines
  1016--1198), which records a payment.  The form's fee types are split at \<open>|\<close>,
  stripped, blanks dropped and normalised (\<open>normalized_fee_types\<close>).  All seven fields
  must be non-empty; the amount is read by \<open>float()\<close> and the date by
  \<open>strptime('%Y-%m-%d')\<close>, both given here as parameters (\<open>parse_float\<close>,
  \<open>parse_date\<close>) that return \<open>None\<close> where Python raises.  With several fee types the
  first fee entry of the student \<open>LIKE\<close> each key is looked up
  (\<open>first_fee_entry\<close>), the amount is distributed over those entries in proportion to
  their amounts (\<open>Distribution.distribute\<close>) and one payment row is added per entry;
  with one fee type a single row is added, under the fee type of the first matching
  entry or else the key.  Errors are values of \<open>pay_error\<close>: the flash-and-return
  branches, and the exception of \<open>float()\<close> caught by the outer handler.  The handler
  never looks at whether the student exists (\<open>student_name = "Unknown"\<close>) nor at the
  sign of the amount.

  The query that sums existing payments for each fee type (lines 1077--1081) filters on
  \<open>FeeMaster.fee_type\<close> while selecting from \<open>Payment\<close>; its result only feeds the unused
  \<open>remaining\<close> field, so it is not modelled.
\<close>

datatype pay_error = Missing_Fields | Invalid_Amount | No_Matching_Fees | Invalid_Date

record payment_form =
  pf_regd_no :: string
  pf_batch_year :: string
  pf_fee_type_combined :: string
  pf_method :: string
  pf_amount :: string
  pf_date :: string
  pf_received_by :: string

definition normalized_fee_types :: "string \<Rightarrow> string list" where
  "normalized_fee_types combined =
     map normalize_fee_type
       (filter (\<lambda>t. t \<noteq> []) (map py_strip (if combined = [] then [] else py_split CHR ''|'' combined)))"

definition first_fee_entry :: "fee_db \<Rightarrow> string \<Rightarrow> string \<Rightarrow> fee_entry option" where
  "first_fee_entry db r key = find (\<lambda>e. fee_type_like (fee_type e) (py_lower key)) (fees_of db r)"

definition add_payment :: "string \<Rightarrow> string \<Rightarrow> date \<Rightarrow> string \<Rightarrow> fee_db \<Rightarrow> string \<times> money \<Rightarrow> fee_db" where
  "add_payment r by d rb db fa =
     db\<lparr>payments := payments db @
          [\<lparr>pay_id = next_id (map pay_id (payments db)), pay_regd_no = r, pay_batch_year = by,
            pay_fee_type = fst fa, amount_paid = snd fa, pay_date = d, received_by = rb\<rparr>]\<rparr>"

definition form_complete :: "payment_form \<Rightarrow> string list \<Rightarrow> bool" where
  "form_complete f fts \<longleftrightarrow>
     pf_regd_no f \<noteq> [] \<and> pf_batch_year f \<noteq> [] \<and> fts \<noteq> [] \<and> pf_method f \<noteq> []
   \<and> pf_amount f \<noteq> [] \<and> pf_date f \<noteq> [] \<and> pf_received_by f \<noteq> []"

definition record_payment ::
  "(string \<Rightarrow> money option) \<Rightarrow> (string \<Rightarrow> date option) \<Rightarrow> payment_form \<Rightarrow> fee_db \<Rightarrow> pay_error + fee_db" where
  "record_payment parse_float parse_date f db =
     (let fts = normalized_fee_types (pf_fee_type_combined f); r = pf_regd_no f in
      if \<not> form_complete f fts then Inl Missing_Fields
      else case parse_float (pf_amount f) of
        None \<Rightarrow> Inl Invalid_Amount
      | Some total_amount \<Rightarrow>
          if 1 < length fts then
            (let student_fees = List.map_filter (first_fee_entry db r) fts in
             if student_fees = [] then Inl No_Matching_Fees
             else case parse_date (pf_date f) of
               None \<Rightarrow> Inl Invalid_Date
             | Some d \<Rightarrow>
                 Inr (foldl (add_payment r (pf_batch_year f) d (pf_received_by f)) db
                        (zip (map fee_type student_fees) (distribute total_amount (map amount student_fees)))))
          else
            (let ft = (case first_fee_entry db r (hd fts) of Some e \<Rightarrow> fee_type e | None \<Rightarrow> hd fts) in
             case parse_date (pf_date f) of
               None \<Rightarrow> Inl Invalid_Date
             | Some d \<Rightarrow> Inr (add_payment r (pf_batch_year f) d (pf_received_by f) db (ft, total_amount))))"

text \<open>
  Fixtures for the witnesses: a form, the parsers on the strings the witnesses use, and
  a database in which student R6's Phase III fee entry precedes their Phase II entry.
\<close>

definition sample_form :: "string \<Rightarrow> string \<Rightarrow> string \<Rightarrow> payment_form" where
  "sample_form r fts a = \<lparr>pf_regd_no = r, pf_batch_year = ''2022-2026'', pf_fee_type_combined = fts,
     pf_method = ''cash'', pf_amount = a, pf_date = ''2024-01-15'', pf_received_by = ''Office''\<rparr>"

definition sample_parse_float :: "string \<Rightarrow> money option" where
  "sample_parse_float s =
     (if s = ''100'' then Some 100 else if s = ''-50'' then Some (-50) else if s = ''3000'' then Some 3000 else None)"

definition sample_parse_date :: "string \<Rightarrow> date option" where
  "sample_parse_date s = (if s = ''2024-01-15'' then Some (2024, 1, 15) else None)"

definition order_db :: fee_db where
  "order_db =
     \<lparr>students = [sample_student 6 ''R6''],
      fee_master = [sample_fee 6 ''R6'' ''smart interviews phase-iii'' 1000,
                    sample_fee 7 ''R6'' ''smart interviews phase-ii'' 2000],
      payments = []\<rparr>"

subsection \<open>Lemmas on adding payment rows\<close>

lemma add_payment_tables [simp]:
  "students (add_payment r by d rb db fa) = students db"
  "fee_master (add_payment r by d rb db fa) = fee_master db"
  by (simp_all add: add_payment_def)

lemma foldl_add_payment_tables [simp]:
  "students (foldl (add_payment r by d rb) db fas) = students db"
  "fee_master (foldl (add_payment r by d rb) db fas) = fee_master db"
  by (induction fas arbitrary: db) simp_all

lemma foldl_add_payment_rows:
  "\<exists>new. payments (foldl (add_payment r by d rb) db fas) = payments db @ new
     \<and> map (\<lambda>p. (pay_fee_type p, amount_paid p)) new = fas
     \<and> (\<forall>p \<in> set new. pay_regd_no p = r \<and> pay_batch_year p = by \<and> pay_date p = d \<and> received_by p = rb)"
proof (induction fas arbitrary: db)
  case (Cons fa fas)
  obtain new where ih: "payments (foldl (add_payment r by d rb) (add_payment r by d rb db fa) fas)
                      = payments (add_payment r by d rb db fa) @ new"
    and ih_map: "map (\<lambda>p. (pay_fee_type p, amount_paid p)) new = fas"
    and ih_all: "\<forall>p \<in> set new. pay_regd_no p = r \<and> pay_batch_year p = by \<and> pay_date p = d \<and> received_by p = rb"
    using Cons.IH by blast
  define row where "row = last (payments (add_payment r by d rb db fa))"
  have rows: "payments (add_payment r by d rb db fa) = payments db @ [row]"
    and row_fa: "(pay_fee_type row, amount_paid row) = fa"
    and row_all: "pay_regd_no row = r \<and> pay_batch_year row = by \<and> pay_date row = d \<and> received_by row = rb"
    by (simp_all add: row_def add_payment_def)
  have "payments (foldl (add_payment r by d rb) db (fa # fas)) = payments db @ row # new"
    using ih rows by simp
  moreover have "map (\<lambda>p. (pay_fee_type p, amount_paid p)) (row # new) = fa # fas"
    using ih_map row_fa by simp
  moreover have "\<forall>p \<in> set (row # new). pay_regd_no p = r \<and> pay_batch_year p = by \<and> pay_date p = d \<and> received_by p = rb"
    using ih_all row_all by simp
  ultimately show ?case by (intro exI [of _ "row # new"] conjI)
qed simp

lemma add_payment_wf [fee_db]:
  "db_wf db \<Longrightarrow> r \<in> set (map regd_no (students db)) \<Longrightarrow> db_wf (add_payment r by d rb db fa)"
  using next_id_fresh [of "map pay_id (payments db)"] by (simp add: db_wf_def add_payment_def)

lemma foldl_add_payment_wf [fee_db]:
  "db_wf db \<Longrightarrow> r \<in> set (map regd_no (students db)) \<Longrightarrow> db_wf (foldl (add_payment r by d rb) db fas)"
  by (induction fas arbitrary: db) (simp_all add: add_payment_wf)

lemma record_payment_Inr:
  assumes "record_payment parse_float parse_date f db = Inr db'"
  obtains t d where "parse_float (pf_amount f) = Some t" and "parse_date (pf_date f) = Some d"
    and "form_complete f (normalized_fee_types (pf_fee_type_combined f))"
    and "1 < length (normalized_fee_types (pf_fee_type_combined f))"
    and "List.map_filter (first_fee_entry db (pf_regd_no f)) (normalized_fee_types (pf_fee_type_combined f)) \<noteq> []"
    and "db' = foldl (add_payment (pf_regd_no f) (pf_batch_year f) d (pf_received_by f)) db
                 (zip (map fee_type (List.map_filter (first_fee_entry db (pf_regd_no f)) (normalized_fee_types (pf_fee_type_combined f))))
                      (distribute t (map amount (List.map_filter (first_fee_entry db (pf_regd_no f)) (normalized_fee_types (pf_fee_type_combined f))))))"
  | t d ft where "parse_float (pf_amount f) = Some t" and "parse_date (pf_date f) = Some d"
    and "form_complete f (normalized_fee_types (pf_fee_type_combined f))"
    and "\<not> 1 < length (normalized_fee_types (pf_fee_type_combined f))"
    and "db' = add_payment (pf_regd_no f) (pf_batch_year f) d (pf_received_by f) db (ft, t)"
  using assms by (auto simp: record_payment_def Let_def split: if_splits option.splits)

lemma map_amount_paid_rows:
  "map (\<lambda>p. (pay_fee_type p, amount_paid p)) new = fas \<Longrightarrow> map amount_paid new = map snd fas"
  by (induction new arbitrary: fas) auto

lemma sum_distribute_rows:
  assumes "is_cents t" and "es \<noteq> []"
  shows "sum_list (map snd (zip (map fee_type es) (distribute t (map amount es)))) = t"
proof -
  have "length (map fee_type es) = length (distribute t (map amount es))"
    by (simp add: distribute_def)
  then have "map snd (zip (map fee_type es) (distribute t (map amount es))) = distribute t (map amount es)"
    by (rule map_snd_zip)
  with dist_loop_sum_exact [OF assms(1) is_cents_0] assms(2) show ?thesis
    by (simp add: distribute_def)
qed

lemma record_payment_multi_Inr:
  assumes "record_payment parse_float parse_date f db = Inr db'"
    and "parse_float (pf_amount f) = Some t"
    and "1 < length (normalized_fee_types (pf_fee_type_combined f))"
  shows "\<exists>new. payments db' = payments db @ new
     \<and> map (\<lambda>p. (pay_fee_type p, amount_paid p)) new
         = zip (map fee_type (List.map_filter (first_fee_entry db (pf_regd_no f)) (normalized_fee_types (pf_fee_type_combined f))))
               (distribute t (map amount (List.map_filter (first_fee_entry db (pf_regd_no f)) (normalized_fee_types (pf_fee_type_combined f)))))
     \<and> (\<forall>p \<in> set new. pay_regd_no p = pf_regd_no f \<and> pay_batch_year p = pf_batch_year f)"
  using assms(1)
proof (cases rule: record_payment_Inr)
  case (1 t' d)
  let ?es = "List.map_filter (first_fee_entry db (pf_regd_no f)) (normalized_fee_types (pf_fee_type_combined f))"
  let ?fas = "zip (map fee_type ?es) (distribute t (map amount ?es))"
  obtain new where "payments (foldl (add_payment (pf_regd_no f) (pf_batch_year f) d (pf_received_by f)) db ?fas) = payments db @ new"
    and "map (\<lambda>p. (pay_fee_type p, amount_paid p)) new = ?fas"
    and "\<forall>p \<in> set new. pay_regd_no p = pf_regd_no f \<and> pay_batch_year p = pf_batch_year f"
    using foldl_add_payment_rows [of "pf_regd_no f" "pf_batch_year f" d "pf_received_by f" db ?fas] by blast
  moreover have "db' = foldl (add_payment (pf_regd_no f) (pf_batch_year f) d (pf_received_by f)) db ?fas"
    using 1 assms(2) by simp
  ultimately show ?thesis by blast
next
  case 2
  with assms(3) show ?thesis by simp
qed

lemma rows_zip_iff:
  assumes "length xs = length (ys :: money list)"
  shows "map (\<lambda>p. (pay_fee_type p, amount_paid p)) new = zip xs ys
     \<longleftrightarrow> map pay_fee_type new = xs \<and> map amount_paid new = ys"
proof
  assume m: "map (\<lambda>p. (pay_fee_type p, amount_paid p)) new = zip xs ys"
  have "map pay_fee_type new = map fst (zip xs ys)"
    using arg_cong [OF m, of "map fst"] by (simp add: comp_def)
  moreover have "map amount_paid new = map snd (zip xs ys)"
    using arg_cong [OF m, of "map snd"] by (simp add: comp_def)
  ultimately show "map pay_fee_type new = xs \<and> map amount_paid new = ys"
    using assms by simp
next
  assume "map pay_fee_type new = xs \<and> map amount_paid new = ys"
  then show "map (\<lambda>p. (pay_fee_type p, amount_paid p)) new = zip xs ys"
  proof (induction new arbitrary: xs ys)
    case (Cons p new)
    then show ?case by auto
  qed simp
qed

subsection \<open>Properties of the handler\<close>

text \<open>
  C19: recording a payment for a registered student keeps the table invariant: the new
  rows get fresh ids and belong to an existing student; the other tables are unchanged.
\<close>

theorem record_payment_preserves_wf:
  assumes "db_wf db" and "find_student db (pf_regd_no f) \<noteq> None"
    and "record_payment parse_float parse_date f db = Inr db'"
  shows "db_wf db'"
proof -
  have r: "pf_regd_no f \<in> set (map regd_no (students db))"
    using assms(2) by (simp add: find_student_None)
  from assms(3) show ?thesis
    by (cases rule: record_payment_Inr) (simp_all only: foldl_add_payment_wf add_payment_wf assms(1) r)
qed

theorem record_payment_preserves_wf_witness:
  "record_payment sample_parse_float sample_parse_date (sample_form ''R6'' ''Phase 2|Phase 3'' ''3000'') order_db
     = Inr (projr (record_payment sample_parse_float sample_parse_date (sample_form ''R6'' ''Phase 2|Phase 3'' ''3000'') order_db))
   \<and> db_wf (projr (record_payment sample_parse_float sample_parse_date (sample_form ''R6'' ''Phase 2|Phase 3'' ''3000'') order_db))"
proof -
  have ok: "record_payment sample_parse_float sample_parse_date (sample_form ''R6'' ''Phase 2|Phase 3'' ''3000'') order_db
     = Inr (projr (record_payment sample_parse_float sample_parse_date (sample_form ''R6'' ''Phase 2|Phase 3'' ''3000'') order_db))"
    by code_simp
  have "db_wf order_db" and "find_student order_db (pf_regd_no (sample_form ''R6'' ''Phase 2|Phase 3'' ''3000'')) \<noteq> None"
    by code_simp+
  from record_payment_preserves_wf [OF this ok] ok show ?thesis by simp
qed

text \<open>
  C20: a recorded payment leaves the students and fee entries unchanged and adds rows
  whose amounts sum exactly to the amount entered, when that amount is a whole number of
  cents (over several fee types through the distributor's last-share remainder).
\<close>

theorem record_payment_conserves_amount:
  assumes "record_payment parse_float parse_date f db = Inr db'"
    and "parse_float (pf_amount f) = Some t" and "is_cents t"
  shows "students db' = students db \<and> fee_master db' = fee_master db
       \<and> sum_list (map amount_paid (payments db')) = sum_list (map amount_paid (payments db)) + t"
  using assms(1)
proof (cases rule: record_payment_Inr)
  case (1 t' d)
  let ?es = "List.map_filter (first_fee_entry db (pf_regd_no f)) (normalized_fee_types (pf_fee_type_combined f))"
  let ?fas = "zip (map fee_type ?es) (distribute t (map amount ?es))"
  obtain new where "payments db' = payments db @ new" and "map amount_paid new = map snd ?fas"
    using foldl_add_payment_rows [of "pf_regd_no f" "pf_batch_year f" d "pf_received_by f" db ?fas]
      1 assms(2) by (auto dest: map_amount_paid_rows)
  with sum_distribute_rows [OF assms(3) \<open>?es \<noteq> []\<close>] 1 show ?thesis by simp
next
  case (2 t' d ft)
  with assms(2) show ?thesis by (simp add: add_payment_def)
qed

theorem record_payment_conserves_amount_witness:
  "students (projr (record_payment sample_parse_float sample_parse_date (sample_form ''R6'' ''Phase 2|Phase 3'' ''3000'') order_db)) = students order_db
   \<and> sum_list (map amount_paid (payments (projr (record_payment sample_parse_float sample_parse_date (sample_form ''R6'' ''Phase 2|Phase 3'' ''3000'') order_db))))
       = sum_list (map amount_paid (payments order_db)) + 3000"
proof -
  have ok: "record_payment sample_parse_float sample_parse_date (sample_form ''R6'' ''Phase 2|Phase 3'' ''3000'') order_db
     = Inr (projr (record_payment sample_parse_float sample_parse_date (sample_form ''R6'' ''Phase 2|Phase 3'' ''3000'') order_db))"
    by code_simp
  have "sample_parse_float (pf_amount (sample_form ''R6'' ''Phase 2|Phase 3'' ''3000'')) = Some 3000" and "is_cents (3000::money)"
    by (simp_all add: sample_parse_float_def sample_form_def is_cents_def)
  from record_payment_conserves_amount [OF ok this] show ?thesis by simp
qed

text \<open>
  C21: the handler records a payment exactly when all seven fields are filled in, the
  amount and the date parse, and, when several fee types are selected, at least one of
  them matches a fee entry of the student; otherwise it returns an error and adds
  nothing.
\<close>

theorem record_payment_succeeds_iff:
  "(\<exists>db'. record_payment parse_float parse_date f db = Inr db')
   \<longleftrightarrow> form_complete f (normalized_fee_types (pf_fee_type_combined f))
     \<and> parse_float (pf_amount f) \<noteq> None \<and> parse_date (pf_date f) \<noteq> None
     \<and> (1 < length (normalized_fee_types (pf_fee_type_combined f))
          \<longrightarrow> List.map_filter (first_fee_entry db (pf_regd_no f)) (normalized_fee_types (pf_fee_type_combined f)) \<noteq> [])"
  by (auto simp: record_payment_def Let_def split: option.splits)

theorem record_payment_succeeds_iff_witness:
  "\<not> (\<exists>db'. record_payment sample_parse_float sample_parse_date (sample_form ''R6'' ''CRT|Other'' ''100'') order_db = Inr db')
   \<and> (\<exists>db'. record_payment sample_parse_float sample_parse_date (sample_form ''R6'' ''CRT'' ''100'') order_db = Inr db')"
proof -
  have "\<not> (form_complete (sample_form ''R6'' ''CRT|Other'' ''100'') (normalized_fee_types (pf_fee_type_combined (sample_form ''R6'' ''CRT|Other'' ''100'')))
     \<and> sample_parse_float (pf_amount (sample_form ''R6'' ''CRT|Other'' ''100'')) \<noteq> None
     \<and> sample_parse_date (pf_date (sample_form ''R6'' ''CRT|Other'' ''100'')) \<noteq> None
     \<and> (1 < length (normalized_fee_types (pf_fee_type_combined (sample_form ''R6'' ''CRT|Other'' ''100'')))
          \<longrightarrow> List.map_filter (first_fee_entry order_db (pf_regd_no (sample_form ''R6'' ''CRT|Other'' ''100'')))
                (normalized_fee_types (pf_fee_type_combined (sample_form ''R6'' ''CRT|Other'' ''100''))) \<noteq> []))"
    by code_simp
  moreover have "form_complete (sample_form ''R6'' ''CRT'' ''100'') (normalized_fee_types (pf_fee_type_combined (sample_form ''R6'' ''CRT'' ''100'')))
     \<and> sample_parse_float (pf_amount (sample_form ''R6'' ''CRT'' ''100'')) \<noteq> None
     \<and> sample_parse_date (pf_date (sample_form ''R6'' ''CRT'' ''100'')) \<noteq> None
     \<and> (1 < length (normalized_fee_types (pf_fee_type_combined (sample_form ''R6'' ''CRT'' ''100'')))
          \<longrightarrow> List.map_filter (first_fee_entry order_db (pf_regd_no (sample_form ''R6'' ''CRT'' ''100'')))
                (normalized_fee_types (pf_fee_type_combined (sample_form ''R6'' ''CRT'' ''100''))) \<noteq> [])"
    by code_simp
  ultimately show ?thesis
    using record_payment_succeeds_iff [of sample_parse_float sample_parse_date "sample_form ''R6'' ''CRT|Other'' ''100''" order_db]
      record_payment_succeeds_iff [of sample_parse_float sample_parse_date "sample_form ''R6'' ''CRT'' ''100''" order_db]
    by blast
qed

text \<open>
  With several fee types, the rows added are one per matched fee entry, in the order
  the fee types were selected, under the entry's exact fee type, with the distributor's
  allocation of the amount, for the student and batch year of the form.
\<close>

theorem record_payment_multi_rows:
  assumes "record_payment parse_float parse_date f db = Inr db'"
    and "parse_float (pf_amount f) = Some t"
    and "1 < length (normalized_fee_types (pf_fee_type_combined f))"
  shows "\<exists>new. payments db' = payments db @ new
     \<and> map pay_fee_type new = map fee_type (List.map_filter (first_fee_entry db (pf_regd_no f)) (normalized_fee_types (pf_fee_type_combined f)))
     \<and> map amount_paid new = distribute t (map amount (List.map_filter (first_fee_entry db (pf_regd_no f)) (normalized_fee_types (pf_fee_type_combined f))))
     \<and> (\<forall>p \<in> set new. pay_regd_no p = pf_regd_no f \<and> pay_batch_year p = pf_batch_year f)"
proof -
  let ?es = "List.map_filter (first_fee_entry db (pf_regd_no f)) (normalized_fee_types (pf_fee_type_combined f))"
  obtain new where "payments db' = payments db @ new"
    and "map (\<lambda>p. (pay_fee_type p, amount_paid p)) new = zip (map fee_type ?es) (distribute t (map amount ?es))"
    and "\<forall>p \<in> set new. pay_regd_no p = pf_regd_no f \<and> pay_batch_year p = pf_batch_year f"
    using record_payment_multi_Inr [OF assms] by blast
  moreover have "length (map fee_type ?es) = length (distribute t (map amount ?es))"
    by (simp add: distribute_def)
  ultimately show ?thesis by (auto simp: rows_zip_iff)
qed

theorem record_payment_multi_rows_witness:
  "map pay_fee_type (payments (projr (record_payment sample_parse_float sample_parse_date (sample_form ''R6'' ''Phase 2|Phase 3'' ''3000'') order_db)))
     = [''smart interviews phase-iii'', ''smart interviews phase-iii'']"
proof -
  have ok: "record_payment sample_parse_float sample_parse_date (sample_form ''R6'' ''Phase 2|Phase 3'' ''3000'') order_db
     = Inr (projr (record_payment sample_parse_float sample_parse_date (sample_form ''R6'' ''Phase 2|Phase 3'' ''3000'') order_db))"
    by code_simp
  have amt: "sample_parse_float (pf_amount (sample_form ''R6'' ''Phase 2|Phase 3'' ''3000'')) = Some 3000"
    by (simp add: sample_parse_float_def sample_form_def)
  have "1 < length (normalized_fee_types (pf_fee_type_combined (sample_form ''R6'' ''Phase 2|Phase 3'' ''3000'')))"
    by code_simp
  from record_payment_multi_rows [OF ok amt this] obtain new where
    "payments (projr (record_payment sample_parse_float sample_parse_date (sample_form ''R6'' ''Phase 2|Phase 3'' ''3000'') order_db)) = payments order_db @ new"
    and "map pay_fee_type new = map fee_type (List.map_filter (first_fee_entry order_db ''R6'') (normalized_fee_types ''Phase 2|Phase 3''))"
    by (auto simp: sample_form_def)
  moreover have "map fee_type (List.map_filter (first_fee_entry order_db ''R6'') (normalized_fee_types ''Phase 2|Phase 3''))
     = [''smart interviews phase-iii'', ''smart interviews phase-iii'']"
    by code_simp
  ultimately show ?thesis by (simp add: order_db_def)
qed

text \<open>
  C3: the handler checks neither that the student exists nor the sign of the amount:
  for every database, a complete form with one fee type whose amount and date parse
  records exactly one row for the form's registration number with the parsed amount,
  whatever that number and that amount are; when no student has that registration
  number, the database afterwards breaks the table invariant.
\<close>

theorem record_payment_accepts_unknown_student:
  assumes "length (normalized_fee_types (pf_fee_type_combined f)) = 1"
    and "form_complete f (normalized_fee_types (pf_fee_type_combined f))"
    and "parse_float (pf_amount f) = Some t" and "parse_date (pf_date f) = Some d"
  shows "\<exists>db' p. record_payment parse_float parse_date f db = Inr db'
     \<and> payments db' = payments db @ [p] \<and> pay_regd_no p = pf_regd_no f \<and> amount_paid p = t
     \<and> (find_student db (pf_regd_no f) = None \<longrightarrow> \<not> db_wf db')"
proof -
  let ?ft = "case first_fee_entry db (pf_regd_no f) (hd (normalized_fee_types (pf_fee_type_combined f))) of
               Some e \<Rightarrow> fee_type e | None \<Rightarrow> hd (normalized_fee_types (pf_fee_type_combined f))"
  let ?db' = "add_payment (pf_regd_no f) (pf_batch_year f) d (pf_received_by f) db (?ft, t)"
  have rp: "record_payment parse_float parse_date f db = Inr ?db'"
    using assms by (simp add: record_payment_def Let_def)
  have "find_student db (pf_regd_no f) = None \<Longrightarrow> \<not> db_wf ?db'"
    by (simp add: find_student_None db_wf_def add_payment_def)
  with rp show ?thesis
    by (intro exI [of _ ?db'] exI [of _ "last (payments ?db')"]) (simp add: add_payment_def)
qed

theorem record_payment_accepts_unknown_student_witness:
  "\<exists>db' p. record_payment sample_parse_float sample_parse_date (sample_form ''R9'' ''CRT'' ''-50'') sample_db = Inr db'
     \<and> payments db' = payments sample_db @ [p] \<and> pay_regd_no p = ''R9'' \<and> amount_paid p = -50 \<and> \<not> db_wf db'"
proof -
  have "length (normalized_fee_types (pf_fee_type_combined (sample_form ''R9'' ''CRT'' ''-50''))) = 1"
    and "form_complete (sample_form ''R9'' ''CRT'' ''-50'') (normalized_fee_types (pf_fee_type_combined (sample_form ''R9'' ''CRT'' ''-50'')))"
    and "sample_parse_float (pf_amount (sample_form ''R9'' ''CRT'' ''-50'')) = Some (-50)"
    and "sample_parse_date (pf_date (sample_form ''R9'' ''CRT'' ''-50'')) = Some (2024, 1, 15)"
    and "find_student sample_db (pf_regd_no (sample_form ''R9'' ''CRT'' ''-50'')) = None"
    by code_simp+
  with record_payment_accepts_unknown_student [of "sample_form ''R9'' ''CRT'' ''-50''" sample_parse_float "-50" sample_parse_date "(2024, 1, 15)" sample_db]
  show ?thesis by (simp add: sample_form_def)
qed

text \<open>
  A payment for Phase 2 can be recorded under the Phase III fee type.  Student R6's
  Phase III entry precedes their Phase II entry; the first entry \<open>LIKE\<close> the Phase II
  key is the Phase III one, so a Phase 2 payment is stored as Phase III, and a payment
  for Phase 2 and Phase 3 together is split between two Phase III rows, leaving the
  Phase II fee unpaid.
\<close>

theorem phase_2_payment_recorded_as_phase_iii:
  "map_sum id (\<lambda>db. map (\<lambda>p. (pay_fee_type p, amount_paid p)) (payments db))
     (record_payment sample_parse_float sample_parse_date (sample_form ''R6'' ''Phase 2'' ''100'') order_db)
     = Inr [(''smart interviews phase-iii'', 100)]
   \<and> map_sum id (\<lambda>db. map (\<lambda>p. (pay_fee_type p, amount_paid p)) (payments db))
     (record_payment sample_parse_float sample_parse_date (sample_form ''R6'' ''Phase 2|Phase 3'' ''3000'') order_db)
     = Inr [(''smart interviews phase-iii'', 1500), (''smart interviews phase-iii'', 1500)]"
  by code_simp

end
