(* ===== verification/Preview.thy ===== *)
theory Preview
  imports Payments
begin

text \<open>
  The distribution preview (\<open>calculate_distribution\<close>, \<open>src/fee_payments/app.py\<close>, lines
  2026--2120), the JSON endpoint the payment form calls before a multi-fee payment is
  submitted.  For each requested fee type it looks up the student's first fee entry
  \<open>LIKE\<close> the normalised key (\<open>fee_detail_of\<close>), with the student's paid total and the
  remaining amount, and then runs the same distribution loop as the payment handler
  (\<open>Distribution.distribute\<close>).  The JSON body is a record of optional fields, \<open>None\<close>
  standing for a missing or empty body; \<open>float()\<close> is the parameter \<open>parse_float\<close>.

  The lemmas show that the preview's lookup is the payment handler's lookup
  (\<open>fee_detail_of_first_fee_entry\<close>), the basis of the cross-component property in
  Spec2Isabelle that the preview shows what the handler then records.
\<close>

datatype dist_error = No_Data | Missing_Parameters | Bad_Amount

record dist_request =
  dr_regd_no :: "string option"
  dr_fee_types :: "string list"
  dr_amount :: "string option"

record fee_detail =
  fd_fee_type :: string
  fd_display_name :: string
  fd_amount :: money
  fd_paid :: money
  fd_remaining :: money

record dist_item =
  di_fee_type :: string
  di_display_name :: string
  di_original_amount :: money
  di_paid_amount :: money
  di_remaining :: money
  di_proportion :: money
  di_distribution :: money

record dist_response =
  resp_total_amount :: money
  resp_total_fee_amount :: money
  resp_distribution :: "dist_item list"

definition fee_detail_of :: "fee_db \<Rightarrow> string \<Rightarrow> string \<Rightarrow> fee_detail option" where
  "fee_detail_of db r ft =
     (let key = normalize_fee_type ft in
      map_option (\<lambda>e. \<lparr>fd_fee_type = fee_type e, fd_display_name = get_standardized_fee_type_label (fee_type e),
                       fd_amount = amount e, fd_paid = paid_total db r key,
                       fd_remaining = max 0 (amount e - paid_total db r key)\<rparr>)
        (find (\<lambda>e. fee_type_like (fee_type e) key) (fees_of db r)))"

definition dist_item_of :: "money \<Rightarrow> fee_detail \<Rightarrow> money \<Rightarrow> dist_item" where
  "dist_item_of total_fee_amount fd share =
     \<lparr>di_fee_type = fd_fee_type fd, di_display_name = fd_display_name fd, di_original_amount = fd_amount fd,
      di_paid_amount = fd_paid fd, di_remaining = fd_remaining fd,
      di_proportion = (if 0 < total_fee_amount then fd_amount fd / total_fee_amount else 0),
      di_distribution = share\<rparr>"

definition calculate_distribution ::
  "(string \<Rightarrow> money option) \<Rightarrow> dist_request option \<Rightarrow> fee_db \<Rightarrow> dist_error + dist_response" where
  "calculate_distribution parse_float data db =
     (case data of
        None \<Rightarrow> Inl No_Data
      | Some d \<Rightarrow>
          (case (case dr_amount d of None \<Rightarrow> Some 0 | Some a \<Rightarrow> parse_float a) of
             None \<Rightarrow> Inl Bad_Amount
           | Some total_amount \<Rightarrow>
               (case dr_regd_no d of
                  None \<Rightarrow> Inl Missing_Parameters
                | Some r \<Rightarrow>
                    if r = [] \<or> dr_fee_types d = [] then Inl Missing_Parameters
                    else
                      (let fee_details = List.map_filter (fee_detail_of db r) (dr_fee_types d);
                           total_fee_amount = sum_list (map fd_amount fee_details)
                       in Inr \<lparr>resp_total_amount = total_amount, resp_total_fee_amount = total_fee_amount,
                               resp_distribution = map2 (dist_item_of total_fee_amount) fee_details
                                                     (distribute total_amount (map fd_amount fee_details))\<rparr>))))"

subsection \<open>The preview's lookup is the payment handler's lookup\<close>

lemma normalize_fee_type_strip [simp]: "normalize_fee_type (py_strip s) = normalize_fee_type s"
proof (cases "py_strip s = []")
  case True
  then have "py_strip (py_lower s) = []" by (simp add: py_strip_lower)
  with True show ?thesis
    by (simp add: normalize_fee_type_def phase_iii_markers_def phase_ii_markers_def)
next
  case False
  then have "s \<noteq> []" by (auto simp: py_strip_def)
  with False show ?thesis by (simp add: normalize_fee_type_def py_strip_lower)
qed

lemma py_lower_normalize_fee_type [simp]: "py_lower (normalize_fee_type s) = normalize_fee_type s"
  by (simp add: normalize_fee_type_def Let_def py_strip_lower)

lemma fee_detail_of_first_fee_entry:
  "map_option fd_fee_type (fee_detail_of db r ft) = map_option fee_type (first_fee_entry db r (normalize_fee_type ft))"
  "map_option fd_amount (fee_detail_of db r ft) = map_option amount (first_fee_entry db r (normalize_fee_type ft))"
  by (simp_all add: fee_detail_of_def first_fee_entry_def Let_def option.map_comp comp_def)

lemma map_filter_map_option:
  "(\<And>x. map_option g (f x) = map_option h (k x)) \<Longrightarrow> map g (List.map_filter f xs) = map h (List.map_filter k xs)"
proof (induction xs)
  case (Cons x xs)
  then show ?case
    using Cons.prems [of x] by (cases "f x"; cases "k x") (simp_all add: map_filter_simps)
qed (simp add: map_filter_simps)

lemma map_filter_map: "List.map_filter f (map g xs) = List.map_filter (f \<circ> g) xs"
  by (induction xs) (simp_all add: map_filter_simps split: option.split)

lemma preview_lookup_agrees:
  "map fd_fee_type (List.map_filter (fee_detail_of db r) fts)
     = map fee_type (List.map_filter (first_fee_entry db r) (map normalize_fee_type fts))"
  "map fd_amount (List.map_filter (fee_detail_of db r) fts)
     = map amount (List.map_filter (first_fee_entry db r) (map normalize_fee_type fts))"
  by (simp_all only: map_filter_map, (rule map_filter_map_option, simp add: fee_detail_of_first_fee_entry)+)

lemma map_dist_items:
  "length fds = length shares \<Longrightarrow>
   map di_fee_type (map2 (dist_item_of tf) fds shares) = map fd_fee_type fds
   \<and> map di_distribution (map2 (dist_item_of tf) fds shares) = shares"
proof (induction fds arbitrary: shares)
  case (Cons fd fds)
  then show ?case by (cases shares) (simp_all add: dist_item_of_def)
qed simp

end
