(* ===== verification/Details.thy ===== *)
theory Details
  imports Store "HOL-Library.AList"
begin

text \<open>
  The payment-details branch of \<open>student_details\<close> (\<open>src/fee_payments/app.py\<close>, lines
  1356--1357 and 1398--1533).  For every student passing the filters the handler starts
  from a dictionary with the three display labels CRT, Phase 2 and Phase 3, each
  ``amount 0, paid 0, Not Paid'', and overwrites a label's entry with each fee entry of
  the student that the labeler maps to it: its amount, its remarks, the student's
  \<open>paid_total\<close> for the entry's normalised fee type, and the status rule on the two.
  A student whose dictionary has no positive amount is dropped; a \<open>payment_status\<close>
  filter keeps the students with at least one label in the requested status.  The
  dictionary is an association list updated by \<open>AList.update\<close>, which keeps the
  order of Python's dict.

  Lemmas: the status shown for a label is the status of the last fee entry with that
  label; a label with no entry keeps the ``Not Paid'' placeholder, so the
  \<open>not_paid\<close> filter lists every student who lacks one of the three fee types,
  whatever they have paid.
\<close>

record fee_info =
  fi_amount :: money
  fi_paid :: money
  fi_status :: pay_status
  fi_remarks :: string

definition blank_fee_info :: fee_info where
  "blank_fee_info = \<lparr>fi_amount = 0, fi_paid = 0, fi_status = Not_Paid, fi_remarks = []\<rparr>"

definition display_labels :: "string list" where
  "display_labels = [''CRT'', ''Phase 2'', ''Phase 3'']"

definition initial_fee_info :: "(string \<times> fee_info) list" where
  "initial_fee_info = map (\<lambda>l. (l, blank_fee_info)) display_labels"

fun remarks_text :: "string option \<Rightarrow> string" where
  "remarks_text None = []"
| "remarks_text (Some r) = r"

definition entry_paid :: "fee_db \<Rightarrow> fee_entry \<Rightarrow> money" where
  "entry_paid db e = paid_total db (fee_regd_no e) (normalize_fee_type (fee_type e))"

definition entry_status :: "fee_db \<Rightarrow> fee_entry \<Rightarrow> pay_status" where
  "entry_status db e = classify_payment (amount e) (entry_paid db e)"

definition entry_info :: "fee_db \<Rightarrow> fee_entry \<Rightarrow> fee_info" where
  "entry_info db e =
     \<lparr>fi_amount = amount e, fi_paid = entry_paid db e, fi_status = entry_status db e,
      fi_remarks = remarks_text (remarks e)\<rparr>"

definition passes_fee_filter :: "string \<Rightarrow> fee_entry \<Rightarrow> bool" where
  "passes_fee_filter ft e \<longleftrightarrow> ft = [] \<or> py_in (py_lower ft) (py_lower (fee_type e))"

definition fee_info_step :: "fee_db \<Rightarrow> string \<Rightarrow> (string \<times> fee_info) list \<Rightarrow> fee_entry \<Rightarrow> (string \<times> fee_info) list" where
  "fee_info_step db ft info e =
     (let std = get_standardized_fee_type_label (fee_type e) in
      if \<not> passes_fee_filter ft e then info
      else if std \<in> set (map fst info) then AList.update std (entry_info db e) info
      else info)"

definition student_fee_info :: "fee_db \<Rightarrow> string \<Rightarrow> string \<Rightarrow> (string \<times> fee_info) list option" where
  "student_fee_info db ft r =
     (let es = fees_of db r in
      if ft \<noteq> [] \<and> \<not> list_ex (passes_fee_filter ft) es then None
      else
        (let info = foldl (fee_info_step db ft) initial_fee_info es in
         if list_ex (\<lambda>(_, i). 0 < fi_amount i) info then Some info else None))"

record details_filter =
  df_batch_year :: string
  df_regd_no :: string
  df_reg_numbers :: "string list"
  df_student_name :: string
  df_branch :: string

definition student_matches :: "details_filter \<Rightarrow> student \<Rightarrow> bool" where
  "student_matches f s \<longleftrightarrow>
     (df_batch_year f = [] \<or> batch_year s = df_batch_year f)
   \<and> (df_regd_no f = [] \<or> like_match (CHR ''%'' # df_regd_no f @ ''%'') (regd_no s))
   \<and> (df_reg_numbers f = [] \<or> regd_no s \<in> set (df_reg_numbers f))
   \<and> (df_student_name f = [] \<or> like_match (CHR ''%'' # df_student_name f @ ''%'') (name s))
   \<and> (df_branch f = [] \<or> branch s = df_branch f)"

record student_record =
  sr_batch_year :: string
  sr_regd_no :: string
  sr_name :: string
  sr_branch :: string
  sr_fee_info :: "(string \<times> fee_info) list"

definition has_status :: "pay_status \<Rightarrow> student_record \<Rightarrow> bool" where
  "has_status st r \<longleftrightarrow> list_ex (\<lambda>(_, i). fi_status i = st) (sr_fee_info r)"

definition status_filter :: "string \<Rightarrow> student_record list \<Rightarrow> student_record list" where
  "status_filter ps recs =
     (if ps = [] then recs
      else filter (\<lambda>r. (ps = ''fully_paid'' \<and> has_status Paid r)
                      \<or> (ps = ''partially_paid'' \<and> has_status Partially_Paid r)
                      \<or> (ps = ''not_paid'' \<and> has_status Not_Paid r)) recs)"

definition payment_details :: "fee_db \<Rightarrow> details_filter \<Rightarrow> string \<Rightarrow> string \<Rightarrow> student_record list" where
  "payment_details db f fee_type_arg ps =
     (let ft = (if fee_type_arg = [] then [] else normalize_fee_type fee_type_arg);
          rows = remdups (map (\<lambda>s. (batch_year s, regd_no s, name s, branch s))
                             (filter (student_matches f) (students db)));
          recs = List.map_filter
                   (\<lambda>(b, r, n, br). map_option
                      (\<lambda>info. \<lparr>sr_batch_year = b, sr_regd_no = r, sr_name = n, sr_branch = br,
                               sr_fee_info = info\<rparr>)
                      (student_fee_info db ft r)) rows
      in status_filter ps recs)"

subsection \<open>Lemmas on the fee-info dictionary\<close>

lemma fst_set_fee_info_step [simp]: "fst ` set (fee_info_step db ft info e) = fst ` set info"
  by (auto simp: fee_info_step_def Let_def dom_update)

lemma fst_set_foldl_fee_info_step: "fst ` set (foldl (fee_info_step db ft) info es) = fst ` set info"
  by (induction es arbitrary: info) simp_all

lemma map_of_fee_info_step:
  "map_of (fee_info_step db ft info e) l =
     (if passes_fee_filter ft e \<and> get_standardized_fee_type_label (fee_type e) = l \<and> l \<in> fst ` set info
      then Some (entry_info db e) else map_of info l)"
  by (auto simp: fee_info_step_def Let_def update_conv')

lemma map_of_foldl_fee_info_step:
  assumes "l \<in> fst ` set info"
  shows "map_of (foldl (fee_info_step db ft) info es) l =
     (case find (\<lambda>e. passes_fee_filter ft e \<and> get_standardized_fee_type_label (fee_type e) = l) (rev es) of
        None \<Rightarrow> map_of info l
      | Some e \<Rightarrow> Some (entry_info db e))"
proof (induction es rule: rev_induct)
  case (snoc e es)
  have keys: "l \<in> fst ` set (foldl (fee_info_step db ft) info es)"
    using assms by (simp add: fst_set_foldl_fee_info_step)
  with snoc.IH show ?case
    by (simp add: map_of_fee_info_step del: fst_set_fee_info_step)
qed simp

lemma fst_set_initial_fee_info [simp]: "fst ` set initial_fee_info = set display_labels"
  by (force simp: initial_fee_info_def)

lemma map_of_initial_fee_info: "l \<in> set display_labels \<Longrightarrow> map_of initial_fee_info l = Some blank_fee_info"
  by (auto simp: initial_fee_info_def display_labels_def)

lemma student_fee_info_no_filter:
  "student_fee_info db [] r =
     (let info = foldl (fee_info_step db []) initial_fee_info (fees_of db r) in
      if list_ex (\<lambda>(_, i). 0 < fi_amount i) info then Some info else None)"
  by (simp add: student_fee_info_def)

lemma fees_of_mem: "e \<in> set (fees_of db r) \<Longrightarrow> fee_regd_no e = r \<and> e \<in> set (fee_master db)"
  by (simp add: fees_of_def)

subsection \<open>Properties\<close>

text \<open>
  C12: with no fee-type filter, the row \<open>student_details\<close> shows for a display label
  is built from the last fee entry of the student with that label (when its amount is
  positive): its amount, the student's paid total for its normalised type, and the
  status rule applied to the two.
\<close>

theorem details_shows_last_entry:
  assumes "l \<in> set display_labels"
    and "find (\<lambda>e. get_standardized_fee_type_label (fee_type e) = l) (rev (fees_of db r)) = Some e"
    and "0 < amount e"
  shows "\<exists>info. student_fee_info db [] r = Some info
            \<and> map_of info l = Some (entry_info db e)
            \<and> fi_status (entry_info db e) = classify_payment (amount e) (paid_total db r (normalize_fee_type (fee_type e)))"
proof -
  let ?info = "foldl (fee_info_step db []) initial_fee_info (fees_of db r)"
  have keys: "l \<in> fst ` set initial_fee_info" using assms(1) by simp
  have m: "map_of ?info l = Some (entry_info db e)"
    using map_of_foldl_fee_info_step [OF keys, of db "[]" "fees_of db r"] assms(2)
    by (simp add: passes_fee_filter_def)
  then have mem: "(l, entry_info db e) \<in> set ?info" by (rule map_of_SomeD)
  have "list_ex (\<lambda>(_, i). 0 < fi_amount i) ?info"
    unfolding list_ex_iff
  proof (rule bexI [OF _ mem])
    show "case (l, entry_info db e) of (_, i) \<Rightarrow> 0 < fi_amount i"
      using assms(3) by (simp add: entry_info_def)
  qed
  moreover have "fee_regd_no e = r"
    using find_Some_mem [OF assms(2)] by (simp add: fees_of_def)
  ultimately show ?thesis using m
    by (simp add: student_fee_info_no_filter entry_info_def entry_status_def entry_paid_def)
qed

theorem details_shows_last_entry_witness:
  "\<exists>info. student_fee_info sample_db [] ''R1'' = Some info
     \<and> map_of info ''CRT'' = Some (entry_info sample_db (sample_fee 1 ''R1'' ''crt fee'' 1000))
     \<and> fi_status (entry_info sample_db (sample_fee 1 ''R1'' ''crt fee'' 1000))
         = classify_payment (amount (sample_fee 1 ''R1'' ''crt fee'' 1000))
             (paid_total sample_db ''R1'' (normalize_fee_type (fee_type (sample_fee 1 ''R1'' ''crt fee'' 1000))))"
proof (rule details_shows_last_entry)
  show "''CRT'' \<in> set display_labels" by (simp add: display_labels_def)
  show "find (\<lambda>e. get_standardized_fee_type_label (fee_type e) = ''CRT'') (rev (fees_of sample_db ''R1''))
        = Some (sample_fee 1 ''R1'' ''crt fee'' 1000)"
    by code_simp
  show "0 < amount (sample_fee 1 ''R1'' ''crt fee'' 1000)" by (simp add: sample_fee_def)
qed

text \<open>
  C13: a student listed by \<open>student_details\<close> who has no fee entry for one of the three
  display labels is also listed under the \<open>not_paid\<close> status filter, because the
  label keeps its ``Not Paid'' placeholder, even when every fee the student owes is
  paid.
\<close>

theorem not_paid_filter_lists_missing_fee_type:
  assumes "rec \<in> set (payment_details db f ft [])"
    and "l \<in> set display_labels"
    and "\<forall>e \<in> set (fees_of db (sr_regd_no rec)). get_standardized_fee_type_label (fee_type e) \<noteq> l"
  shows "rec \<in> set (payment_details db f ft ''not_paid'')"
proof -
  let ?ft = "if ft = [] then [] else normalize_fee_type ft"
  from assms(1) obtain b r n br where
    info: "student_fee_info db ?ft r = Some (sr_fee_info rec)" and reg: "sr_regd_no rec = r"
    by (auto simp: payment_details_def status_filter_def set_map_filter_iff Let_def)
  let ?info = "foldl (fee_info_step db ?ft) initial_fee_info (fees_of db r)"
  from info have si: "sr_fee_info rec = ?info"
    by (auto simp: student_fee_info_def Let_def split: if_splits)
  have keys: "l \<in> fst ` set initial_fee_info" using assms(2) by simp
  have "find (\<lambda>e. passes_fee_filter ?ft e \<and> get_standardized_fee_type_label (fee_type e) = l)
          (rev (fees_of db r)) = None"
    using assms(3) reg by (auto simp: find_None_iff)
  then have "map_of ?info l = Some blank_fee_info"
    using map_of_foldl_fee_info_step [OF keys, of db ?ft "fees_of db r"] assms(2)
    by (simp add: map_of_initial_fee_info)
  then have mem: "(l, blank_fee_info) \<in> set (sr_fee_info rec)" using si by (simp add: map_of_SomeD)
  have "has_status Not_Paid rec"
    unfolding has_status_def list_ex_iff
  proof (rule bexI [OF _ mem])
    show "case (l, blank_fee_info) of (_, i) \<Rightarrow> fi_status i = Not_Paid"
      by (simp add: blank_fee_info_def)
  qed
  with assms(1) show ?thesis
    by (auto simp: payment_details_def status_filter_def Let_def)
qed

theorem not_paid_filter_lists_missing_fee_type_witness:
  "hd (payment_details sample_db \<lparr>df_batch_year = [], df_regd_no = ''R1'', df_reg_numbers = [],
          df_student_name = [], df_branch = []\<rparr> [] [])
     \<in> set (payment_details sample_db \<lparr>df_batch_year = [], df_regd_no = ''R1'', df_reg_numbers = [],
          df_student_name = [], df_branch = []\<rparr> [] ''not_paid'')"
proof (rule not_paid_filter_lists_missing_fee_type)
  show "hd (payment_details sample_db \<lparr>df_batch_year = [], df_regd_no = ''R1'', df_reg_numbers = [],
          df_student_name = [], df_branch = []\<rparr> [] [])
     \<in> set (payment_details sample_db \<lparr>df_batch_year = [], df_regd_no = ''R1'', df_reg_numbers = [],
          df_student_name = [], df_branch = []\<rparr> [] [])"
    by code_simp
  show "''Phase 2'' \<in> set display_labels" by (simp add: display_labels_def)
  show "\<forall>e \<in> set (fees_of sample_db (sr_regd_no (hd (payment_details sample_db
          \<lparr>df_batch_year = [], df_regd_no = ''R1'', df_reg_numbers = [], df_student_name = [],
           df_branch = []\<rparr> [] [])))).
          get_standardized_fee_type_label (fee_type e) \<noteq> ''Phase 2''"
    by code_simp
qed

text \<open>
  C14: every payment whose fee type contains the Phase III key also matches the Phase II
  key, so each of the handlers that sum a student's Phase II payments by
  \<open>LIKE '%smart interviews phase-ii%'\<close> counts the student's Phase III payments too.
\<close>

theorem phase_iii_payments_match_phase_ii_key:
  "set (matching_payments db r ''smart interviews phase-iii'') \<subseteq> set (matching_payments db r ''smart interviews phase-ii'')"
proof
  fix p assume "p \<in> set (matching_payments db r ''smart interviews phase-iii'')"
  then have p: "p \<in> set (payments db)" "pay_regd_no p = r"
    and "py_in ''smart interviews phase-iii'' (py_lower (pay_fee_type p))"
    by (simp_all add: matching_payments_def fee_type_like_iff canonical_key_lower)
  then have "py_in ''smart interviews phase-ii'' (py_lower (pay_fee_type p))"
    using phase_ii_key_in_phase_iii_key py_in_trans by blast
  with p show "p \<in> set (matching_payments db r ''smart interviews phase-ii'')"
    by (simp add: matching_payments_def fee_type_like_iff canonical_key_lower)
qed

text \<open>
  In the sample database student R2 owes 1000 for Phase II and has paid 1000 for
  Phase III only; \<open>student_details\<close> shows their Phase 2 fee as paid.
\<close>

theorem details_phase_ii_paid_by_phase_iii_payment:
  "map_option (\<lambda>info. map_option fi_status (map_of info ''Phase 2'')) (student_fee_info sample_db [] ''R2'')
     = Some (Some Paid)
   \<and> [p \<leftarrow> payments sample_db. pay_regd_no p = ''R2''] = [sample_payment 2 ''R2'' ''smart interviews phase-iii'' 1000]"
  by code_simp

end
