(* ===== verification/Api.thy ===== *)
theory Api
  imports Preview Details "HOL-Library.List_Lexorder" "HOL-Library.Char_ord"
begin

text \<open>
  The JSON endpoints that read or edit single records (\<open>src/fee_payments/app.py\<close>):
  \<open>update_remarks\<close> (lines 1818--1864) sets the remarks of a student's fee entries, all
  of them for the fee type \<open>all\<close> and otherwise those whose fee type is \<open>LIKE\<close> the
  normalised key; \<open>api_students\<close> (1875--1904) searches students by registration number
  or name with \<open>LIKE '%q%'\<close> (at most ten); \<open>api_student_fees\<close> (1906--1952) lists a
  student's fee entries with their paid totals; \<open>get_registrations_by_batch\<close>
  (2149--2178) lists a batch's students ordered by name.  A JSON body is the dict
  \<open>get_json\<close> returns, as an association list of string or null (\<open>None\<close>) values,
  and \<open>None\<close> when there is no body; an empty dict is rejected like a missing one
  (\<open>if not data\<close>), \<open>data.get(k)\<close> is \<open>json_get\<close>, and a missing \<open>remarks\<close> key is
  the empty string, as \<open>data.get('remarks', '')\<close> gives.

  Lemmas: \<open>update_remarks\<close> changes remarks only and keeps the table invariant; the
  paid amount \<open>api_student_fees\<close> reports is summed over all students, unlike the
  preview's, so the two endpoints the payment form calls disagree.
\<close>

datatype remarks_error = No_Data_Provided | No_Registration_Number | No_Matching_Entries

type_synonym json_object = "(string \<times> string option) list"

record fee_row =
  fr_fee_type :: string
  fr_fee_type_display :: string
  fr_amount :: money
  fr_paid_amount :: money
  fr_remarks :: string

definition remarks_selected :: "string \<Rightarrow> string option \<Rightarrow> fee_entry \<Rightarrow> bool" where
  "remarks_selected r ft e \<longleftrightarrow>
     fee_regd_no e = r
   \<and> (ft = Some ''all'' \<or> fee_type_like (fee_type e) (normalize_fee_type (case ft of None \<Rightarrow> [] | Some t \<Rightarrow> t)))"

definition json_get :: "json_object \<Rightarrow> string \<Rightarrow> string option" where
  "json_get d k = (case map_of d k of None \<Rightarrow> None | Some v \<Rightarrow> v)"

definition update_remarks :: "json_object option \<Rightarrow> fee_db \<Rightarrow> remarks_error + fee_db" where
  "update_remarks data db =
     (case data of
        None \<Rightarrow> Inl No_Data_Provided
      | Some d \<Rightarrow>
          if d = [] then Inl No_Data_Provided
          else
            (let ft = json_get d ''fee_type'';
                 rm = (case map_of d ''remarks'' of None \<Rightarrow> Some [] | Some v \<Rightarrow> v)
             in case json_get d ''registration_number'' of
                  None \<Rightarrow> Inl No_Registration_Number
                | Some r \<Rightarrow>
                    if r = [] then Inl No_Registration_Number
                    else if \<not> list_ex (remarks_selected r ft) (fee_master db) then Inl No_Matching_Entries
                    else Inr (db\<lparr>fee_master := map (\<lambda>e. if remarks_selected r ft e then e\<lparr>remarks := rm\<rparr> else e)
                                                  (fee_master db)\<rparr>)))"

definition sample_remarks_body :: json_object where
  "sample_remarks_body = [(''registration_number'', Some ''R6''), (''fee_type'', Some ''Phase 2''), (''remarks'', Some ''waived'')]"

definition api_students :: "string \<Rightarrow> fee_db \<Rightarrow> (string \<times> string \<times> string) list" where
  "api_students q db =
     (if q = [] \<or> length q < 3 then []
      else map (\<lambda>s. (regd_no s, name s, batch_year s))
             (take 10 (filter (\<lambda>s. like_match (CHR ''%'' # q @ ''%'') (regd_no s) \<or> like_match (CHR ''%'' # q @ ''%'') (name s))
                         (students db))))"

definition api_student_fees :: "string \<Rightarrow> fee_db \<Rightarrow> fee_row list" where
  "api_student_fees r db =
     (if r = [] then []
      else map (\<lambda>e. \<lparr>fr_fee_type = fee_type e, fr_fee_type_display = get_standardized_fee_type_label (fee_type e),
                     fr_amount = amount e, fr_paid_amount = paid_total_any db (normalize_fee_type (fee_type e)),
                     fr_remarks = remarks_text (remarks e)\<rparr>)
             (fees_of db r))"

definition get_registrations_by_batch :: "string \<Rightarrow> fee_db \<Rightarrow> (string \<times> string) list" where
  "get_registrations_by_batch by db =
     (if by = [] then []
      else map (\<lambda>s. (regd_no s, name s)) (sort_key name (filter (\<lambda>s. batch_year s = by) (students db))))"

subsection \<open>Lemmas\<close>

lemma update_remarks_Inr:
  assumes "update_remarks data db = Inr db'"
  obtains r ft rm where "r \<noteq> []"
    and "db' = db\<lparr>fee_master := map (\<lambda>e. if remarks_selected r ft e then e\<lparr>remarks := rm\<rparr> else e) (fee_master db)\<rparr>"
  using assms by (auto simp: update_remarks_def Let_def split: option.splits if_splits)

lemma map_remarks_update:
  "map g (map (\<lambda>e. if P e then e\<lparr>remarks := x\<rparr> else e) es) = map g es
   \<longleftrightarrow> (\<forall>e \<in> set es. P e \<longrightarrow> g (e\<lparr>remarks := x\<rparr>) = g e)"
  by (induction es) auto

lemma update_remarks_wf [fee_db]:
  assumes "db_wf db" and "update_remarks data db = Inr db'"
  shows "db_wf db'"
  using assms(2)
proof (cases rule: update_remarks_Inr)
  case (1 r ft rm)
  let ?f = "\<lambda>e. if remarks_selected r ft e then e\<lparr>remarks := rm\<rparr> else e"
  have ids: "map fee_id (map ?f (fee_master db)) = map fee_id (fee_master db)"
    "map (\<lambda>e. (fee_regd_no e, fee_type e)) (map ?f (fee_master db)) = map (\<lambda>e. (fee_regd_no e, fee_type e)) (fee_master db)"
    "map fee_regd_no (map ?f (fee_master db)) = map fee_regd_no (fee_master db)"
    by (simp_all only: map_remarks_update) simp_all
  have fk: "(\<forall>x \<in> set (map ?f (fee_master db)). fee_regd_no x \<in> set (map regd_no (students db)))
        \<longleftrightarrow> (\<forall>x \<in> set (fee_master db). fee_regd_no x \<in> set (map regd_no (students db)))"
    by (rule ball_map_eq) (rule ids(3))
  have st: "fee_master db' = map ?f (fee_master db)" "students db' = students db" "payments db' = payments db"
    using 1(2) by simp_all
  show ?thesis
    using assms(1) unfolding db_wf_def st ids(1,2) fk by blast
qed

subsection \<open>Properties of the endpoints\<close>

text \<open>
  C33: a successful \<open>update_remarks\<close> changes nothing but remarks: the students and the
  payments are unchanged, and the fee entries are the same rows in the same order with
  the same ids, owners, fee types and amounts.
\<close>

theorem update_remarks_changes_only_remarks:
  assumes "update_remarks data db = Inr db'"
  shows "students db' = students db \<and> payments db' = payments db
       \<and> map (\<lambda>e. e\<lparr>remarks := None\<rparr>) (fee_master db') = map (\<lambda>e. e\<lparr>remarks := None\<rparr>) (fee_master db)"
  using assms
proof (cases rule: update_remarks_Inr)
  case (1 r ft rm)
  then show ?thesis by (simp add: map_remarks_update)
qed

theorem update_remarks_changes_only_remarks_witness:
  "map (\<lambda>e. e\<lparr>remarks := None\<rparr>) (fee_master (projr (update_remarks
      (Some sample_remarks_body) order_db)))
   = map (\<lambda>e. e\<lparr>remarks := None\<rparr>) (fee_master order_db)"
proof -
  have "update_remarks (Some sample_remarks_body) order_db
     = Inr (projr (update_remarks (Some sample_remarks_body) order_db))"
    by code_simp
  from update_remarks_changes_only_remarks [OF this] show ?thesis by blast
qed

text \<open>
  Setting the remarks of a student's Phase 2 fee also overwrites those of their Phase III
  fee, which the Phase II key matches.
\<close>

theorem update_remarks_phase_2_overwrites_phase_iii:
  "map_sum id (\<lambda>db. map (\<lambda>e. (fee_type e, remarks e)) (fee_master db))
     (update_remarks (Some sample_remarks_body) order_db)
   = Inr [(''smart interviews phase-iii'', Some ''waived''), (''smart interviews phase-ii'', Some ''waived'')]"
  by code_simp

text \<open>
  The two endpoints the payment form calls report different paid amounts for the
  same fee.  In the sample database student R3 has paid nothing toward CRT; the
  distribution preview reports 0 paid, but \<open>api_student_fees\<close>, whose sum has no
  student filter, reports the 1000 that R1 paid.
\<close>

theorem api_student_fees_counts_other_students:
  "map fr_paid_amount (api_student_fees ''R3'' sample_db) = [1000]
   \<and> map fd_paid (List.map_filter (fee_detail_of sample_db ''R3'') [''CRT'']) = [0]
   \<and> [p \<leftarrow> payments sample_db. pay_regd_no p = ''R3''] = []"
  by code_simp

end
