(* ===== verification/Upload.thy ===== *)
theory Upload
  imports Payments
begin

text \<open>
  The spreadsheet import (\<open>upload\<close>, \<open>src/fee_payments/app.py\<close>, lines 724--953).  The
  file checks (a file part, a file name, an extension among \<open>.xlsx .xls .csv\<close> as
  \<open>os.path.splitext\<close> finds it) and the column checks (names lower-cased and stripped,
  the alias table applied, the seven required columns present) are modelled on the names;
  the spreadsheet itself is given as the rows pandas reads, each a record of the values
  \<open>str()\<close> and \<open>float()\<close> give (\<open>None\<close> where \<open>float()\<close> raises; an empty cell, which
  pandas reads as NaN, is outside the rational model).

  Each row is processed in order, inside its own \<open>try\<close> but without a savepoint: the
  student is inserted or updated (\<open>upsert_student\<close>), the comma-separated fee types are
  normalised, the amount is split equally (\<open>round(total / n, 2)\<close>) when there are several,
  and for each fee type the entry with exactly that key is inserted or updated
  (\<open>upsert_fee_entry\<close>) and a payment added when the row carries one.  A row whose
  amount is invalid fails before any change; a row whose payment date does not parse
  fails after its earlier changes, which stay and are committed with the rest
  (\<open>upload_row_db\<close> returns \<open>Inl\<close> with the state at the failure).

  Lemmas: the import keeps the table invariant, even through failing rows; the equal
  split loses cents; a failing row is counted as a warning but keeps its student and a
  fee entry.
\<close>

datatype upload_error = No_File_Part | No_File_Selected | Invalid_Format string | Missing_Columns "string list"

record upload_row =
  row_regd_no :: string
  row_name :: string
  row_batch_year :: string
  row_branch :: string
  row_mobile :: "string option"
  row_fee_type :: string
  row_amount :: "money option"
  row_remarks :: string
  row_paid_amount :: "money option"
  row_payment_date :: "date option option"
  row_received_by :: "string option"

record upload_file =
  up_present :: bool
  up_filename :: string
  up_columns :: "string list"
  up_rows :: "upload_row list"

record upload_state =
  us_db :: fee_db
  us_processed :: nat
  us_errors :: "nat list"
  us_added :: "string list"

definition py_splitext_ext :: "string \<Rightarrow> string" where
  "py_splitext_ext fname =
     (let base = rev (takeWhile (\<lambda>c. c \<noteq> CHR ''/'') (rev fname));
          body = dropWhile (\<lambda>c. c = CHR ''.'') base
      in if CHR ''.'' \<in> set body then CHR ''.'' # rev (takeWhile (\<lambda>c. c \<noteq> CHR ''.'') (rev body)) else [])"

definition allowed_extensions :: "string list" where
  "allowed_extensions = [''.xlsx'', ''.xls'', ''.csv'']"

definition column_mapping :: "(string \<times> string) list" where
  "column_mapping =
     [(''registration_number'', ''regd_no''), (''registration'', ''regd_no''), (''reg_no'', ''regd_no''),
      (''regno'', ''regd_no''), (''student_name'', ''name''), (''batch'', ''batch_year''),
      (''department'', ''branch''), (''phone'', ''mobile''), (''contact'', ''mobile''),
      (''fee'', ''amount''), (''fee_amount'', ''amount'')]"

definition required_columns :: "string list" where
  "required_columns = [''batch_year'', ''regd_no'', ''name'', ''branch'', ''mobile'', ''fee_type'', ''amount'']"

definition normalize_columns :: "(string \<times> string) list \<Rightarrow> string list \<Rightarrow> string list" where
  "normalize_columns mapping cols =
     foldl (\<lambda>cs (old, new). if old \<in> set cs \<and> new \<notin> set cs then cs @ [new] else cs)
       (map (\<lambda>c. py_strip (py_lower c)) cols) mapping"

definition upsert_student :: "string \<Rightarrow> string \<Rightarrow> string \<Rightarrow> string \<Rightarrow> string \<Rightarrow> fee_db \<Rightarrow> fee_db" where
  "upsert_student r nm by br mob db =
     (case find_student db r of
        None \<Rightarrow> db\<lparr>students := students db @
                   [\<lparr>student_id = next_id (map student_id (students db)), regd_no = r, name = nm,
                     batch_year = by, branch = br, mobile = Some mob\<rparr>]\<rparr>
      | Some _ \<Rightarrow> db\<lparr>students := update_first (\<lambda>s. regd_no s = r)
                     (\<lambda>s. s\<lparr>name := nm, batch_year := by, branch := br, mobile := Some mob\<rparr>) (students db)\<rparr>)"

definition upsert_fee_entry :: "string \<Rightarrow> string \<Rightarrow> money \<Rightarrow> string \<Rightarrow> string \<Rightarrow> fee_db \<Rightarrow> fee_db" where
  "upsert_fee_entry r ft amt new_remarks remarks_upd db =
     (case find (\<lambda>e. fee_regd_no e = r \<and> fee_type e = ft) (fee_master db) of
        None \<Rightarrow> db\<lparr>fee_master := fee_master db @
                   [\<lparr>fee_id = next_id (map fee_id (fee_master db)), fee_regd_no = r, fee_type = ft,
                     amount = amt, remarks = Some new_remarks\<rparr>]\<rparr>
      | Some _ \<Rightarrow> db\<lparr>fee_master := update_first (\<lambda>e. fee_regd_no e = r \<and> fee_type e = ft)
                     (\<lambda>e. e\<lparr>amount := amt, remarks := Some remarks_upd\<rparr>) (fee_master db)\<rparr>)"

definition row_fee_types :: "upload_row \<Rightarrow> string list" where
  "row_fee_types row = map (\<lambda>ft. normalize_fee_type (py_strip ft)) (py_split CHR '','' (py_strip (row_fee_type row)))"

definition upload_fee_step :: "upload_row \<Rightarrow> money \<Rightarrow> money \<Rightarrow> fee_db + fee_db \<Rightarrow> string \<Rightarrow> fee_db + fee_db" where
  "upload_fee_step row total_fee_amount per acc ft =
     (case acc of
        Inl db \<Rightarrow> Inl db
      | Inr db \<Rightarrow>
          (let r = py_strip (row_regd_no row); raw = py_strip (row_fee_type row);
               several = 1 < length (row_fee_types row);
               db1 = upsert_fee_entry r ft per
                       (if several then row_remarks row @ '' (Part of: '' @ raw @ '')'' else row_remarks row)
                       (row_remarks row) db
           in case row_paid_amount row of
                None \<Rightarrow> Inr db1
              | Some pa \<Rightarrow>
                  (let paid = py_round2 (pa * (per / total_fee_amount)) in
                   if 0 < paid then
                     (case row_payment_date row of
                        None \<Rightarrow> Inr db1
                      | Some None \<Rightarrow> Inl db1
                      | Some (Some d) \<Rightarrow>
                          Inr (add_payment r (py_strip (row_batch_year row)) d
                                 (case row_received_by row of None \<Rightarrow> ''Excel Import'' | Some s \<Rightarrow> py_strip s) db1 (ft, paid)))
                   else Inr db1)))"

definition upload_row_db :: "upload_row \<Rightarrow> fee_db \<Rightarrow> fee_db + fee_db" where
  "upload_row_db row db =
     (let fts = row_fee_types row in
      case row_amount row of
        None \<Rightarrow> Inl db
      | Some total_fee_amount \<Rightarrow>
          if total_fee_amount \<le> 0 then Inl db
          else
            (let db1 = upsert_student (py_strip (row_regd_no row)) (py_strip (row_name row))
                         (py_strip (row_batch_year row)) (py_strip (row_branch row))
                         (case row_mobile row of None \<Rightarrow> [] | Some m \<Rightarrow> py_strip m) db;
                 per = (if 1 < length fts then py_round2 (total_fee_amount / of_nat (length fts)) else total_fee_amount)
             in foldl (upload_fee_step row total_fee_amount per) (Inr db1) fts))"

definition upload_step :: "upload_state \<Rightarrow> nat \<times> upload_row \<Rightarrow> upload_state" where
  "upload_step st ir =
     (case ir of (i, row) \<Rightarrow>
        (case upload_row_db row (us_db st) of
           Inl db' \<Rightarrow> st\<lparr>us_db := db', us_errors := us_errors st @ [i + 2]\<rparr>
         | Inr db' \<Rightarrow>
             (let r = py_strip (row_regd_no row) in
              st\<lparr>us_db := db', us_processed := Suc (us_processed st),
                 us_added := (if r \<in> set (us_added st) then us_added st else us_added st @ [r])\<rparr>)))"

definition upload :: "upload_file \<Rightarrow> fee_db \<Rightarrow> upload_error + upload_state" where
  "upload f db =
     (if \<not> up_present f then Inl No_File_Part
      else if up_filename f = [] then Inl No_File_Selected
      else
        (let ext = py_lower (py_splitext_ext (up_filename f)) in
         if ext \<notin> set allowed_extensions then Inl (Invalid_Format ext)
         else
           (let missing = filter (\<lambda>c. c \<notin> set (normalize_columns column_mapping (up_columns f))) required_columns in
            if missing \<noteq> [] then Inl (Missing_Columns missing)
            else Inr (foldl upload_step \<lparr>us_db = db, us_processed = 0, us_errors = [], us_added = []\<rparr>
                        (zip [0..<length (up_rows f)] (up_rows f))))))"

text \<open>
  Fixtures for the witnesses: a spreadsheet with the seven required columns (in the
  capitalisation a user would type) and rows for student R8.
\<close>

definition sample_row :: "string \<Rightarrow> string \<Rightarrow> money option \<Rightarrow> money option \<Rightarrow> date option option \<Rightarrow> upload_row" where
  "sample_row r ft amt paid d =
     \<lparr>row_regd_no = r, row_name = ''Student '' @ r, row_batch_year = ''2022-2026'', row_branch = ''CSE'',
      row_mobile = None, row_fee_type = ft, row_amount = amt, row_remarks = [],
      row_paid_amount = paid, row_payment_date = d, row_received_by = None\<rparr>"

definition sample_upload :: "upload_row list \<Rightarrow> upload_file" where
  "sample_upload rows =
     \<lparr>up_present = True, up_filename = ''fees.xlsx'',
      up_columns = [''Regd_No'', '' Name'', ''Batch_Year'', ''Branch'', ''Mobile'', ''Fee_Type'', ''Amount''],
      up_rows = rows\<rparr>"

subsection \<open>The import keeps the table invariant\<close>

lemma upsert_student_wf [fee_db]:
  assumes "db_wf db"
  shows "db_wf (upsert_student r nm by br mob db) \<and> r \<in> set (map regd_no (students (upsert_student r nm by br mob db)))"
proof (cases "find_student db r")
  case None
  then have "r \<notin> set (map regd_no (students db))" by (simp add: find_student_None)
  with assms next_id_fresh [of "map student_id (students db)"] None show ?thesis
    by (auto simp: upsert_student_def db_wf_def)
next
  case (Some s)
  let ?upd = "update_first (\<lambda>s. regd_no s = r) (\<lambda>s. s\<lparr>name := nm, batch_year := by, branch := br, mobile := Some mob\<rparr>) (students db)"
  have ids: "map regd_no ?upd = map regd_no (students db)" "map student_id ?upd = map student_id (students db)"
    by simp_all
  have "r \<in> set (map regd_no (students db))"
    using find_student_Some [OF Some] by force
  with assms Some ids show ?thesis
    by (simp add: upsert_student_def db_wf_def del: map_update_first)
qed

lemma upsert_fee_entry_wf [fee_db]:
  assumes "db_wf db" and "r \<in> set (map regd_no (students db))"
  shows "db_wf (upsert_fee_entry r ft amt nr ur db) \<and> students (upsert_fee_entry r ft amt nr ur db) = students db"
proof (cases "find (\<lambda>e. fee_regd_no e = r \<and> fee_type e = ft) (fee_master db)")
  case None
  then have "(r, ft) \<notin> set (map (\<lambda>e. (fee_regd_no e, fee_type e)) (fee_master db))"
    by (auto simp: find_None_iff)
  with assms next_id_fresh [of "map fee_id (fee_master db)"] None show ?thesis
    by (auto simp: upsert_fee_entry_def db_wf_def)
next
  case (Some e)
  let ?upd = "update_first (\<lambda>e. fee_regd_no e = r \<and> fee_type e = ft) (\<lambda>e. e\<lparr>amount := amt, remarks := Some ur\<rparr>) (fee_master db)"
  have ids: "map fee_id ?upd = map fee_id (fee_master db)"
    "map (\<lambda>e. (fee_regd_no e, fee_type e)) ?upd = map (\<lambda>e. (fee_regd_no e, fee_type e)) (fee_master db)"
    "map fee_regd_no ?upd = map fee_regd_no (fee_master db)"
    by simp_all
  have "(\<forall>x \<in> set ?upd. fee_regd_no x \<in> set (map regd_no (students db)))
        \<longleftrightarrow> (\<forall>x \<in> set (fee_master db). fee_regd_no x \<in> set (map regd_no (students db)))"
    by (rule ball_map_eq) (rule ids(3))
  with assms(1) Some ids(1,2) show ?thesis
    by (simp add: upsert_fee_entry_def db_wf_def del: map_update_first set_map)
qed

lemma upload_fee_step_wf:
  assumes "db_wf (case_sum id id acc)"
    and "py_strip (row_regd_no row) \<in> set (map regd_no (students (case_sum id id acc)))"
  shows "db_wf (case_sum id id (upload_fee_step row t per acc ft))
       \<and> students (case_sum id id (upload_fee_step row t per acc ft)) = students (case_sum id id acc)"
proof (cases acc)
  case (Inl db)
  with assms show ?thesis by (simp add: upload_fee_step_def)
next
  case (Inr db)
  let ?r = "py_strip (row_regd_no row)"
  let ?db1 = "upsert_fee_entry ?r ft per
                (if 1 < length (row_fee_types row) then row_remarks row @ '' (Part of: '' @ py_strip (row_fee_type row) @ '')'' else row_remarks row)
                (row_remarks row) db"
  have db1: "db_wf ?db1" "students ?db1 = students db"
    using upsert_fee_entry_wf assms Inr by simp_all
  with Inr assms show ?thesis
    by (auto simp: upload_fee_step_def Let_def add_payment_wf split: option.splits)
qed

lemma foldl_upload_fee_step_wf:
  assumes "db_wf (case_sum id id acc)"
    and "py_strip (row_regd_no row) \<in> set (map regd_no (students (case_sum id id acc)))"
  shows "db_wf (case_sum id id (foldl (upload_fee_step row t per) acc fts))"
  using assms
proof (induction fts arbitrary: acc)
  case (Cons ft fts)
  have "db_wf (case_sum id id (upload_fee_step row t per acc ft))
       \<and> students (case_sum id id (upload_fee_step row t per acc ft)) = students (case_sum id id acc)"
    by (rule upload_fee_step_wf [OF Cons.prems])
  with Cons.IH [of "upload_fee_step row t per acc ft"] Cons.prems(2) show ?case
    by simp
qed simp

lemma upload_row_db_wf [fee_db]:
  assumes "db_wf db"
  shows "db_wf (case_sum id id (upload_row_db row db))"
proof -
  let ?db1 = "upsert_student (py_strip (row_regd_no row)) (py_strip (row_name row))
                (py_strip (row_batch_year row)) (py_strip (row_branch row))
                (case row_mobile row of None \<Rightarrow> [] | Some m \<Rightarrow> py_strip m) db"
  have "db_wf (case_sum id id (Inr ?db1 :: fee_db + fee_db))"
    and "py_strip (row_regd_no row) \<in> set (map regd_no (students (case_sum id id (Inr ?db1 :: fee_db + fee_db))))"
    using upsert_student_wf [OF assms] by simp_all
  note fold = foldl_upload_fee_step_wf [OF this]
  with assms show ?thesis
    by (auto simp: upload_row_db_def Let_def split: option.splits)
qed

lemma upload_step_wf [fee_db]: "db_wf (us_db st) \<Longrightarrow> db_wf (us_db (upload_step st ir))"
  using upload_row_db_wf [of "us_db st" "snd ir"]
  by (auto simp: upload_step_def Let_def split: prod.splits sum.splits)

lemma foldl_upload_step_wf: "db_wf (us_db st) \<Longrightarrow> db_wf (us_db (foldl upload_step st irs))"
  by (induction irs arbitrary: st) (simp_all add: upload_step_wf)

subsection \<open>A failing row keeps its earlier changes\<close>

lemma upsert_student_has: "r \<in> set (map regd_no (students (upsert_student r nm by br mob db)))"
proof (cases "find_student db r")
  case (Some s)
  then have "r \<in> set (map regd_no (students db))"
    using find_student_Some [OF Some] by force
  with Some show ?thesis by (simp add: upsert_student_def del: set_map)
qed (simp add: upsert_student_def)

lemma upsert_fee_entry_has:
  "(r, ft) \<in> set (map (\<lambda>e. (fee_regd_no e, fee_type e)) (fee_master (upsert_fee_entry r ft amt nr ur db)))"
proof (cases "find (\<lambda>e. fee_regd_no e = r \<and> fee_type e = ft) (fee_master db)")
  case (Some e)
  then have "(r, ft) \<in> set (map (\<lambda>e. (fee_regd_no e, fee_type e)) (fee_master db))"
    by (auto simp: find_Some_iff in_set_conv_nth intro!: image_eqI)
  with Some show ?thesis by (simp add: upsert_fee_entry_def del: set_map)
qed (simp add: upsert_fee_entry_def)

lemma upsert_fee_entry_students [simp]: "students (upsert_fee_entry r ft amt nr ur db) = students db"
  by (simp add: upsert_fee_entry_def split: option.split)

lemma foldl_upload_fee_step_Inl [simp]: "foldl (upload_fee_step row t per) (Inl db) fts = Inl db"
  by (induction fts) (simp_all add: upload_fee_step_def)

lemma upload_fee_step_fails:
  assumes "upload_fee_step row t per (Inr db) ft = Inl db'"
  shows "(py_strip (row_regd_no row), ft) \<in> set (map (\<lambda>e. (fee_regd_no e, fee_type e)) (fee_master db'))
       \<and> students db' = students db"
proof -
  from assms obtain amt nr ur where "db' = upsert_fee_entry (py_strip (row_regd_no row)) ft amt nr ur db"
    by (auto simp: upload_fee_step_def Let_def split: option.splits if_splits)
  then show ?thesis by (simp add: upsert_fee_entry_has del: set_map)
qed

lemma foldl_upload_fee_step_fails:
  assumes "foldl (upload_fee_step row t per) (Inr db) fts = Inl db'"
  shows "(\<exists>ft \<in> set fts. (py_strip (row_regd_no row), ft) \<in> set (map (\<lambda>e. (fee_regd_no e, fee_type e)) (fee_master db')))
       \<and> students db' = students db"
  using assms
proof (induction fts arbitrary: db)
  case (Cons ft fts)
  show ?case
  proof (cases "upload_fee_step row t per (Inr db) ft")
    case (Inl d)
    with Cons.prems have "d = db'" by simp
    with upload_fee_step_fails [OF Inl] show ?thesis by auto
  next
    case (Inr d)
    with Cons.prems have "foldl (upload_fee_step row t per) (Inr d) fts = Inl db'" by simp
    note ih = Cons.IH [OF this]
    have "students d = students db"
      using Inr by (auto simp: upload_fee_step_def Let_def split: option.splits if_splits)
    with ih show ?thesis by auto
  qed
qed simp

subsection \<open>Properties of the import\<close>

text \<open>
  C27: importing a spreadsheet keeps the table invariant, whatever the rows hold and
  even when rows fail half-way: students are unique, every new row gets a fresh id, fee
  entries and payments belong to a student inserted or updated first, and a fee entry is
  inserted only when the student has none with that exact fee type.
\<close>

theorem upload_preserves_wf:
  assumes "db_wf db" and "upload f db = Inr st"
  shows "db_wf (us_db st)"
  using assms foldl_upload_step_wf [of "\<lparr>us_db = db, us_processed = 0, us_errors = [], us_added = []\<rparr>"]
  by (auto simp: upload_def Let_def split: if_splits)

theorem upload_preserves_wf_witness:
  "db_wf (us_db (projr (upload (sample_upload [sample_row ''R8'' ''CRT, Phase 2'' (Some 1000) (Some 500) (Some (Some (2024, 2, 1)))]) sample_db)))"
proof -
  have "db_wf sample_db" by code_simp
  moreover have "upload (sample_upload [sample_row ''R8'' ''CRT, Phase 2'' (Some 1000) (Some 500) (Some (Some (2024, 2, 1)))]) sample_db
      = Inr (projr (upload (sample_upload [sample_row ''R8'' ''CRT, Phase 2'' (Some 1000) (Some 500) (Some (Some (2024, 2, 1)))]) sample_db))"
    by code_simp
  ultimately show ?thesis by (rule upload_preserves_wf)
qed

text \<open>
  The equal split of a row with several fee types loses cents: 1000 over CRT,
  Phase 2 and Phase 3 becomes three fee entries of 333.33, which sum to 999.99.
\<close>

theorem upload_equal_split_loses_cents:
  "case upload (sample_upload [sample_row ''R8'' ''CRT, Phase 2, Phase 3'' (Some 1000) None None]) empty_db of
     Inr st \<Rightarrow> map (\<lambda>e. (fee_type e, amount e)) (fee_master (us_db st))
                 = [(''crt fee'', 33333/100), (''smart interviews phase-ii'', 33333/100), (''smart interviews phase-iii'', 33333/100)]
               \<and> sum_list (map amount (fee_master (us_db st))) = 99999/100
   | Inl _ \<Rightarrow> False"
  by code_simp

text \<open>
  C28: a failing row is not undone.  When a row with a valid positive amount fails
  (a payment date that does not parse), the import records the row's line number as a
  warning and does not count it, but keeps everything the row changed before the
  failure: its student is in the database, and so is a fee entry of that student for
  one of the row's fee types; these are committed with the other rows.
\<close>

theorem upload_failed_row_not_undone:
  assumes "row_amount row = Some a" and "0 < a" and "upload_row_db row (us_db st) = Inl db'"
  shows "us_db (upload_step st (i, row)) = db'
       \<and> us_errors (upload_step st (i, row)) = us_errors st @ [i + 2]
       \<and> us_processed (upload_step st (i, row)) = us_processed st
       \<and> py_strip (row_regd_no row) \<in> set (map regd_no (students db'))
       \<and> (\<exists>ft \<in> set (row_fee_types row).
            (py_strip (row_regd_no row), ft) \<in> set (map (\<lambda>e. (fee_regd_no e, fee_type e)) (fee_master db')))"
proof -
  let ?db1 = "upsert_student (py_strip (row_regd_no row)) (py_strip (row_name row))
                (py_strip (row_batch_year row)) (py_strip (row_branch row))
                (case row_mobile row of None \<Rightarrow> [] | Some m \<Rightarrow> py_strip m) (us_db st)"
  let ?per = "if 1 < length (row_fee_types row) then py_round2 (a / of_nat (length (row_fee_types row))) else a"
  have "foldl (upload_fee_step row a ?per) (Inr ?db1) (row_fee_types row) = Inl db'"
    using assms by (simp add: upload_row_db_def Let_def)
  note fails = foldl_upload_fee_step_fails [OF this]
  have "py_strip (row_regd_no row) \<in> set (map regd_no (students db'))"
    using fails upsert_student_has by (simp del: set_map)
  with fails assms(3) show ?thesis by (simp add: upload_step_def)
qed

theorem upload_failed_row_not_undone_witness:
  "us_errors (upload_step \<lparr>us_db = empty_db, us_processed = 0, us_errors = [], us_added = []\<rparr>
               (0, sample_row ''R8'' ''CRT'' (Some 1000) (Some 500) (Some None))) = [2]
   \<and> ''R8'' \<in> set (map regd_no (students (us_db (upload_step \<lparr>us_db = empty_db, us_processed = 0, us_errors = [], us_added = []\<rparr>
               (0, sample_row ''R8'' ''CRT'' (Some 1000) (Some 500) (Some None))))))"
proof -
  have "isl (upload_row_db (sample_row ''R8'' ''CRT'' (Some 1000) (Some 500) (Some None)) empty_db)"
    by code_simp
  then obtain db' where fail: "upload_row_db (sample_row ''R8'' ''CRT'' (Some 1000) (Some 500) (Some None))
      (us_db \<lparr>us_db = empty_db, us_processed = 0, us_errors = [], us_added = []\<rparr>) = Inl db'"
    by (cases "upload_row_db (sample_row ''R8'' ''CRT'' (Some 1000) (Some 500) (Some None)) empty_db") auto
  have "row_amount (sample_row ''R8'' ''CRT'' (Some 1000) (Some 500) (Some None)) = Some 1000"
    and "py_strip (row_regd_no (sample_row ''R8'' ''CRT'' (Some 1000) (Some 500) (Some None))) = ''R8''"
    by code_simp+
  with upload_failed_row_not_undone [OF _ _ fail, of 1000 0] show ?thesis by simp
qed

end
