(* ===== verification/Delete.thy ===== *)
theory Delete
  imports Store
begin

text \<open>
  The POST branch of \<open>delete_paid_students\<close> (\<open>src/fee_payments/app.py\<close>, lines
  2181--2274).  Without the confirmation box the handler does nothing.  Otherwise it
  selects the fee entries of the batch-year filter (a join with \<open>Student\<close>, so an entry
  appears once per student row with its registration number) and of the fee-type filter
  (\<open>delete_candidates\<close>), keeps those whose student's paid total for the entry's
  normalised type is at least the amount less 0.01 (\<open>entry_fully_paid\<close>, computed on the
  database before any deletion), deletes for each of them, in order, the student's
  payments \<open>LIKE\<close> the entry's key (\<open>delete_payments_step\<close>, counting the rows), and then
  deletes the entries themselves.  Errors are values of \<open>delete_error\<close>.

  Lemmas: the handler keeps the table invariant; it deletes exactly the fully paid
  candidate entries; and, since the Phase II key matches Phase III payments, deleting a
  paid Phase II fee deletes the Phase III payments of a Phase III fee that stays.
\<close>

datatype delete_error = Not_Confirmed | Nothing_To_Delete

record delete_report =
  deleted_entries :: nat
  deleted_payments :: nat
  deleted_students :: nat

definition delete_candidates :: "fee_db \<Rightarrow> string \<Rightarrow> string \<Rightarrow> fee_entry list" where
  "delete_candidates db by ft =
     filter (\<lambda>e. ft = [] \<or> fee_type_like (fee_type e) (normalize_fee_type ft))
       (if by = [] then fee_master db
        else [e. e \<leftarrow> fee_master db, s \<leftarrow> students db, fee_regd_no e = regd_no s \<and> batch_year s = by])"

definition entry_fully_paid :: "fee_db \<Rightarrow> fee_entry \<Rightarrow> bool" where
  "entry_fully_paid db e \<longleftrightarrow> amount e - epsilon \<le> paid_total db (fee_regd_no e) (normalize_fee_type (fee_type e))"

definition delete_payments_step :: "fee_db \<times> nat \<Rightarrow> fee_entry \<Rightarrow> fee_db \<times> nat" where
  "delete_payments_step acc e =
     (case acc of (db, n) \<Rightarrow>
        (let keep = filter (\<lambda>p. \<not> (pay_regd_no p = fee_regd_no e
                                   \<and> fee_type_like (pay_fee_type p) (normalize_fee_type (fee_type e)))) (payments db)
         in (db\<lparr>payments := keep\<rparr>, n + (length (payments db) - length keep))))"

definition delete_paid_students :: "bool \<Rightarrow> string \<Rightarrow> string \<Rightarrow> fee_db \<Rightarrow> delete_error + fee_db \<times> delete_report" where
  "delete_paid_students confirm by ft db =
     (if \<not> confirm then Inl Not_Confirmed
      else
        (let fully_paid_entries = filter (entry_fully_paid db) (delete_candidates db by ft) in
         if fully_paid_entries = [] then Inl Nothing_To_Delete
         else
           (case foldl delete_payments_step (db, 0) fully_paid_entries of
              (db1, deleted) \<Rightarrow>
                Inr (db1\<lparr>fee_master := filter (\<lambda>e. fee_id e \<notin> set (map fee_id fully_paid_entries)) (fee_master db1)\<rparr>,
                     \<lparr>deleted_entries = length fully_paid_entries, deleted_payments = deleted,
                      deleted_students = card (set (map fee_regd_no fully_paid_entries))\<rparr>))))"

text \<open>
  A database for the witnesses: student R7 owes 1000 for Phase II and 1000 for Phase III,
  has paid the Phase II fee and 500 of the Phase III fee.
\<close>

definition cleanup_db :: fee_db where
  "cleanup_db =
     \<lparr>students = [sample_student 7 ''R7''],
      fee_master = [sample_fee 8 ''R7'' ''smart interviews phase-ii'' 1000,
                    sample_fee 9 ''R7'' ''smart interviews phase-iii'' 1000],
      payments = [sample_payment 5 ''R7'' ''smart interviews phase-ii'' 1000,
                  sample_payment 6 ''R7'' ''smart interviews phase-iii'' 500]\<rparr>"

subsection \<open>Lemmas on the deletion loop\<close>

lemma foldl_delete_payments_step:
  "\<exists>n. foldl delete_payments_step (db, k) es
     = (db\<lparr>payments := filter (\<lambda>p. \<forall>e \<in> set es. \<not> (pay_regd_no p = fee_regd_no e
            \<and> fee_type_like (pay_fee_type p) (normalize_fee_type (fee_type e)))) (payments db)\<rparr>, n)"
proof (induction es arbitrary: db k)
  case (Cons e es)
  define db1 where "db1 = db\<lparr>payments := filter (\<lambda>p. \<not> (pay_regd_no p = fee_regd_no e
            \<and> fee_type_like (pay_fee_type p) (normalize_fee_type (fee_type e)))) (payments db)\<rparr>"
  obtain k1 where step: "delete_payments_step (db, k) e = (db1, k1)"
    by (simp add: delete_payments_step_def db1_def Let_def)
  obtain n where "foldl delete_payments_step (db1, k1) es
     = (db1\<lparr>payments := filter (\<lambda>p. \<forall>e \<in> set es. \<not> (pay_regd_no p = fee_regd_no e
            \<and> fee_type_like (pay_fee_type p) (normalize_fee_type (fee_type e)))) (payments db1)\<rparr>, n)"
    using Cons.IH by blast
  with step show ?case
    by (auto simp: db1_def intro!: filter_cong)
qed simp

lemma delete_candidates_subset: "set (delete_candidates db by ft) \<subseteq> set (fee_master db)"
  by (auto simp: delete_candidates_def)

lemma delete_paid_students_Inr:
  assumes "delete_paid_students confirm by ft db = Inr (db', rep)"
  shows "students db' = students db
     \<and> fee_master db' = filter (\<lambda>e. fee_id e \<notin> fee_id ` set (filter (entry_fully_paid db) (delete_candidates db by ft))) (fee_master db)
     \<and> (\<exists>P. payments db' = filter P (payments db))"
proof -
  let ?fp = "filter (entry_fully_paid db) (delete_candidates db by ft)"
  obtain n where "foldl delete_payments_step (db, 0) ?fp
     = (db\<lparr>payments := filter (\<lambda>p. \<forall>e \<in> set ?fp. \<not> (pay_regd_no p = fee_regd_no e
            \<and> fee_type_like (pay_fee_type p) (normalize_fee_type (fee_type e)))) (payments db)\<rparr>, n)"
    using foldl_delete_payments_step by blast
  with assms show ?thesis
    by (auto simp: delete_paid_students_def Let_def split: if_splits intro: exI)
qed

lemma delete_paid_students_payments:
  assumes "delete_paid_students confirm by ft db = Inr (db', rep)"
  shows "payments db' = [p \<leftarrow> payments db. \<forall>e \<in> set (filter (entry_fully_paid db) (delete_candidates db by ft)).
           \<not> (pay_regd_no p = fee_regd_no e \<and> fee_type_like (pay_fee_type p) (normalize_fee_type (fee_type e)))]"
proof -
  let ?fp = "filter (entry_fully_paid db) (delete_candidates db by ft)"
  obtain n where "foldl delete_payments_step (db, 0) ?fp
     = (db\<lparr>payments := filter (\<lambda>p. \<forall>e \<in> set ?fp. \<not> (pay_regd_no p = fee_regd_no e
            \<and> fee_type_like (pay_fee_type p) (normalize_fee_type (fee_type e)))) (payments db)\<rparr>, n)"
    using foldl_delete_payments_step by blast
  with assms show ?thesis
    by (auto simp: delete_paid_students_def Let_def split: if_splits)
qed

subsection \<open>Properties of the handler\<close>

text \<open>
  C24: deleting the paid records keeps the table invariant: students are untouched, and
  fee entries and payments are only removed.
\<close>

theorem delete_paid_students_preserves_wf:
  assumes "db_wf db" and "delete_paid_students confirm by ft db = Inr (db', rep)"
  shows "db_wf db'"
proof -
  obtain P where st: "students db' = students db"
    and fm: "fee_master db' = filter (\<lambda>e. fee_id e \<notin> fee_id ` set (filter (entry_fully_paid db) (delete_candidates db by ft))) (fee_master db)"
    and ps: "payments db' = filter P (payments db)"
    using delete_paid_students_Inr [OF assms(2)] by blast
  from assms(1) show ?thesis
    unfolding db_wf_def st fm ps by (auto simp: distinct_map_filter)
qed

theorem delete_paid_students_preserves_wf_witness:
  "db_wf (fst (projr (delete_paid_students True [] [] cleanup_db)))"
proof -
  have "db_wf cleanup_db" by code_simp
  moreover have "delete_paid_students True [] [] cleanup_db
     = Inr (fst (projr (delete_paid_students True [] [] cleanup_db)), snd (projr (delete_paid_students True [] [] cleanup_db)))"
    by code_simp
  ultimately show ?thesis by (rule delete_paid_students_preserves_wf)
qed

text \<open>
  C25: on a well-formed database the handler removes exactly the fee entries that pass
  the filters and are fully paid (paid total at least the amount less 0.01); every other
  fee entry stays.
\<close>

theorem delete_paid_students_removes_exactly_paid:
  assumes "db_wf db" and "delete_paid_students confirm by ft db = Inr (db', rep)"
    and "e \<in> set (fee_master db)"
  shows "e \<in> set (fee_master db') \<longleftrightarrow> \<not> (e \<in> set (delete_candidates db by ft) \<and> entry_fully_paid db e)"
proof -
  have fm: "fee_master db' = filter (\<lambda>e. fee_id e \<notin> fee_id ` set (filter (entry_fully_paid db) (delete_candidates db by ft))) (fee_master db)"
    using delete_paid_students_Inr [OF assms(2)] by blast
  have inj: "inj_on fee_id (set (fee_master db))"
    using assms(1) by (simp add: db_wf_def distinct_map)
  have "fee_id e \<in> fee_id ` set (filter (entry_fully_paid db) (delete_candidates db by ft))
        \<longleftrightarrow> e \<in> set (delete_candidates db by ft) \<and> entry_fully_paid db e"
  proof
    assume "fee_id e \<in> fee_id ` set (filter (entry_fully_paid db) (delete_candidates db by ft))"
    then obtain e' where e': "e' \<in> set (delete_candidates db by ft)" "entry_fully_paid db e'" "fee_id e' = fee_id e"
      by auto
    with delete_candidates_subset have "e' = e"
      using inj_onD [OF inj] assms(3) by blast
    with e' show "e \<in> set (delete_candidates db by ft) \<and> entry_fully_paid db e" by simp
  qed auto
  with fm assms(3) show ?thesis by simp
qed

theorem delete_paid_students_removes_exactly_paid_witness:
  "sample_fee 9 ''R7'' ''smart interviews phase-iii'' 1000 \<in> set (fee_master (fst (projr (delete_paid_students True [] [] cleanup_db))))"
proof -
  have wf: "db_wf cleanup_db" by code_simp
  have ok: "delete_paid_students True [] [] cleanup_db
     = Inr (fst (projr (delete_paid_students True [] [] cleanup_db)), snd (projr (delete_paid_students True [] [] cleanup_db)))"
    by code_simp
  have mem: "sample_fee 9 ''R7'' ''smart interviews phase-iii'' 1000 \<in> set (fee_master cleanup_db)"
    by (simp add: cleanup_db_def)
  have "\<not> entry_fully_paid cleanup_db (sample_fee 9 ''R7'' ''smart interviews phase-iii'' 1000)"
    by code_simp
  with delete_paid_students_removes_exactly_paid [OF wf ok mem] show ?thesis by simp
qed

text \<open>
  C26: deleting paid records deletes the payments of an unpaid fee.  When the handler
  deletes a fully paid Phase II entry of a student, it deletes with it every payment of
  that student whose fee type contains the Phase III key, since that key contains the
  Phase II key matched by \<open>LIKE\<close>; the student's Phase III entry, when not fully paid,
  stays with those payments gone.
\<close>

theorem delete_paid_students_drops_phase_iii_payments:
  assumes "delete_paid_students confirm by ft db = Inr (db', rep)"
    and "e \<in> set (delete_candidates db by ft)" and "entry_fully_paid db e"
    and "normalize_fee_type (fee_type e) = ''smart interviews phase-ii''"
    and "pay_regd_no p = fee_regd_no e"
    and "py_in ''smart interviews phase-iii'' (py_lower (pay_fee_type p))"
  shows "p \<notin> set (payments db')"
proof -
  have "py_in ''smart interviews phase-ii'' (py_lower (pay_fee_type p))"
    using phase_ii_key_in_phase_iii_key assms(6) by (rule py_in_trans)
  then have "fee_type_like (pay_fee_type p) (normalize_fee_type (fee_type e))"
    by (simp add: assms(4) fee_type_like_iff)
  with delete_paid_students_payments [OF assms(1)] assms(2,3,5) show ?thesis
    by auto
qed

theorem delete_paid_students_drops_phase_iii_payments_witness:
  "sample_payment 6 ''R7'' ''smart interviews phase-iii'' 500 \<in> set (payments cleanup_db)
   \<and> sample_payment 6 ''R7'' ''smart interviews phase-iii'' 500 \<notin> set (payments (fst (projr (delete_paid_students True [] [] cleanup_db))))"
proof -
  have ok: "\<not> isl (delete_paid_students True [] [] cleanup_db)" by code_simp
  then obtain db' rep where res: "delete_paid_students True [] [] cleanup_db = Inr (db', rep)"
    by (cases "delete_paid_students True [] [] cleanup_db") auto
  have "sample_fee 8 ''R7'' ''smart interviews phase-ii'' 1000 \<in> set (delete_candidates cleanup_db [] [])"
    and "entry_fully_paid cleanup_db (sample_fee 8 ''R7'' ''smart interviews phase-ii'' 1000)"
    and "normalize_fee_type (fee_type (sample_fee 8 ''R7'' ''smart interviews phase-ii'' 1000)) = ''smart interviews phase-ii''"
    and "pay_regd_no (sample_payment 6 ''R7'' ''smart interviews phase-iii'' 500)
           = fee_regd_no (sample_fee 8 ''R7'' ''smart interviews phase-ii'' 1000)"
    and "py_in ''smart interviews phase-iii'' (py_lower (pay_fee_type (sample_payment 6 ''R7'' ''smart interviews phase-iii'' 500)))"
    and "sample_payment 6 ''R7'' ''smart interviews phase-iii'' 500 \<in> set (payments cleanup_db)"
    by code_simp+
  with delete_paid_students_drops_phase_iii_payments [OF res] res show ?thesis by simp
qed

end
