(* ===== verification/Auth.thy ===== *)
theory Auth
  imports Api Upload Delete
begin

text \<open>
  Administrators and the login guard.  \<open>models.py\<close> (lines 51--83) stores admins with a
  unique user name and a salted password hash and creates the default admin
  \<open>admin\<close>/\<open>adminpass\<close> when none exists (\<open>create_default_admin\<close>, run by \<open>init_db\<close> at
  start-up); \<open>init_admin.py\<close> adds admins from the console.  In \<open>app.py\<close>,
  \<open>admin_login\<close> (2123--2147) logs an admin in, \<open>logout\<close> (1787--1792) logs out, and
  \<open>load_user\<close> (35--37) turns the session's admin id back into an admin, so a session
  whose id names no admin is not authenticated.  Every route decorated with
  \<open>@login_required\<close> redirects an unauthenticated request to the login page without
  running its handler.

  The password hash is modelled by \<open>Hashed p\<close>: \<open>check_password_hash\<close> accepts exactly
  the password the hash was made from, and the salt is not modelled.  The web
  application is a state (\<open>app_state\<close>: the tables, the admins, the session) and a
  function \<open>serve\<close> that answers one request, running the modelled handlers of
  \<open>Payments\<close>, \<open>Upload\<close>, \<open>Api\<close> and \<open>Delete\<close>; the reachable states are an inductive
  predicate over runs of requests from the state \<open>init_db\<close> leaves.

  Lemmas: while nobody is logged in, only \<open>/upload\<close> and \<open>/payments\<close>, the writing
  routes without \<open>@login_required\<close>, change the tables, exactly as their handlers do; in every
  reachable state the default admin exists with its default password and the session
  names an admin; hence from every reachable state the default credentials log in.
\<close>

datatype pw_hash = Hashed string

record admin =
  admin_id :: nat
  username :: string
  password_hash :: pw_hash
  last_login :: "nat option"
  created_at :: nat

record app_state =
  app_db :: fee_db
  admins :: "admin list"
  session :: "nat option"

datatype route =
  R_Index | R_Dashboard | R_Upload | R_Payments | R_Download_Template | R_Student_Details
| R_Unpaid_Students | R_Logout | R_Chart_Debug | R_Update_Remarks | R_Api_Students
| R_Api_Student_Fees | R_Debug_Chart_Data | R_Calculate_Distribution | R_Admin_Login
| R_Registrations_By_Batch | R_Delete_Paid_Students

datatype request =
  Login string string
| Logout
| Upload_Request upload_file
| Payment_Request payment_form
| Remarks_Request "json_object option"
| Delete_Request bool string string
| View route

datatype create_admin_error = Admin_Exists | Passwords_Differ

definition set_password :: "string \<Rightarrow> pw_hash" where
  "set_password p = Hashed p"

definition check_password :: "pw_hash \<Rightarrow> string \<Rightarrow> bool" where
  "check_password h p \<longleftrightarrow> h = Hashed p"

definition find_admin :: "app_state \<Rightarrow> string \<Rightarrow> admin option" where
  "find_admin st u = find (\<lambda>a. username a = u) (admins st)"

definition new_admin :: "string \<Rightarrow> string \<Rightarrow> nat \<Rightarrow> app_state \<Rightarrow> app_state" where
  "new_admin u p now st =
     st\<lparr>admins := admins st @ [\<lparr>admin_id = next_id (map admin_id (admins st)), username = u,
                                 password_hash = set_password p, last_login = None, created_at = now\<rparr>]\<rparr>"

definition create_default_admin :: "nat \<Rightarrow> app_state \<Rightarrow> app_state" where
  "create_default_admin now st =
     (case find_admin st ''admin'' of None \<Rightarrow> new_admin ''admin'' ''adminpass'' now st | Some _ \<Rightarrow> st)"

definition create_admin_user :: "string \<Rightarrow> string \<Rightarrow> string \<Rightarrow> nat \<Rightarrow> app_state \<Rightarrow> create_admin_error + app_state" where
  "create_admin_user u p confirm now st =
     (if find_admin st u \<noteq> None then Inl Admin_Exists
      else if p \<noteq> confirm then Inl Passwords_Differ
      else Inr (new_admin u p now st))"

definition init_db :: "nat \<Rightarrow> app_state" where
  "init_db now = create_default_admin now \<lparr>app_db = empty_db, admins = [], session = None\<rparr>"

definition load_user :: "app_state \<Rightarrow> admin option" where
  "load_user st = (case session st of None \<Rightarrow> None | Some i \<Rightarrow> find (\<lambda>a. admin_id a = i) (admins st))"

definition is_authenticated :: "app_state \<Rightarrow> bool" where
  "is_authenticated st \<longleftrightarrow> load_user st \<noteq> None"

fun login_required :: "route \<Rightarrow> bool" where
  "login_required R_Student_Details = True"
| "login_required R_Logout = True"
| "login_required R_Update_Remarks = True"
| "login_required R_Api_Students = True"
| "login_required R_Api_Student_Fees = True"
| "login_required R_Debug_Chart_Data = True"
| "login_required R_Calculate_Distribution = True"
| "login_required R_Registrations_By_Batch = True"
| "login_required R_Delete_Paid_Students = True"
| "login_required _ = False"

fun route_of :: "request \<Rightarrow> route" where
  "route_of (Login _ _) = R_Admin_Login"
| "route_of Logout = R_Logout"
| "route_of (Upload_Request _) = R_Upload"
| "route_of (Payment_Request _) = R_Payments"
| "route_of (Remarks_Request _) = R_Update_Remarks"
| "route_of (Delete_Request _ _ _) = R_Delete_Paid_Students"
| "route_of (View r) = r"

definition admin_login :: "string \<Rightarrow> string \<Rightarrow> nat \<Rightarrow> app_state \<Rightarrow> app_state" where
  "admin_login u p now st =
     (if is_authenticated st then st
      else
        (case find_admin st u of
           Some a \<Rightarrow>
             if check_password (password_hash a) p
             then st\<lparr>session := Some (admin_id a),
                     admins := update_first (\<lambda>b. username b = u) (\<lambda>b. b\<lparr>last_login := Some now\<rparr>) (admins st)\<rparr>
             else st
         | None \<Rightarrow> st))"

definition logout :: "app_state \<Rightarrow> app_state" where
  "logout st = st\<lparr>session := None\<rparr>"

definition with_db :: "app_state \<Rightarrow> ('e + fee_db) \<Rightarrow> app_state" where
  "with_db st r = (case r of Inl _ \<Rightarrow> st | Inr db' \<Rightarrow> st\<lparr>app_db := db'\<rparr>)"

definition serve ::
  "(string \<Rightarrow> money option) \<Rightarrow> (string \<Rightarrow> date option) \<Rightarrow> nat \<Rightarrow> app_state \<Rightarrow> request \<Rightarrow> app_state" where
  "serve parse_float parse_date now st rq =
     (if login_required (route_of rq) \<and> \<not> is_authenticated st then st
      else
        (case rq of
           Login u p \<Rightarrow> admin_login u p now st
         | Logout \<Rightarrow> logout st
         | Upload_Request f \<Rightarrow> with_db st (map_sum id us_db (upload f (app_db st)))
         | Payment_Request f \<Rightarrow> with_db st (record_payment parse_float parse_date f (app_db st))
         | Remarks_Request d \<Rightarrow> with_db st (update_remarks d (app_db st))
         | Delete_Request c by ft \<Rightarrow> with_db st (map_sum id fst (delete_paid_students c by ft (app_db st)))
         | View _ \<Rightarrow> st))"

inductive reachable :: "(string \<Rightarrow> money option) \<Rightarrow> (string \<Rightarrow> date option) \<Rightarrow> app_state \<Rightarrow> bool"
  for parse_float parse_date where
  start: "reachable parse_float parse_date (init_db now)"
| step: "reachable parse_float parse_date st \<Longrightarrow> reachable parse_float parse_date (serve parse_float parse_date now st rq)"

definition admins_ok :: "app_state \<Rightarrow> bool" where
  "admins_ok st \<longleftrightarrow>
     distinct (map admin_id (admins st)) \<and> distinct (map username (admins st))
   \<and> map_option password_hash (find_admin st ''admin'') = Some (Hashed ''adminpass'')
   \<and> (case session st of None \<Rightarrow> True | Some i \<Rightarrow> i \<in> set (map admin_id (admins st)))"

subsection \<open>Lemmas on the admins and the session\<close>

lemma with_db_admins [simp]: "admins (with_db st r) = admins st" "session (with_db st r) = session st"
  by (simp_all add: with_db_def split: sum.splits)

lemma admins_ok_with_db [simp]: "admins_ok (with_db st r) = admins_ok st"
  by (simp add: admins_ok_def find_admin_def split: option.split)

lemma admins_ok_logout [simp]: "admins_ok st \<Longrightarrow> admins_ok (logout st)"
  by (simp add: admins_ok_def find_admin_def logout_def)

lemma admins_ok_login [simp]: "admins_ok st \<Longrightarrow> admins_ok (admin_login u p now st)"
proof -
  assume ok: "admins_ok st"
  let ?adm = "update_first (\<lambda>b. username b = u) (\<lambda>b. b\<lparr>last_login := Some now\<rparr>) (admins st)"
  have ids: "map admin_id ?adm = map admin_id (admins st)" and names: "map username ?adm = map username (admins st)"
    by simp_all
  have pw: "map_option password_hash (find (\<lambda>a. username a = ''admin'') ?adm)
          = map_option password_hash (find (\<lambda>a. username a = ''admin'') (admins st))"
    by (rule find_update_first) simp_all
  show ?thesis
  proof (cases "\<not> is_authenticated st \<and> (\<exists>a. find_admin st u = Some a \<and> check_password (password_hash a) p)")
    case True
    then obtain a where a: "find_admin st u = Some a" "check_password (password_hash a) p" by blast
    then have "admin_id a \<in> set (map admin_id (admins st))"
      by (auto simp: find_admin_def dest: find_Some_mem)
    with ok True a ids names pw show ?thesis
      by (simp add: admin_login_def admins_ok_def find_admin_def del: map_update_first)
  next
    case False
    with ok show ?thesis
      by (auto simp: admin_login_def split: option.splits)
  qed
qed

lemma admins_ok_serve: "admins_ok st \<Longrightarrow> admins_ok (serve parse_float parse_date now st rq)"
  by (cases rq) (simp_all add: serve_def)

lemma admins_ok_init_db: "admins_ok (init_db now)"
  by (simp add: init_db_def create_default_admin_def new_admin_def admins_ok_def find_admin_def set_password_def next_id_def)

lemma authenticated_after_login:
  assumes "admins_ok st"
  shows "is_authenticated (admin_login ''admin'' ''adminpass'' now st)"
proof (cases "is_authenticated st")
  case True
  then show ?thesis by (simp add: admin_login_def)
next
  case False
  let ?adm = "update_first (\<lambda>b. username b = ''admin'') (\<lambda>b. b\<lparr>last_login := Some now\<rparr>) (admins st)"
  from assms obtain a where a: "find_admin st ''admin'' = Some a" "password_hash a = Hashed ''adminpass''"
    by (auto simp: admins_ok_def)
  then have "admin_id a \<in> set (map admin_id (admins st))"
    by (auto simp: find_admin_def dest: find_Some_mem)
  moreover have "map admin_id ?adm = map admin_id (admins st)"
    by simp
  ultimately have "admin_id a \<in> set (map admin_id ?adm)"
    by (simp only:)
  then obtain b where b: "b \<in> set ?adm" "admin_id b = admin_id a"
    by (auto simp only: set_map image_iff)
  have login: "admin_login ''admin'' ''adminpass'' now st = st\<lparr>session := Some (admin_id a), admins := ?adm\<rparr>"
    using False a by (simp add: admin_login_def check_password_def)
  from b show ?thesis
    unfolding login is_authenticated_def load_user_def by (auto simp: find_None_iff)
qed

subsection \<open>Properties of the login guard\<close>

text \<open>
  C2: while nobody is logged in, a request changes the fee tables only through the two
  routes without \<open>@login_required\<close> that write: an upload changes them as
  \<open>Upload.upload\<close> does and a payment form as \<open>Payments.record_payment\<close> does, each
  committed only on success; a remarks update, a deletion, a login, a logout or a page
  view leaves them unchanged.
\<close>

theorem anonymous_change_needs_unguarded_route:
  assumes "\<not> is_authenticated st"
  shows "app_db (serve parse_float parse_date now st rq) =
     (case rq of
        Upload_Request f \<Rightarrow> (case upload f (app_db st) of Inl _ \<Rightarrow> app_db st | Inr s \<Rightarrow> us_db s)
      | Payment_Request f \<Rightarrow>
          (case record_payment parse_float parse_date f (app_db st) of Inl _ \<Rightarrow> app_db st | Inr db' \<Rightarrow> db')
      | _ \<Rightarrow> app_db st)"
  using assms
  by (cases rq) (simp_all add: serve_def with_db_def admin_login_def logout_def split: sum.split option.split)

theorem anonymous_change_needs_unguarded_route_witness:
  "app_db (serve sample_parse_float sample_parse_date 0 \<lparr>app_db = order_db, admins = [], session = None\<rparr>
             (Payment_Request (sample_form ''R6'' ''Phase 2'' ''100'')))
   = projr (record_payment sample_parse_float sample_parse_date (sample_form ''R6'' ''Phase 2'' ''100'') order_db)"
proof -
  have anon: "\<not> is_authenticated \<lparr>app_db = order_db, admins = [], session = None\<rparr>"
    by (simp add: is_authenticated_def load_user_def)
  have "\<not> isl (record_payment sample_parse_float sample_parse_date (sample_form ''R6'' ''Phase 2'' ''100'') order_db)"
    by code_simp
  then obtain x where ok: "record_payment sample_parse_float sample_parse_date (sample_form ''R6'' ''Phase 2'' ''100'') order_db = Inr x"
    by (cases "record_payment sample_parse_float sample_parse_date (sample_form ''R6'' ''Phase 2'' ''100'') order_db") auto
  show ?thesis
    using anonymous_change_needs_unguarded_route [OF anon, of sample_parse_float sample_parse_date 0
        "Payment_Request (sample_form ''R6'' ''Phase 2'' ''100'')"] ok
    by simp
qed

text \<open>
  C36: in every state the application can reach from start-up, admin ids and user names
  are unique, the default admin \<open>admin\<close> exists with the password \<open>adminpass\<close> (no
  request changes a password), and the session, if any, names an existing admin.
\<close>

theorem reachable_admins_ok:
  assumes "reachable parse_float parse_date st"
  shows "admins_ok st"
  using assms by induction (simp_all add: admins_ok_init_db admins_ok_serve)

theorem reachable_admins_ok_witness:
  "admins_ok (serve sample_parse_float sample_parse_date 1 (init_db 0) (Login ''admin'' ''wrong''))"
  by (rule reachable_admins_ok [OF reachable.step [OF reachable.start]])

text \<open>
  C37: from every reachable state, logging in with the default credentials
  \<open>admin\<close>/\<open>adminpass\<close> yields an authenticated session.
\<close>

theorem default_admin_can_always_log_in:
  assumes "reachable parse_float parse_date st"
  shows "is_authenticated (serve parse_float parse_date now st (Login ''admin'' ''adminpass''))"
proof -
  from assms have "admins_ok st"
    by induction (simp_all add: admins_ok_init_db admins_ok_serve)
  then show ?thesis by (simp add: serve_def authenticated_after_login)
qed

theorem default_admin_can_always_log_in_witness:
  "is_authenticated (serve sample_parse_float sample_parse_date 2
     (serve sample_parse_float sample_parse_date 1 (init_db 0) Logout) (Login ''admin'' ''adminpass''))"
  by (rule default_admin_can_always_log_in [OF reachable.step [OF reachable.start]])

end
