(* ===== verification/Uploader.thy ===== *)
theory Uploader
  imports Upload
begin

text \<open>
  The command-line importer \<open>src/fee_payments/sqlite_uploader.py\<close>, which writes with
  direct SQL and its own schema (\<open>setup_db\<close>, lines 14--48): a \<open>student\<close> table with a
  unique registration number and a \<open>payment\<close> table whose rows carry the fee amount, the
  amount paid, a batch and remarks, with a foreign key to \<open>student\<close> that
  \<open>connect_db\<close> enforces (\<open>PRAGMA foreign_keys = ON\<close>).  Ids are \<open>AUTOINCREMENT\<close>: the
  next id is one more than the table's sequence counter.  The database also records
  which columns its \<open>payment\<close> table has, because the application's own schema
  (\<open>models.py\<close>) gives that table different ones, and an \<open>INSERT\<close> naming a missing
  column fails.

  \<open>process_excel_file\<close> (lines 107--240) checks the columns, then runs one transaction:
  each row upserts its student (\<open>sq_upsert_student\<close>), reads the amounts and the date
  and inserts a payment (\<open>sq_insert_payment\<close>); a failing row is recorded and its earlier
  changes stay in the transaction.  At the end the transaction is committed when there
  were no errors or fewer errors than processed rows, and rolled back otherwise.

  Lemmas: the importer keeps its table invariant; every row is counted once, and a
  rollback returns the database unchanged with processed rows lost; on the
  application's \<open>payment\<close> table every row fails.
  \<open>datetime.now()\<close> is the parameter \<open>today\<close>.
\<close>

record sq_student =
  sq_id :: nat
  sq_regd_no :: string
  sq_name :: string
  sq_batch_year :: string
  sq_branch :: string
  sq_mobile :: string

record sq_payment =
  sqp_id :: nat
  sqp_regd_no :: string
  sqp_fee_type :: string
  sqp_batch :: string
  sqp_amount :: money
  sqp_amount_paid :: money
  sqp_payment_date :: date
  sqp_received_by :: string
  sqp_remarks :: string

record sq_db =
  sq_students :: "sq_student list"
  sq_payments :: "sq_payment list"
  sq_student_seq :: nat
  sq_payment_seq :: nat
  sq_payment_columns :: "string list"

record sq_row =
  sr_regd_no :: string
  sr_name :: string
  sr_batch_year :: string
  sr_branch :: string
  sr_mobile :: string
  sr_fee_type :: string
  sr_batch :: string
  sr_amount :: "money option"
  sr_paid_amount :: "money option option"
  sr_payment_date :: "date option option"
  sr_received_by :: string
  sr_remarks :: string

definition uploader_payment_columns :: "string list" where
  "uploader_payment_columns =
     [''regd_no'', ''fee_type'', ''batch'', ''amount'', ''amount_paid'', ''payment_date'', ''received_by'', ''remarks'']"

definition app_payment_columns :: "string list" where
  "app_payment_columns = [''id'', ''regd_no'', ''batch_year'', ''fee_type'', ''amount_paid'', ''date'', ''received_by'']"

definition sq_column_mappings :: "(string \<times> string) list" where
  "sq_column_mappings =
     [(''registration_number'', ''regd_no''), (''registration'', ''regd_no''), (''reg_no'', ''regd_no''),
      (''regno'', ''regd_no''), (''student_name'', ''name''), (''department'', ''branch''),
      (''phone'', ''mobile''), (''contact'', ''mobile''), (''fee'', ''amount''), (''fee_amount'', ''amount''),
      (''payment_date'', ''payment_date''), (''date'', ''payment_date'')]"

definition sq_required_cols :: "string list" where
  "sq_required_cols = [''regd_no'', ''name'', ''batch_year'', ''branch'', ''fee_type'', ''amount'']"

definition sq_upsert_student :: "string \<Rightarrow> string \<Rightarrow> string \<Rightarrow> string \<Rightarrow> string \<Rightarrow> sq_db \<Rightarrow> sq_db" where
  "sq_upsert_student r nm by br mob db =
     (if r \<in> set (map sq_regd_no (sq_students db)) then
        db\<lparr>sq_students := map (\<lambda>s. if sq_regd_no s = r
                                 then s\<lparr>sq_name := nm, sq_batch_year := by, sq_branch := br, sq_mobile := mob\<rparr> else s)
                               (sq_students db)\<rparr>
      else
        db\<lparr>sq_students := sq_students db @
             [\<lparr>sq_id = Suc (sq_student_seq db), sq_regd_no = r, sq_name = nm, sq_batch_year = by,
               sq_branch = br, sq_mobile = mob\<rparr>],
           sq_student_seq := Suc (sq_student_seq db)\<rparr>)"

definition sq_insert_payment ::
  "string \<Rightarrow> string \<Rightarrow> string \<Rightarrow> money \<Rightarrow> money \<Rightarrow> date \<Rightarrow> string \<Rightarrow> string \<Rightarrow> sq_db \<Rightarrow> sq_db option" where
  "sq_insert_payment r ft b a ap d rb rm db =
     (if \<not> set uploader_payment_columns \<subseteq> set (sq_payment_columns db) then None
      else if r \<notin> set (map sq_regd_no (sq_students db)) then None
      else Some (db\<lparr>sq_payments := sq_payments db @
                     [\<lparr>sqp_id = Suc (sq_payment_seq db), sqp_regd_no = r, sqp_fee_type = ft, sqp_batch = b,
                       sqp_amount = a, sqp_amount_paid = ap, sqp_payment_date = d, sqp_received_by = rb,
                       sqp_remarks = rm\<rparr>],
                   sq_payment_seq := Suc (sq_payment_seq db)\<rparr>))"

definition sq_process_row :: "date \<Rightarrow> sq_row \<Rightarrow> sq_db \<Rightarrow> sq_db + sq_db" where
  "sq_process_row today row db =
     (let r = py_strip (sr_regd_no row);
          db1 = sq_upsert_student r (py_strip (sr_name row)) (py_strip (sr_batch_year row))
                  (py_strip (sr_branch row)) (py_strip (sr_mobile row)) db
      in case (sr_amount row, sr_paid_amount row) of
           (None, _) \<Rightarrow> Inl db1
         | (_, Some None) \<Rightarrow> Inl db1
         | (Some a, paid) \<Rightarrow>
             (let ap = (case paid of Some (Some p) \<Rightarrow> p | _ \<Rightarrow> 0) in
              if a \<le> 0 then Inl db1
              else
                (case (case sr_payment_date row of None \<Rightarrow> Some today | Some d \<Rightarrow> d) of
                   None \<Rightarrow> Inl db1
                 | Some d \<Rightarrow>
                     (case sq_insert_payment r (py_lower (py_strip (sr_fee_type row))) (py_strip (sr_batch row)) a ap d
                             (py_strip (sr_received_by row)) (py_strip (sr_remarks row)) db1 of
                        None \<Rightarrow> Inl db1
                      | Some db2 \<Rightarrow> Inr db2))))"

definition sq_row_step :: "date \<Rightarrow> sq_db \<times> nat \<times> nat list \<Rightarrow> nat \<times> sq_row \<Rightarrow> sq_db \<times> nat \<times> nat list" where
  "sq_row_step today acc ir =
     (case acc of (db, processed, errors) \<Rightarrow>
        (case ir of (idx, row) \<Rightarrow>
           (case sq_process_row today row db of
              Inl db' \<Rightarrow> (db', processed, errors @ [idx + 2])
            | Inr db' \<Rightarrow> (db', Suc processed, errors))))"

definition process_excel_file :: "date \<Rightarrow> string list \<Rightarrow> sq_row list \<Rightarrow> sq_db \<Rightarrow> string list + sq_db \<times> nat \<times> nat list" where
  "process_excel_file today cols rows db =
     (let missing = filter (\<lambda>c. c \<notin> set (normalize_columns sq_column_mappings cols)) sq_required_cols in
      if missing \<noteq> [] then Inl missing
      else
        (case foldl (sq_row_step today) (db, 0, []) (zip [0..<length rows] rows) of
           (db', processed, errors) \<Rightarrow>
             if errors = [] \<or> (0 < processed \<and> length errors < processed)
             then Inr (db', processed, errors)
             else Inr (db, processed, errors)))"

definition sq_wf :: "sq_db \<Rightarrow> bool" where
  "sq_wf db \<longleftrightarrow>
     distinct (map sq_regd_no (sq_students db))
   \<and> distinct (map sq_id (sq_students db)) \<and> (\<forall>s \<in> set (sq_students db). sq_id s \<le> sq_student_seq db)
   \<and> distinct (map sqp_id (sq_payments db)) \<and> (\<forall>p \<in> set (sq_payments db). sqp_id p \<le> sq_payment_seq db)
   \<and> (\<forall>p \<in> set (sq_payments db). sqp_regd_no p \<in> set (map sq_regd_no (sq_students db)))"

text \<open>
  Fixtures for the witnesses: an empty database created by \<open>setup_db\<close>, the same with
  the application's \<open>payment\<close> table, and rows for students S1 and S2.
\<close>

definition sq_empty :: "string list \<Rightarrow> sq_db" where
  "sq_empty cols = \<lparr>sq_students = [], sq_payments = [], sq_student_seq = 0, sq_payment_seq = 0, sq_payment_columns = cols\<rparr>"

definition sq_sample_row :: "string \<Rightarrow> money option \<Rightarrow> sq_row" where
  "sq_sample_row r a =
     \<lparr>sr_regd_no = r, sr_name = ''Student '' @ r, sr_batch_year = ''2022-2026'', sr_branch = ''CSE'',
      sr_mobile = [], sr_fee_type = ''CRT'', sr_batch = [], sr_amount = a, sr_paid_amount = Some (Some 500),
      sr_payment_date = Some (Some (2024, 3, 1)), sr_received_by = ''Office'', sr_remarks = []\<rparr>"

definition sq_sample_cols :: "string list" where
  "sq_sample_cols = [''Regd_No'', ''Name'', ''Batch_Year'', ''Branch'', ''Fee_Type'', ''Amount'', ''Paid_Amount'']"

subsection \<open>The importer keeps its table invariant\<close>

lemma sq_upsert_student_wf:
  assumes "sq_wf db"
  shows "sq_wf (sq_upsert_student r nm by br mob db)
       \<and> r \<in> set (map sq_regd_no (sq_students (sq_upsert_student r nm by br mob db)))"
proof (cases "r \<in> set (map sq_regd_no (sq_students db))")
  case True
  let ?f = "\<lambda>s. if sq_regd_no s = r then s\<lparr>sq_name := nm, sq_batch_year := by, sq_branch := br, sq_mobile := mob\<rparr> else s"
  have m1: "map sq_regd_no (map ?f (sq_students db)) = map sq_regd_no (sq_students db)"
    and m2: "map sq_id (map ?f (sq_students db)) = map sq_id (sq_students db)"
    by (simp_all add: comp_def)
  have b: "(\<forall>s \<in> set (map ?f (sq_students db)). sq_id s \<le> sq_student_seq db)
           \<longleftrightarrow> (\<forall>s \<in> set (sq_students db). sq_id s \<le> sq_student_seq db)"
    by (rule ball_map_eq [OF m2])
  have st: "sq_students (sq_upsert_student r nm by br mob db) = map ?f (sq_students db)"
    "sq_payments (sq_upsert_student r nm by br mob db) = sq_payments db"
    "sq_student_seq (sq_upsert_student r nm by br mob db) = sq_student_seq db"
    "sq_payment_seq (sq_upsert_student r nm by br mob db) = sq_payment_seq db"
    using True by (simp_all add: sq_upsert_student_def)
  show ?thesis
    unfolding sq_wf_def st m1 m2 b using assms True by (simp add: sq_wf_def)
next
  case False
  with assms show ?thesis
    by (auto simp: sq_upsert_student_def sq_wf_def)
qed

lemma sq_insert_payment_wf:
  assumes "sq_wf db" and "sq_insert_payment r ft b a ap d rb rm db = Some db'"
  shows "sq_wf db'"
proof -
  have fresh: "Suc (sq_payment_seq db) \<notin> set (map sqp_id (sq_payments db))"
    using assms(1) by (force simp: sq_wf_def)
  have bound: "\<forall>p \<in> set (sq_payments db). sqp_id p \<le> Suc (sq_payment_seq db)"
    using assms(1) by (auto simp: sq_wf_def)
  from assms fresh bound show ?thesis
    by (auto simp: sq_insert_payment_def sq_wf_def split: if_splits)
qed

lemma sq_process_row_wf:
  assumes "sq_wf db"
  shows "sq_wf (case_sum id id (sq_process_row today row db))"
proof -
  let ?db1 = "sq_upsert_student (py_strip (sr_regd_no row)) (py_strip (sr_name row)) (py_strip (sr_batch_year row))
                (py_strip (sr_branch row)) (py_strip (sr_mobile row)) db"
  have "sq_wf ?db1" using sq_upsert_student_wf [OF assms] by blast
  then show ?thesis
    by (auto simp: sq_process_row_def Let_def dest: sq_insert_payment_wf split: option.splits prod.splits)
qed

lemma foldl_sq_row_step_wf:
  "sq_wf (fst acc) \<Longrightarrow> sq_wf (fst (foldl (sq_row_step today) acc irs))"
proof (induction irs arbitrary: acc)
  case (Cons ir irs)
  have "sq_wf (fst (sq_row_step today acc ir))"
    using sq_process_row_wf [OF Cons.prems, of today "snd ir"]
    by (auto simp: sq_row_step_def split: prod.splits sum.splits)
  then show ?case by (simp add: Cons.IH)
qed simp

subsection \<open>Counting rows and the application's schema\<close>

lemma foldl_sq_row_step_counts:
  "foldl (sq_row_step today) acc irs = (d, p, e)
   \<Longrightarrow> p + length e = fst (snd acc) + length (snd (snd acc)) + length irs"
proof (induction irs arbitrary: acc)
  case (Cons ir irs)
  obtain db0 p0 e0 where acc: "acc = (db0, p0, e0)" by (cases acc) auto
  obtain i row where ir: "ir = (i, row)" by (cases ir) auto
  from Cons.prems have "p + length e = fst (snd (sq_row_step today acc ir)) + length (snd (snd (sq_row_step today acc ir))) + length irs"
    by (intro Cons.IH) simp
  then show ?case
    by (simp add: acc ir sq_row_step_def split: sum.splits)
qed simp

lemma sq_upsert_student_columns [simp]:
  "sq_payment_columns (sq_upsert_student r nm by br mob db) = sq_payment_columns db"
  by (simp add: sq_upsert_student_def)

lemma app_schema_insert_fails:
  "sq_payment_columns db = app_payment_columns \<Longrightarrow> sq_insert_payment r ft b a ap d rb rm db = None"
  by (simp add: sq_insert_payment_def uploader_payment_columns_def app_payment_columns_def)

lemma app_schema_row_fails:
  assumes "sq_payment_columns db = app_payment_columns"
  shows "\<exists>db1. sq_process_row today row db = Inl db1 \<and> sq_payment_columns db1 = app_payment_columns"
  using assms app_schema_insert_fails [of "sq_upsert_student _ _ _ _ _ db"]
  by (auto simp: sq_process_row_def Let_def split: option.split prod.split)

lemma foldl_sq_row_step_app_schema:
  assumes "sq_payment_columns (fst acc) = app_payment_columns"
  shows "fst (snd (foldl (sq_row_step today) acc irs)) = fst (snd acc)
       \<and> snd (snd (foldl (sq_row_step today) acc irs)) = snd (snd acc) @ map (\<lambda>ir. fst ir + 2) irs"
  using assms
proof (induction irs arbitrary: acc)
  case (Cons ir irs)
  obtain db0 p0 e0 where acc: "acc = (db0, p0, e0)" by (cases acc) auto
  obtain i row where ir: "ir = (i, row)" by (cases ir) auto
  from app_schema_row_fails [of db0 today row] Cons.prems obtain db1
    where "sq_process_row today row db0 = Inl db1" "sq_payment_columns db1 = app_payment_columns"
    by (auto simp: acc)
  then have step: "sq_row_step today acc ir = (db1, p0, e0 @ [i + 2])"
    and cols: "sq_payment_columns (fst (sq_row_step today acc ir)) = app_payment_columns"
    by (simp_all add: acc ir sq_row_step_def)
  from Cons.IH [OF cols] step show ?case by (simp add: acc ir)
qed simp

subsection \<open>Properties of the importer\<close>

text \<open>
  C29: the command-line importer keeps its table invariant, whether it commits or rolls
  back: registration numbers and ids stay unique, ids stay below the sequence counters,
  and every payment belongs to a student (the foreign key the connection enforces).
\<close>

theorem process_excel_file_preserves_wf:
  assumes "sq_wf db" and "process_excel_file today cols rows db = Inr (db', processed, errors)"
  shows "sq_wf db'"
proof -
  obtain dbf p e where fold: "foldl (sq_row_step today) (db, 0, []) (zip [0..<length rows] rows) = (dbf, p, e)"
    by (cases "foldl (sq_row_step today) (db, 0, []) (zip [0..<length rows] rows)") auto
  have "sq_wf dbf"
    using foldl_sq_row_step_wf [of "(db, 0, [])" today "zip [0..<length rows] rows"] assms(1) fold by simp
  with assms fold show ?thesis
    by (auto simp: process_excel_file_def Let_def split: if_splits)
qed

theorem process_excel_file_preserves_wf_witness:
  "sq_wf (fst (projr (process_excel_file (2024, 3, 1) sq_sample_cols [sq_sample_row ''S1'' (Some 1000)] (sq_empty uploader_payment_columns))))"
proof -
  have "sq_wf (sq_empty uploader_payment_columns)" by (simp add: sq_wf_def sq_empty_def)
  moreover have "process_excel_file (2024, 3, 1) sq_sample_cols [sq_sample_row ''S1'' (Some 1000)] (sq_empty uploader_payment_columns)
     = Inr (fst (projr (process_excel_file (2024, 3, 1) sq_sample_cols [sq_sample_row ''S1'' (Some 1000)] (sq_empty uploader_payment_columns))),
            fst (snd (projr (process_excel_file (2024, 3, 1) sq_sample_cols [sq_sample_row ''S1'' (Some 1000)] (sq_empty uploader_payment_columns)))),
            snd (snd (projr (process_excel_file (2024, 3, 1) sq_sample_cols [sq_sample_row ''S1'' (Some 1000)] (sq_empty uploader_payment_columns)))))"
    by code_simp
  ultimately show ?thesis by (rule process_excel_file_preserves_wf)
qed

text \<open>
  C30: the commit rule discards good rows.  Every row is counted once, as processed or
  as an error; and when there are errors and they are not fewer than the processed rows,
  the transaction is rolled back and the database is returned unchanged, so the rows
  the importer reports as processed are lost.
\<close>

theorem process_excel_file_rolls_back_valid_row:
  assumes "process_excel_file today cols rows db = Inr (db', processed, errors)"
  shows "processed + length errors = length rows
       \<and> (errors \<noteq> [] \<and> processed \<le> length errors \<longrightarrow> db' = db)"
proof -
  obtain dbf p e where fold: "foldl (sq_row_step today) (db, 0, []) (zip [0..<length rows] rows) = (dbf, p, e)"
    by (cases "foldl (sq_row_step today) (db, 0, []) (zip [0..<length rows] rows)") auto
  have "p + length e = length rows"
    using foldl_sq_row_step_counts [OF fold] by simp
  with assms fold show ?thesis
    by (auto simp: process_excel_file_def Let_def split: if_splits)
qed

theorem process_excel_file_rolls_back_valid_row_witness:
  "process_excel_file (2024, 3, 1) sq_sample_cols [sq_sample_row ''S1'' (Some 1000), sq_sample_row ''S2'' None]
      (sq_empty uploader_payment_columns)
   = Inr (sq_empty uploader_payment_columns, 1, [3])"
proof -
  have "\<not> isl (process_excel_file (2024, 3, 1) sq_sample_cols [sq_sample_row ''S1'' (Some 1000), sq_sample_row ''S2'' None]
      (sq_empty uploader_payment_columns))"
    by code_simp
  then obtain db' n es where res: "process_excel_file (2024, 3, 1) sq_sample_cols
      [sq_sample_row ''S1'' (Some 1000), sq_sample_row ''S2'' None] (sq_empty uploader_payment_columns) = Inr (db', n, es)"
    by (cases "process_excel_file (2024, 3, 1) sq_sample_cols [sq_sample_row ''S1'' (Some 1000), sq_sample_row ''S2'' None]
      (sq_empty uploader_payment_columns)") auto
  moreover have "fst (snd (projr (process_excel_file (2024, 3, 1) sq_sample_cols
      [sq_sample_row ''S1'' (Some 1000), sq_sample_row ''S2'' None] (sq_empty uploader_payment_columns)))) = 1"
    and "snd (snd (projr (process_excel_file (2024, 3, 1) sq_sample_cols
      [sq_sample_row ''S1'' (Some 1000), sq_sample_row ''S2'' None] (sq_empty uploader_payment_columns)))) = [3]"
    by code_simp+
  ultimately show ?thesis
    using process_excel_file_rolls_back_valid_row [OF res] by simp
qed

text \<open>
  C31: the importer's schema is not the application's.  On every database whose
  \<open>payment\<close> table was created by the application (\<open>models.py\<close>), whose columns are
  \<open>batch_year\<close> and \<open>date\<close> rather than \<open>batch\<close>, \<open>amount\<close>, \<open>payment_date\<close> and
  \<open>remarks\<close>, every payment insert fails: every row is an error, none is processed,
  and the database is returned unchanged.
\<close>

theorem process_excel_file_fails_on_app_schema:
  assumes "sq_payment_columns db = app_payment_columns"
    and "process_excel_file today cols rows db = Inr (db', processed, errors)"
  shows "db' = db \<and> processed = 0 \<and> errors = map (\<lambda>i. i + 2) [0..<length rows]"
proof -
  obtain dbf p e where fold: "foldl (sq_row_step today) (db, 0, []) (zip [0..<length rows] rows) = (dbf, p, e)"
    by (cases "foldl (sq_row_step today) (db, 0, []) (zip [0..<length rows] rows)") auto
  have "map (\<lambda>ir. fst ir + 2) (zip [0..<length rows] rows) = map (\<lambda>i. i + 2) (map fst (zip [0..<length rows] rows))"
    by (simp only: map_map comp_def)
  also have "\<dots> = map (\<lambda>i. i + 2) [0..<length rows]"
    by (simp only: map_fst_zip length_upt diff_zero)
  finally have pe: "p = 0 \<and> e = map (\<lambda>i. i + 2) [0..<length rows]"
    using foldl_sq_row_step_app_schema [of "(db, 0, [])" today "zip [0..<length rows] rows"] assms(1) fold
    by simp
  have "rows = [] \<Longrightarrow> dbf = db" using fold by simp
  with pe assms(2) fold show ?thesis
    by (auto simp: process_excel_file_def Let_def split: if_splits)
qed

theorem process_excel_file_fails_on_app_schema_witness:
  "process_excel_file (2024, 3, 1) sq_sample_cols [sq_sample_row ''S1'' (Some 1000), sq_sample_row ''S2'' (Some 2000)]
      (sq_empty app_payment_columns)
   = Inr (sq_empty app_payment_columns, 0, [2, 3])"
proof -
  have "\<not> isl (process_excel_file (2024, 3, 1) sq_sample_cols [sq_sample_row ''S1'' (Some 1000), sq_sample_row ''S2'' (Some 2000)]
      (sq_empty app_payment_columns))"
    by code_simp
  then obtain db' n es where res: "process_excel_file (2024, 3, 1) sq_sample_cols
      [sq_sample_row ''S1'' (Some 1000), sq_sample_row ''S2'' (Some 2000)] (sq_empty app_payment_columns) = Inr (db', n, es)"
    by (cases "process_excel_file (2024, 3, 1) sq_sample_cols [sq_sample_row ''S1'' (Some 1000), sq_sample_row ''S2'' (Some 2000)]
      (sq_empty app_payment_columns)") auto
  have "sq_payment_columns (sq_empty app_payment_columns) = app_payment_columns"
    by (simp add: sq_empty_def)
  from process_excel_file_fails_on_app_schema [OF this res] res show ?thesis
    by (simp add: upt_conv_Cons)
qed

end
