(* ===== verification/Schema.thy ===== *)
theory Schema
  imports Uploader
begin

text \<open>
  The database set-up scripts.  A database file is modelled by its schema (each table
  with its columns, in creation order) and the fee tables' contents.  \<open>models.py\<close>
  declares the application's schema (\<open>models_schema\<close>); \<open>create_tables\<close> of
  \<open>create_db.py\<close> (lines 53--60) drops and recreates those tables, leaving them empty;
  \<open>check_full_schema\<close> (lines 14--51) reports whether a file has the tables
  \<open>student\<close>, \<open>fee_master\<close>, \<open>payment\<close> and the \<open>fee_master\<close> columns it requires; the
  script's main block (lines 62--103) deletes and recreates a file that fails the check,
  offers to recreate one that passes, and verifies the result.  \<open>init_database.py\<close>
  always deletes the file and creates the model tables; \<open>manage.py\<close>'s
  \<open>clear_test_database\<close> drops the model tables (\<open>drop_all\<close>) and recreates them
  empty (\<open>create_all\<close>), keeping any other table of the file.  Whether the file exists is the
  \<open>option\<close> of \<open>db_file option\<close>; the answer typed at the prompt is a parameter.  The file is
  taken as it is after the module-level \<open>init_db(app)\<close> of line 12, whose
  \<open>create_all\<close> adds only missing tables; the \<open>admin\<close> table's rows are not part of
  \<open>df_data\<close>.

  Lemmas: the check requires a column \<open>batch\<close> that \<open>models.py\<close> never declares, so
  it rejects the schema the scripts themselves create, and running \<open>create_db.py\<close> on
  any database the application created deletes all its data whatever the answer.
\<close>

type_synonym schema = "(string \<times> string list) list"

record db_file =
  df_schema :: schema
  df_data :: fee_db

definition models_schema :: schema where
  "models_schema =
     [(''student'', [''id'', ''regd_no'', ''name'', ''batch_year'', ''branch'', ''mobile'']),
      (''fee_master'', [''id'', ''regd_no'', ''fee_type'', ''amount'', ''remarks'']),
      (''payment'', app_payment_columns),
      (''admin'', [''id'', ''username'', ''password_hash'', ''last_login'', ''created_at''])]"

definition required_tables :: "string list" where
  "required_tables = [''student'', ''fee_master'', ''payment'']"

definition required_fee_master_columns :: "string list" where
  "required_fee_master_columns = [''id'', ''regd_no'', ''fee_type'', ''amount'', ''batch'', ''remarks'']"

definition check_full_schema :: "db_file option \<Rightarrow> bool \<times> string" where
  "check_full_schema file =
     (case file of
        None \<Rightarrow> (False, ''Database file doesn't exist'')
      | Some f \<Rightarrow>
          (let existing = filter (\<lambda>t. \<not> prefix ''sqlite_'' t) (map fst (df_schema f)) in
           case find (\<lambda>t. t \<notin> set existing) required_tables of
             Some t \<Rightarrow> (False, ''Missing required table: '' @ t)
           | None \<Rightarrow>
               (let columns = (case map_of (df_schema f) ''fee_master'' of None \<Rightarrow> [] | Some cs \<Rightarrow> cs) in
                case find (\<lambda>c. c \<notin> set columns) required_fee_master_columns of
                  Some c \<Rightarrow> (False, ''Missing column in fee_master table: '' @ c)
                | None \<Rightarrow> (True, ''Schema is correct''))))"

definition create_tables :: "db_file" where
  "create_tables = \<lparr>df_schema = models_schema, df_data = empty_db\<rparr>"

definition create_db_main :: "string \<Rightarrow> db_file option \<Rightarrow> db_file \<times> bool" where
  "create_db_main answer file =
     (let file' = (case file of
                     None \<Rightarrow> create_tables
                   | Some f \<Rightarrow>
                       if \<not> fst (check_full_schema file) then create_tables
                       else if py_lower answer = ''y'' then create_tables
                       else f)
      in (file', fst (check_full_schema (Some file'))))"

definition initialize_database :: "db_file option \<Rightarrow> db_file" where
  "initialize_database file = create_tables"

definition clear_test_database :: "db_file \<Rightarrow> db_file" where
  "clear_test_database f =
     \<lparr>df_schema = filter (\<lambda>t. fst t \<notin> set (map fst models_schema)) (df_schema f) @ models_schema,
      df_data = empty_db\<rparr>"

subsection \<open>Properties of the set-up scripts\<close>

text \<open>
  C4: running \<open>create_db.py\<close> on a database file with the application's schema deletes
  all its data, whatever is answered at the prompt, and then reports that verification
  failed.
\<close>

theorem create_db_deletes_application_data:
  assumes "df_schema f = models_schema"
  shows "create_db_main answer (Some f) = (create_tables, False) \<and> df_data create_tables = empty_db"
proof -
  have same: "check_full_schema (Some f) = check_full_schema (Some create_tables)"
    using assms by (simp add: check_full_schema_def create_tables_def cong: option.case_cong)
  have ct: "\<not> fst (check_full_schema (Some create_tables))"
    by code_simp
  moreover have "\<not> fst (check_full_schema (Some f))"
    unfolding same by (rule ct)
  ultimately show ?thesis
    by (simp add: create_db_main_def create_tables_def)
qed

theorem create_db_deletes_application_data_witness:
  "create_db_main ''n'' (Some \<lparr>df_schema = models_schema, df_data = sample_db\<rparr>) = (create_tables, False)"
  using create_db_deletes_application_data [of "\<lparr>df_schema = models_schema, df_data = sample_db\<rparr>" "''n''"] by simp

end
