(* ===== verification/Unpaid.thy ===== *)
theory Unpaid
  imports Details "HOL-Library.Product_Lexorder" "HOL-Library.List_Lexorder" "HOL-Library.Char_ord"
begin

text \<open>
  The unpaid-students report (\<open>unpaid_students\<close>, \<open>src/fee_payments/app.py\<close>, lines
  1565--1692).  For every student of the batch-year and branch filters and every key to
  check (the normalised requested fee type, or the keys of CRT, Phase 2 and Phase 3 in
  that order) the handler visits the student's fee entries whose fee type is
  \<open>LIKE\<close> the key, at most once per display label, and includes the entry when the
  requested status holds of its amount and the paid total.  Unlike every other view,
  that paid total is \<open>SUM(amount_paid)\<close> over the payments of all students
  (\<open>paid_total_any\<close>: the query at lines 1639--1643 has no \<open>regd_no\<close> filter), and the
  status test has no tolerance (\<open>unpaid_flags\<close>).  The records are kept in a dictionary
  keyed by registration number and label, then sorted (stably) by batch year,
  registration number and label.

  Lemmas: every record satisfies the requested status on its own amounts; every record
  comes from a fee entry of a listed student and carries the paid total of all students
  for its key; at the tolerance boundary the report and \<open>student_details\<close> disagree.
\<close>

record unpaid_record =
  ur_regd_no :: string
  ur_name :: string
  ur_batch_year :: string
  ur_branch :: string
  ur_mobile :: "string option"
  ur_fee_type :: string
  ur_total_amount :: money
  ur_paid_amount :: money
  ur_remaining :: money
  ur_payment_status :: string
  ur_remarks :: string

definition unpaid_keys :: "string \<Rightarrow> string list" where
  "unpaid_keys ft = (if ft \<noteq> [] then [normalize_fee_type ft] else map normalize_fee_type display_labels)"

definition should_include :: "string \<Rightarrow> bool \<times> bool \<Rightarrow> bool" where
  "should_include ps flags =
     (case flags of (is_not_paid, is_partially_paid) \<Rightarrow>
        (ps = ''not_paid'' \<and> is_not_paid) \<or> (ps = ''partially_paid'' \<and> is_partially_paid)
      \<or> (ps = ''all'' \<and> (is_not_paid \<or> is_partially_paid)))"

definition unpaid_entry_record :: "student \<Rightarrow> fee_entry \<Rightarrow> money \<Rightarrow> unpaid_record" where
  "unpaid_entry_record s e paid_amount =
     \<lparr>ur_regd_no = regd_no s, ur_name = name s, ur_batch_year = batch_year s, ur_branch = branch s,
      ur_mobile = mobile s, ur_fee_type = get_standardized_fee_type_label (fee_type e),
      ur_total_amount = amount e, ur_paid_amount = paid_amount,
      ur_remaining = amount e - paid_amount,
      ur_payment_status = (if 0 < paid_amount then ''Partially Paid'' else ''Not Paid''),
      ur_remarks = remarks_text (remarks e)\<rparr>"

definition unpaid_entry_step ::
  "fee_db \<Rightarrow> string \<Rightarrow> string \<Rightarrow> student \<Rightarrow> string list \<times> (string \<times> unpaid_record) list \<Rightarrow> fee_entry
   \<Rightarrow> string list \<times> (string \<times> unpaid_record) list" where
  "unpaid_entry_step db ps key s acc e =
     (case acc of (processed, dict) \<Rightarrow>
       (let std = get_standardized_fee_type_label (fee_type e) in
        if std \<in> set processed then (processed, dict)
        else
          (let paid_amount = paid_total_any db key in
           if should_include ps (unpaid_flags (amount e) paid_amount)
           then (processed @ [std], AList.update (regd_no s @ ''_'' @ std) (unpaid_entry_record s e paid_amount) dict)
           else (processed @ [std], dict))))"

definition unpaid_key_step ::
  "fee_db \<Rightarrow> string \<Rightarrow> student \<Rightarrow> string list \<times> (string \<times> unpaid_record) list \<Rightarrow> string
   \<Rightarrow> string list \<times> (string \<times> unpaid_record) list" where
  "unpaid_key_step db ps s acc key =
     foldl (unpaid_entry_step db ps key s) acc [e \<leftarrow> fees_of db (regd_no s). fee_type_like (fee_type e) key]"

definition unpaid_student_step ::
  "fee_db \<Rightarrow> string \<Rightarrow> string \<Rightarrow> (string \<times> unpaid_record) list \<Rightarrow> student \<Rightarrow> (string \<times> unpaid_record) list" where
  "unpaid_student_step db ft ps dict s = snd (foldl (unpaid_key_step db ps s) ([], dict) (unpaid_keys ft))"

definition unpaid_students :: "fee_db \<Rightarrow> string \<Rightarrow> string \<Rightarrow> string \<Rightarrow> string \<Rightarrow> unpaid_record list" where
  "unpaid_students db by br ft ps =
     (let studs = filter (\<lambda>s. (by = [] \<or> batch_year s = by) \<and> (br = [] \<or> branch s = br)) (students db);
          dict = foldl (unpaid_student_step db ft ps) [] studs
      in sort_key (\<lambda>r. (ur_batch_year r, ur_regd_no r, ur_fee_type r)) (map snd dict))"

text \<open>
  A database at the tolerance boundary: student R5 owes 1000 for CRT and has paid
  999.995.
\<close>

definition boundary_db :: fee_db where
  "boundary_db =
     \<lparr>students = [sample_student 5 ''R5''],
      fee_master = [sample_fee 5 ''R5'' ''crt fee'' 1000],
      payments = [sample_payment 4 ''R5'' ''crt fee'' (199999/200)]\<rparr>"


subsection \<open>Lemmas on the report's dictionary\<close>

lemma set_update_subset: "set (AList.update k v al) \<subseteq> insert (k, v) (set al)"
  by (induction al) auto

definition dict_all :: "(unpaid_record \<Rightarrow> bool) \<Rightarrow> (string \<times> unpaid_record) list \<Rightarrow> bool" where
  "dict_all P dict \<longleftrightarrow> (\<forall>x \<in> set dict. P (snd x))"

lemma dict_all_update: "dict_all P dict \<Longrightarrow> P v \<Longrightarrow> dict_all P (AList.update k v dict)"
  using set_update_subset [of k v dict] by (auto simp: dict_all_def)

lemma unpaid_entry_step_all:
  assumes "dict_all P (snd acc)"
    and "should_include ps (unpaid_flags (amount e) (paid_total_any db key))
         \<Longrightarrow> P (unpaid_entry_record s e (paid_total_any db key))"
  shows "dict_all P (snd (unpaid_entry_step db ps key s acc e))"
  using assms by (auto simp: unpaid_entry_step_def Let_def dict_all_update split: prod.splits)

lemma foldl_unpaid_entry_step_all:
  assumes "dict_all P (snd acc)"
    and "\<And>e. e \<in> set es \<Longrightarrow> should_include ps (unpaid_flags (amount e) (paid_total_any db key))
           \<Longrightarrow> P (unpaid_entry_record s e (paid_total_any db key))"
  shows "dict_all P (snd (foldl (unpaid_entry_step db ps key s) acc es))"
  using assms
proof (induction es arbitrary: acc)
  case (Cons e es)
  have "dict_all P (snd (unpaid_entry_step db ps key s acc e))"
    using Cons.prems by (intro unpaid_entry_step_all) simp_all
  with Cons.prems(2) show ?case by (simp add: Cons.IH)
qed simp

lemma foldl_unpaid_key_step_all:
  assumes "dict_all P (snd acc)"
    and "\<And>e key. key \<in> set keys \<Longrightarrow> e \<in> set (fees_of db (regd_no s)) \<Longrightarrow> fee_type_like (fee_type e) key
           \<Longrightarrow> should_include ps (unpaid_flags (amount e) (paid_total_any db key))
           \<Longrightarrow> P (unpaid_entry_record s e (paid_total_any db key))"
  shows "dict_all P (snd (foldl (unpaid_key_step db ps s) acc keys))"
  using assms
proof (induction keys arbitrary: acc)
  case (Cons key keys)
  have "dict_all P (snd (unpaid_key_step db ps s acc key))"
    unfolding unpaid_key_step_def using Cons.prems by (intro foldl_unpaid_entry_step_all) simp_all
  with Cons.prems(2) show ?case by (simp add: Cons.IH)
qed simp

lemma foldl_unpaid_student_step_all:
  assumes "dict_all P dict"
    and "\<And>s e key. s \<in> set studs \<Longrightarrow> key \<in> set (unpaid_keys ft) \<Longrightarrow> e \<in> set (fees_of db (regd_no s))
           \<Longrightarrow> fee_type_like (fee_type e) key \<Longrightarrow> should_include ps (unpaid_flags (amount e) (paid_total_any db key))
           \<Longrightarrow> P (unpaid_entry_record s e (paid_total_any db key))"
  shows "dict_all P (foldl (unpaid_student_step db ft ps) dict studs)"
  using assms unfolding unpaid_student_step_def
proof (induction studs arbitrary: dict)
  case (Cons s studs)
  have "dict_all P (snd (foldl (unpaid_key_step db ps s) ([], dict) (unpaid_keys ft)))"
    using Cons.prems by (intro foldl_unpaid_key_step_all) simp_all
  with Cons.prems(2) show ?case by (simp add: Cons.IH)
qed simp

lemma unpaid_students_all:
  assumes "\<And>s e key. s \<in> set (students db) \<Longrightarrow> (by = [] \<or> batch_year s = by) \<and> (br = [] \<or> branch s = br)
           \<Longrightarrow> key \<in> set (unpaid_keys ft) \<Longrightarrow> e \<in> set (fees_of db (regd_no s))
           \<Longrightarrow> fee_type_like (fee_type e) key \<Longrightarrow> should_include ps (unpaid_flags (amount e) (paid_total_any db key))
           \<Longrightarrow> P (unpaid_entry_record s e (paid_total_any db key))"
    and "r \<in> set (unpaid_students db by br ft ps)"
  shows "P r"
proof -
  have "dict_all P (foldl (unpaid_student_step db ft ps) []
          (filter (\<lambda>s. (by = [] \<or> batch_year s = by) \<and> (br = [] \<or> branch s = br)) (students db)))"
    by (rule foldl_unpaid_student_step_all) (auto simp: dict_all_def intro: assms(1))
  with assms(2) show ?thesis by (auto simp: unpaid_students_def Let_def dict_all_def)
qed

subsection \<open>Properties of the report\<close>

text \<open>
  C17: every record of the unpaid report satisfies the requested status on its own
  amounts (with the flags \<open>paid = 0\<close> and \<open>0 < paid < amount\<close>), its remaining amount
  is the amount less the paid total, and its status string is ``Not Paid'' exactly when
  the paid total is 0 and ``Partially Paid'' otherwise.
\<close>

theorem unpaid_records_consistent:
  assumes "r \<in> set (unpaid_students db by br ft ps)"
  shows "should_include ps (unpaid_flags (ur_total_amount r) (ur_paid_amount r))
       \<and> ur_remaining r = ur_total_amount r - ur_paid_amount r
       \<and> ur_payment_status r = (if ur_paid_amount r = 0 then ''Not Paid'' else ''Partially Paid'')"
  using _ assms
proof (rule unpaid_students_all)
  fix s :: student and e :: fee_entry and key :: string
  assume inc: "should_include ps (unpaid_flags (amount e) (paid_total_any db key))"
  then have "paid_total_any db key = 0 \<or> 0 < paid_total_any db key"
    by (auto simp: should_include_def unpaid_flags_def)
  with inc show "should_include ps (unpaid_flags (ur_total_amount (unpaid_entry_record s e (paid_total_any db key)))
                                                (ur_paid_amount (unpaid_entry_record s e (paid_total_any db key))))
       \<and> ur_remaining (unpaid_entry_record s e (paid_total_any db key))
           = ur_total_amount (unpaid_entry_record s e (paid_total_any db key)) - ur_paid_amount (unpaid_entry_record s e (paid_total_any db key))
       \<and> ur_payment_status (unpaid_entry_record s e (paid_total_any db key))
           = (if ur_paid_amount (unpaid_entry_record s e (paid_total_any db key)) = 0 then ''Not Paid'' else ''Partially Paid'')"
    by (auto simp: unpaid_entry_record_def)
qed

theorem unpaid_records_consistent_witness:
  "unpaid_students boundary_db [] [] [] ''partially_paid'' \<noteq> []
   \<and> should_include ''partially_paid'' (unpaid_flags (ur_total_amount (hd (unpaid_students boundary_db [] [] [] ''partially_paid'')))
                                                    (ur_paid_amount (hd (unpaid_students boundary_db [] [] [] ''partially_paid''))))
   \<and> ur_payment_status (hd (unpaid_students boundary_db [] [] [] ''partially_paid'')) = ''Partially Paid''"
proof -
  have ne: "unpaid_students boundary_db [] [] [] ''partially_paid'' \<noteq> []" by code_simp
  then have "hd (unpaid_students boundary_db [] [] [] ''partially_paid'') \<in> set (unpaid_students boundary_db [] [] [] ''partially_paid'')"
    by simp
  from unpaid_records_consistent [OF this] ne show ?thesis
    by (auto simp: should_include_def unpaid_flags_def)
qed



text \<open>
  The unpaid report tests \<open>paid == 0\<close> and \<open>0 < paid < amount\<close> without the
  0.01 tolerance of \<open>student_details\<close>: a student who owes 1000 and has paid 999.995 is
  Paid in \<open>student_details\<close> and Partially Paid in the unpaid report.
\<close>

theorem unpaid_report_ignores_tolerance:
  "map_option (\<lambda>info. map_option fi_status (map_of info ''CRT'')) (student_fee_info boundary_db [] ''R5'') = Some (Some Paid)
   \<and> map (\<lambda>r. (ur_regd_no r, ur_fee_type r, ur_payment_status r)) (unpaid_students boundary_db [] [] [] ''partially_paid'')
       = [(''R5'', ''CRT'', ''Partially Paid'')]"
  by code_simp

end
