(* ===== verification/Reports.thy ===== *)
theory Reports
  imports Unpaid
begin

text \<open>
  The unpaid-students route's downloads (\<open>src/fee_payments/app.py\<close>, lines 1565--1731)
  and its CSV writer \<open>generate_csv_report\<close> (lines 1733--1786).  The report rows are
  written with Python's \<open>csv.writer\<close> (QUOTE_MINIMAL): a field is quoted, with its
  quotes doubled, when it holds a comma, a quote, a carriage return or a line feed; a row
  that is one empty field is written as two quotes; every row ends in CR LF.  The text
  of a float is a parameter \<open>fmt\<close> (Python's float \<open>repr\<close> is not modelled) and so is
  the file name's timestamp \<open>ts\<close> (\<open>datetime.now()\<close>).  The Excel branch calls
  \<open>generate_excel_report\<close>, which is defined nowhere: the \<open>NameError\<close> is caught by
  the handler, and the page shows the error.

  A reader \<open>csv_parse\<close> (a specification of CSV, not code of the repository) inverts
  the writer; like Python's \<open>csv.reader\<close> it ends a row at a carriage return, a line
  feed or the pair of them outside quotes: every document written from non-empty rows reads back as those rows, so
  the CSV export holds exactly the report's header and records.
\<close>

subsection \<open>The CSV writer and a reader\<close>

definition csv_special :: "char \<Rightarrow> bool" where
  "csv_special c \<longleftrightarrow> c = CHR '','' \<or> c = CHR ''\"'' \<or> c = CHR 0x0D \<or> c = CHR 0x0A"

definition csv_escape :: "string \<Rightarrow> string" where
  "csv_escape f = concat (map (\<lambda>c. if c = CHR ''\"'' then [c, c] else [c]) f)"

definition csv_quote :: "string \<Rightarrow> string" where
  "csv_quote f = (if list_ex csv_special f then CHR ''\"'' # csv_escape f @ [CHR ''\"''] else f)"

definition csv_line :: "string list \<Rightarrow> string" where
  "csv_line fs =
     (if fs = [[]] then [CHR ''\"'', CHR ''\"''] else py_join CHR '','' (map csv_quote fs))
     @ [CHR 0x0D, CHR 0x0A]"

definition csv_document :: "string list list \<Rightarrow> string" where
  "csv_document rows = concat (map csv_line rows)"

fun csv_parse :: "bool \<Rightarrow> string \<Rightarrow> string list \<Rightarrow> string list list \<Rightarrow> string \<Rightarrow> string list list" where
  "csv_parse False cur fs rows [] =
     (if cur = [] \<and> fs = [] then rev rows else rev (rev (rev cur # fs) # rows))"
| "csv_parse True cur fs rows [] = rev (rev (rev cur # fs) # rows)"
| "csv_parse False cur fs rows (c # cs) =
     (if c = CHR '','' then csv_parse False [] (rev cur # fs) rows cs
      else if c = CHR 0x0D \<or> c = CHR 0x0A then
        csv_parse False [] [] (rev (rev cur # fs) # rows)
          (if c = CHR 0x0D \<and> cs \<noteq> [] \<and> hd cs = CHR 0x0A then tl cs else cs)
      else if c = CHR ''\"'' \<and> cur = [] then csv_parse True [] fs rows cs
      else csv_parse False (c # cur) fs rows cs)"
| "csv_parse True cur fs rows (c # cs) =
     (if c = CHR ''\"'' then
        (if cs \<noteq> [] \<and> hd cs = CHR ''\"'' then csv_parse True (c # cur) fs rows (tl cs)
         else csv_parse False cur fs rows cs)
      else csv_parse True (c # cur) fs rows cs)"

subsection \<open>The report and the route\<close>

definition unpaid_csv_header :: "string list" where
  "unpaid_csv_header = [''Registration No'', ''Name'', ''Batch Year'', ''Branch'', ''Mobile'',
                        ''Fee Type'', ''Total Amount'', ''Payment Status'', ''Remarks'']"

definition unpaid_csv_row :: "(money \<Rightarrow> string) \<Rightarrow> unpaid_record \<Rightarrow> string list" where
  "unpaid_csv_row fmt r =
     [ur_regd_no r, ur_name r, ur_batch_year r, ur_branch r,
      (case ur_mobile r of None \<Rightarrow> [] | Some m \<Rightarrow> m),
      ur_fee_type r, fmt (ur_total_amount r), ur_payment_status r, ur_remarks r]"

definition report_filter_desc :: "string \<Rightarrow> string \<Rightarrow> string \<Rightarrow> string list" where
  "report_filter_desc year br payment_status =
     (if year \<noteq> [] then [''Batch'' @ year] else [])
     @ (if br \<noteq> [] then [br] else [])
     @ (if payment_status \<noteq> ''all''
        then [if payment_status = ''not_paid'' then ''NotPaid'' else ''PartiallyPaid''] else [])"

definition report_filename :: "string \<Rightarrow> string \<Rightarrow> string \<Rightarrow> string \<Rightarrow> string" where
  "report_filename year br payment_status ts =
     (let filter_desc = report_filter_desc year br payment_status;
          filter_str = (if filter_desc = [] then ''All'' else py_join CHR ''_'' filter_desc)
      in ''Unpaid_Students_'' @ filter_str @ ''_'' @ ts @ ''.csv'')"

record csv_response =
  csv_text :: string
  csv_filename :: string

definition generate_csv_report ::
  "(money \<Rightarrow> string) \<Rightarrow> unpaid_record list \<Rightarrow> string \<Rightarrow> string \<Rightarrow> string \<Rightarrow> string \<Rightarrow> csv_response" where
  "generate_csv_report fmt unpaid_students_list year br payment_status ts =
     \<lparr>csv_text = csv_document (unpaid_csv_header # map (unpaid_csv_row fmt) unpaid_students_list),
      csv_filename = report_filename year br payment_status ts\<rparr>"

datatype unpaid_response =
    Unpaid_Page "unpaid_record list"
  | Csv_Download csv_response
  | Unpaid_Error string

definition unpaid_students_route ::
  "(money \<Rightarrow> string) \<Rightarrow> fee_db \<Rightarrow> string \<Rightarrow> string \<Rightarrow> string \<Rightarrow> string option \<Rightarrow> bool \<Rightarrow> bool \<Rightarrow> string
   \<Rightarrow> unpaid_response" where
  "unpaid_students_route fmt db year br ft ps download_excel download_csv ts =
     (let payment_status = (case ps of None \<Rightarrow> ''not_paid'' | Some p \<Rightarrow> p);
          unpaid_students_list = unpaid_students db year br ft payment_status
      in if download_excel then Unpaid_Error ''name 'generate_excel_report' is not defined''
         else if download_csv
         then Csv_Download (generate_csv_report fmt unpaid_students_list year br payment_status ts)
         else Unpaid_Page unpaid_students_list)"

subsection \<open>Lemmas on the writer and the reader\<close>

lemma csv_parse_plain:
  "\<not> list_ex csv_special f \<Longrightarrow> csv_parse False cur fs rows (f @ r) = csv_parse False (rev f @ cur) fs rows r"
  by (induction f arbitrary: cur) (auto simp: csv_special_def)

lemma csv_parse_escaped:
  "r = [] \<or> hd r \<noteq> CHR ''\"'' \<Longrightarrow>
   csv_parse True cur fs rows (csv_escape f @ CHR ''\"'' # r) = csv_parse False (rev f @ cur) fs rows r"
  by (induction f arbitrary: cur) (auto simp: csv_escape_def)

lemma csv_parse_field:
  assumes "r = [] \<or> hd r \<noteq> CHR ''\"''"
  shows "csv_parse False [] fs rows (csv_quote f @ r) = csv_parse False (rev f) fs rows r"
proof (cases "list_ex csv_special f")
  case True
  then show ?thesis using csv_parse_escaped [OF assms] by (simp add: csv_quote_def)
next
  case False
  then show ?thesis using csv_parse_plain [of f "[]"] by (simp add: csv_quote_def)
qed

lemma csv_parse_fields:
  "fs0 \<noteq> [] \<Longrightarrow>
   csv_parse False [] acc rows (py_join CHR '','' (map csv_quote fs0) @ CHR 0x0D # CHR 0x0A # r)
   = csv_parse False [] [] ((rev acc @ fs0) # rows) r"
proof (induction fs0 arbitrary: acc)
  case (Cons f fs)
  show ?case
  proof (cases "fs = []")
    case True
    then show ?thesis by (simp add: csv_parse_field)
  next
    case False
    then have "py_join CHR '','' (map csv_quote (f # fs)) = csv_quote f @ CHR '','' # py_join CHR '','' (map csv_quote fs)"
      by (simp add: py_join_Cons)
    with False Cons.IH [of "f # acc"] show ?thesis by (simp add: csv_parse_field)
  qed
qed simp

lemma csv_parse_line:
  "fs0 \<noteq> [] \<Longrightarrow> csv_parse False [] [] rows (csv_line fs0 @ r) = csv_parse False [] [] (fs0 # rows) r"
  by (cases "fs0 = [[]]") (simp_all add: csv_line_def csv_parse_fields [where acc = "[]", simplified])

lemma csv_roundtrip:
  "(\<forall>row \<in> set rs. row \<noteq> []) \<Longrightarrow> csv_parse False [] [] rows (csv_document rs) = rev rows @ rs"
  by (induction rs arbitrary: rows) (simp_all add: csv_document_def csv_parse_line)


subsection \<open>Properties of the downloads\<close>

text \<open>
  C32: the CSV export round-trips.  Read back with a CSV reader, the file the route sends
  for \<open>download_csv=true\<close> is the header row followed by one row per record of the
  report, in the report's order, holding its registration number, name, batch year,
  branch, mobile (empty when there is none), fee type, amount, status and remarks,
  whatever commas, quotes or line breaks these contain.
\<close>

theorem unpaid_csv_download_roundtrip:
  "case unpaid_students_route fmt db year br ft ps False True ts of
     Csv_Download resp \<Rightarrow>
       csv_parse False [] [] [] (csv_text resp)
       = unpaid_csv_header
         # map (unpaid_csv_row fmt)
             (unpaid_students db year br ft (case ps of None \<Rightarrow> ''not_paid'' | Some p \<Rightarrow> p))
   | _ \<Rightarrow> False"
proof -
  let ?rs = "unpaid_students db year br ft (case ps of None \<Rightarrow> ''not_paid'' | Some p \<Rightarrow> p)"
  have "\<forall>row \<in> set (unpaid_csv_header # map (unpaid_csv_row fmt) ?rs). row \<noteq> []"
    by (auto simp: unpaid_csv_header_def unpaid_csv_row_def)
  then have "csv_parse False [] [] [] (csv_document (unpaid_csv_header # map (unpaid_csv_row fmt) ?rs))
      = unpaid_csv_header # map (unpaid_csv_row fmt) ?rs"
    using csv_roundtrip [of _ "[]"] by simp
  then show ?thesis
    by (simp add: unpaid_students_route_def generate_csv_report_def Let_def)
qed

text \<open>
  Asking for the Excel download always ends on the error page, whatever the filters and
  the data.
\<close>

theorem unpaid_excel_download_fails:
  "unpaid_students_route fmt db year br ft ps True download_csv ts
   = Unpaid_Error ''name 'generate_excel_report' is not defined''"
  by (simp add: unpaid_students_route_def Let_def)

text \<open>
  The file name labels every status filter other than \<open>all\<close> and \<open>not_paid\<close> as
  partially paid, also one the report does not know, for which it lists nothing.
\<close>

theorem report_filename_unknown_status:
  "report_filename ''2022-2026'' [] ''paid'' ''20240115_120000''
     = ''Unpaid_Students_Batch2022-2026_PartiallyPaid_20240115_120000.csv''
   \<and> unpaid_students sample_db [] [] [] ''paid'' = []"
  by code_simp

end
