(* ===== verification/Dashboard.thy ===== *)
theory Dashboard
  imports Details "HOL-Library.List_Lexorder" "HOL-Library.Char_ord"
begin

text \<open>
  The dashboard's statistics (\<open>src/fee_payments/app.py\<close>):
  \<^item> \<open>get_payment_status_by_fee_type\<close> (lines 69--157) visits every (registration
    number, batch year) of a student with fee entries, and every fee entry of that
    student, and counts the entry's status under its display label, overall and per
    batch year;
  \<^item> \<open>get_fee_type_summary\<close> (lines 637--704) selects the fee entries and payments whose
    fee type is \<open>LIKE\<close> the normalised key, keeps one amount per student (the last, as
    a dict comprehension does) and one payment sum per student (\<open>GROUP BY\<close>), and
    counts the students by status;
  \<^item> \<open>get_total_summary\<close> (lines 706--722) and the card totals of \<open>dashboard\<close>
    (lines 593--603) add these up.
  The per-label dictionaries are association lists, as in \<open>Details\<close>.

  Lemmas: every count of \<open>get_payment_status_by_fee_type\<close> is the number of fee
  entries whose status (\<open>entry_status\<close>, the one \<open>student_details\<close> shows) is the
  counted one, and the totals split exactly into the three statuses; the fee-type
  summary counts students where its ``total students'' counts entries, and the Phase 2
  card counts Phase III fee entries too.
\<close>

record status_counts =
  sc_total :: nat
  sc_paid :: nat
  sc_partial :: nat
  sc_not_paid :: nat

definition zero_counts :: status_counts where
  "zero_counts = \<lparr>sc_total = 0, sc_paid = 0, sc_partial = 0, sc_not_paid = 0\<rparr>"

fun count_status :: "status_counts \<Rightarrow> pay_status \<Rightarrow> status_counts" where
  "count_status c Paid = c\<lparr>sc_total := Suc (sc_total c), sc_paid := Suc (sc_paid c)\<rparr>"
| "count_status c Partially_Paid = c\<lparr>sc_total := Suc (sc_total c), sc_partial := Suc (sc_partial c)\<rparr>"
| "count_status c Not_Paid = c\<lparr>sc_total := Suc (sc_total c), sc_not_paid := Suc (sc_not_paid c)\<rparr>"

record label_stats =
  ls_counts :: status_counts
  ls_by_batch :: "(string \<times> status_counts) list"

definition batch_years :: "fee_db \<Rightarrow> string list" where
  "batch_years db = sort (remdups (map batch_year (students db)))"

definition initial_stats :: "fee_db \<Rightarrow> (string \<times> label_stats) list" where
  "initial_stats db =
     map (\<lambda>l. (l, \<lparr>ls_counts = zero_counts, ls_by_batch = map (\<lambda>y. (y, zero_counts)) (batch_years db)\<rparr>))
       display_labels"

definition students_with_fees :: "fee_db \<Rightarrow> (string \<times> string) list" where
  "students_with_fees db =
     remdups [(regd_no s, batch_year s). s \<leftarrow> students db, fees_of db (regd_no s) \<noteq> []]"

definition status_rows :: "fee_db \<Rightarrow> (string \<times> fee_entry) list" where
  "status_rows db = concat (map (\<lambda>(r, b). map (\<lambda>e. (b, e)) (fees_of db r)) (students_with_fees db))"

definition stats_step :: "fee_db \<Rightarrow> (string \<times> label_stats) list \<Rightarrow> string \<times> fee_entry \<Rightarrow> (string \<times> label_stats) list" where
  "stats_step db st row =
     (case row of (b, e) \<Rightarrow>
       (let std = get_standardized_fee_type_label (fee_type e); s = entry_status db e in
        case map_of st std of
          None \<Rightarrow> st
        | Some ls \<Rightarrow>
            AList.update std
              \<lparr>ls_counts = count_status (ls_counts ls) s,
               ls_by_batch = (case map_of (ls_by_batch ls) b of
                                None \<Rightarrow> ls_by_batch ls
                              | Some c \<Rightarrow> AList.update b (count_status c s) (ls_by_batch ls))\<rparr> st))"

definition get_payment_status_by_fee_type :: "fee_db \<Rightarrow> (string \<times> label_stats) list" where
  "get_payment_status_by_fee_type db = foldl (stats_step db) (initial_stats db) (status_rows db)"

record fee_summary =
  fs_total :: money
  fs_target_amount :: money
  fs_count :: nat
  fs_total_students :: nat
  fs_fully_paid :: nat
  fs_partially_paid :: nat
  fs_not_paid :: nat

definition summary_step :: "(string \<times> money) list \<Rightarrow> nat \<times> nat \<times> nat \<Rightarrow> string \<times> money \<Rightarrow> nat \<times> nat \<times> nat" where
  "summary_step student_payments cnt sf =
     (case (cnt, sf) of ((f, p, n), (r, fee_amount)) \<Rightarrow>
       (let paid_amount = (case map_of student_payments r of None \<Rightarrow> 0 | Some x \<Rightarrow> x) in
        case classify_payment fee_amount paid_amount of
          Paid \<Rightarrow> (Suc f, p, n)
        | Partially_Paid \<Rightarrow> (f, Suc p, n)
        | Not_Paid \<Rightarrow> (f, p, Suc n)))"

definition get_fee_type_summary :: "fee_db \<Rightarrow> string \<Rightarrow> fee_summary" where
  "get_fee_type_summary db ft =
     (let key = normalize_fee_type ft;
          entries = filter (\<lambda>e. fee_type_like (fee_type e) key) (fee_master db);
          student_fees = foldl (\<lambda>m e. AList.update (fee_regd_no e) (amount e) m) [] entries;
          matching = filter (\<lambda>p. fee_type_like (pay_fee_type p) key) (payments db);
          student_payments = map (\<lambda>r. (r, sum_list [amount_paid p. p \<leftarrow> matching, pay_regd_no p = r]))
                               (remdups (map pay_regd_no matching));
          (f, p, n) = foldl (summary_step student_payments) (0, 0, 0) student_fees
      in \<lparr>fs_total = sum_list (map snd student_payments),
          fs_target_amount = sum_list (map amount entries),
          fs_count = length student_payments,
          fs_total_students = length entries,
          fs_fully_paid = f, fs_partially_paid = p, fs_not_paid = n\<rparr>)"

definition get_total_summary :: "fee_db \<Rightarrow> money \<times> nat" where
  "get_total_summary db =
     (sum_list (map amount_paid (payments db)), length (remdups (map pay_regd_no (payments db))))"

definition dashboard_status_counts :: "fee_db \<Rightarrow> nat \<times> nat \<times> nat" where
  "dashboard_status_counts db =
     (let cards = map (get_fee_type_summary db) [''CRT'', ''Phase 2'', ''Phase 3''] in
      (sum_list (map fs_fully_paid cards), sum_list (map fs_total_students cards),
       sum_list (map fs_not_paid cards)))"

text \<open>
  A database for the summary witnesses: one student, R4, owes and has paid 1000 for
  Phase III and owes nothing for Phase II.
\<close>

definition phase3_db :: fee_db where
  "phase3_db =
     \<lparr>students = [sample_student 4 ''R4''],
      fee_master = [sample_fee 4 ''R4'' ''smart interviews phase-iii'' 1000],
      payments = [sample_payment 3 ''R4'' ''smart interviews phase-iii'' 1000]\<rparr>"

subsection \<open>Lemmas on the counters\<close>

definition counts_of :: "pay_status list \<Rightarrow> status_counts" where
  "counts_of ss =
     \<lparr>sc_total = length ss, sc_paid = length (filter (\<lambda>s. s = Paid) ss),
      sc_partial = length (filter (\<lambda>s. s = Partially_Paid) ss),
      sc_not_paid = length (filter (\<lambda>s. s = Not_Paid) ss)\<rparr>"

lemma count_status_counts_of [simp]: "count_status (counts_of ss) s = counts_of (ss @ [s])"
  by (cases s) (simp_all add: counts_of_def)

lemma zero_counts_of: "zero_counts = counts_of []"
  by (simp add: zero_counts_def counts_of_def)

lemma counts_of_split: "sc_total (counts_of ss) = sc_paid (counts_of ss) + sc_partial (counts_of ss) + sc_not_paid (counts_of ss)"
proof (induction ss)
  case (Cons s ss)
  then show ?case by (cases s) (simp_all add: counts_of_def)
qed (simp add: counts_of_def)

lemma fst_set_stats_step [simp]: "fst ` set (stats_step db st (b, e)) = fst ` set st"
proof (cases "map_of st (get_standardized_fee_type_label (fee_type e))")
  case (Some ls)
  then have "get_standardized_fee_type_label (fee_type e) \<in> fst ` set st"
    by (force dest: map_of_SomeD)
  with Some show ?thesis by (auto simp: stats_step_def Let_def dom_update)
qed (simp add: stats_step_def Let_def)

lemma map_of_stats_step:
  "map_of (stats_step db st (b, e)) l =
     (case map_of st l of
        None \<Rightarrow> None
      | Some ls \<Rightarrow>
          if get_standardized_fee_type_label (fee_type e) = l
          then Some \<lparr>ls_counts = count_status (ls_counts ls) (entry_status db e),
                     ls_by_batch = (case map_of (ls_by_batch ls) b of
                                      None \<Rightarrow> ls_by_batch ls
                                    | Some c \<Rightarrow> AList.update b (count_status c (entry_status db e)) (ls_by_batch ls))\<rparr>
          else Some ls)"
  by (auto simp: stats_step_def Let_def update_conv' split: option.splits)

lemma map_of_stats_fold_counts:
  assumes "map_of st l = Some ls0" and "ls_counts ls0 = counts_of ss"
  shows "\<exists>ls. map_of (foldl (stats_step db) st rows) l = Some ls
     \<and> ls_counts ls = counts_of (ss @ [entry_status db e.
                                  (b, e) \<leftarrow> rows, get_standardized_fee_type_label (fee_type e) = l])"
  using assms
proof (induction rows arbitrary: st ls0 ss)
  case (Cons row rows)
  obtain b e where row: "row = (b, e)" by (cases row)
  show ?case
  proof (cases "get_standardized_fee_type_label (fee_type e) = l")
    case True
    with Cons.prems row obtain ls1 where "map_of (stats_step db st row) l = Some ls1"
      and "ls_counts ls1 = counts_of (ss @ [entry_status db e])"
      by (simp add: map_of_stats_step)
    from Cons.IH [OF this] True row show ?thesis by simp
  next
    case False
    with Cons.prems row have "map_of (stats_step db st row) l = Some ls0"
      by (simp add: map_of_stats_step)
    from Cons.IH [OF this Cons.prems(2)] False row show ?thesis by simp
  qed
qed simp

lemma map_of_initial_stats:
  "l \<in> set display_labels \<Longrightarrow>
   map_of (initial_stats db) l = Some \<lparr>ls_counts = zero_counts, ls_by_batch = map (\<lambda>y. (y, zero_counts)) (batch_years db)\<rparr>"
  by (auto simp: initial_stats_def display_labels_def)

lemma summary_step_total:
  "(case foldl (summary_step sp) (f, p, n) sfs of (f', p', n') \<Rightarrow> f' + p' + n') = f + p + n + length sfs"
proof (induction sfs arbitrary: f p n)
  case (Cons sf sfs)
  obtain r a where sf: "sf = (r, a)" by (cases sf)
  show ?case
    using Cons.IH
    by (cases "classify_payment a (case map_of sp r of None \<Rightarrow> 0 | Some x \<Rightarrow> x)")
       (simp_all add: summary_step_def sf)
qed simp

lemma student_fees_keys:
  "fst ` set (foldl (\<lambda>m e. AList.update (fee_regd_no e) (amount e) m) m0 es) = fst ` set m0 \<union> set (map fee_regd_no es)"
  by (induction es arbitrary: m0) (auto simp: dom_update)

lemma student_fees_distinct:
  "distinct (map fst m0) \<Longrightarrow> distinct (map fst (foldl (\<lambda>m e. AList.update (fee_regd_no e) (amount e) m) m0 es))"
  by (induction es arbitrary: m0) (simp_all add: distinct_update)

lemma length_student_fees:
  "length (foldl (\<lambda>m e. AList.update (fee_regd_no e) (amount e) m) [] es) = length (remdups (map fee_regd_no es))"
proof -
  let ?m = "foldl (\<lambda>m e. AList.update (fee_regd_no e) (amount e) m) [] es"
  have "distinct (map fst ?m)" by (rule student_fees_distinct) simp
  then have "card (set (map fst ?m)) = length (map fst ?m)" by (rule distinct_card)
  then have "length ?m = card (fst ` set ?m)" by simp
  also have "fst ` set ?m = set (map fee_regd_no es)" by (simp add: student_fees_keys)
  finally show ?thesis by (simp add: length_remdups_card_conv)
qed

lemma map_fst_stats_step:
  "map_of st l = Some ls0 \<Longrightarrow> \<exists>ls. map_of (stats_step db st (b, e)) l = Some ls \<and> map fst (ls_by_batch ls) = map fst (ls_by_batch ls0)"
  by (auto simp: map_of_stats_step update_keys split: option.split dest!: map_of_SomeD intro: rev_image_eqI)

lemma map_of_stats_fold_keys:
  assumes "map_of st l = Some ls0"
  shows "\<exists>ls. map_of (foldl (stats_step db) st rows) l = Some ls \<and> map fst (ls_by_batch ls) = map fst (ls_by_batch ls0)"
  using assms
proof (induction rows arbitrary: st ls0)
  case (Cons row rows)
  obtain b e where row: "row = (b, e)" by (cases row)
  from map_fst_stats_step [OF Cons.prems] obtain ls1 where
    "map_of (stats_step db st row) l = Some ls1" and "map fst (ls_by_batch ls1) = map fst (ls_by_batch ls0)"
    unfolding row by blast
  with Cons.IH [of "stats_step db st row" ls1] show ?case by auto
qed simp

lemma map_of_stats_fold_batch:
  assumes "map_of st l = Some ls0" and "map_of (ls_by_batch ls0) y = Some (counts_of ss)"
  shows "\<exists>ls. map_of (foldl (stats_step db) st rows) l = Some ls
     \<and> map_of (ls_by_batch ls) y = Some (counts_of (ss @ [entry_status db e.
            (b, e) \<leftarrow> rows, get_standardized_fee_type_label (fee_type e) = l \<and> b = y]))"
  using assms
proof (induction rows arbitrary: st ls0 ss)
  case (Cons row rows)
  obtain b e where row: "row = (b, e)" by (cases row)
  show ?case
  proof (cases "get_standardized_fee_type_label (fee_type e) = l \<and> b = y")
    case True
    with Cons.prems row obtain ls1 where "map_of (stats_step db st row) l = Some ls1"
      and "map_of (ls_by_batch ls1) y = Some (counts_of (ss @ [entry_status db e]))"
      by (simp add: map_of_stats_step update_conv')
    from Cons.IH [OF this] True row show ?thesis by simp
  next
    case False
    with Cons.prems row obtain ls1 where "map_of (stats_step db st row) l = Some ls1"
      and "map_of (ls_by_batch ls1) y = Some (counts_of ss)"
      by (cases "get_standardized_fee_type_label (fee_type e) = l")
         (auto simp: map_of_stats_step update_conv' split: option.split)
    from Cons.IH [OF this] False row show ?thesis by auto
  qed
qed simp

lemma map_fst_stats_fold: "map fst (foldl (stats_step db) st rows) = map fst st"
proof (induction rows arbitrary: st)
  case (Cons row rows)
  have "map fst (stats_step db st row) = map fst st"
    by (auto simp: stats_step_def Let_def update_keys split: prod.split option.split
             dest!: map_of_SomeD intro: rev_image_eqI)
  with Cons.IH show ?case by simp
qed simp

lemma keys_payment_status: "map fst (get_payment_status_by_fee_type db) = display_labels"
  by (simp add: get_payment_status_by_fee_type_def map_fst_stats_fold initial_stats_def comp_def)

lemma distinct_batch_years: "distinct (batch_years db)" and sorted_batch_years: "sorted (batch_years db)"
  by (simp_all add: batch_years_def)

lemma payment_status_label:
  assumes "l \<in> set display_labels"
  shows "\<exists>ls. map_of (get_payment_status_by_fee_type db) l = Some ls
     \<and> ls_counts ls = counts_of [entry_status db e. (b, e) \<leftarrow> status_rows db, get_standardized_fee_type_label (fee_type e) = l]
     \<and> map fst (ls_by_batch ls) = batch_years db
     \<and> (\<forall>y \<in> set (batch_years db). map_of (ls_by_batch ls) y
            = Some (counts_of [entry_status db e. (b, e) \<leftarrow> status_rows db, get_standardized_fee_type_label (fee_type e) = l \<and> b = y]))"
proof -
  let ?ls0 = "\<lparr>ls_counts = zero_counts, ls_by_batch = map (\<lambda>y. (y, zero_counts)) (batch_years db)\<rparr>"
  let ?F = "get_payment_status_by_fee_type db"
  have init: "map_of (initial_stats db) l = Some ?ls0"
    using assms by (rule map_of_initial_stats)
  obtain ls where ls: "map_of ?F l = Some ls"
    and cnt: "ls_counts ls = counts_of [entry_status db e. (b, e) \<leftarrow> status_rows db, get_standardized_fee_type_label (fee_type e) = l]"
    using map_of_stats_fold_counts [OF init, of "[]"] by (auto simp: zero_counts_of get_payment_status_by_fee_type_def)
  have keys: "map fst (ls_by_batch ls) = batch_years db"
    using map_of_stats_fold_keys [OF init, of db "status_rows db"] ls
    by (auto simp: get_payment_status_by_fee_type_def comp_def)
  have "map_of (ls_by_batch ls) y
          = Some (counts_of [entry_status db e. (b, e) \<leftarrow> status_rows db, get_standardized_fee_type_label (fee_type e) = l \<and> b = y])"
    if "y \<in> set (batch_years db)" for y
  proof -
    have "map_of (ls_by_batch ?ls0) y = Some (counts_of [])"
      using that by (simp add: zero_counts_of map_of_map_restrict restrict_map_def)
    from map_of_stats_fold_batch [OF init this, of db "status_rows db"] ls show ?thesis
      by (auto simp: get_payment_status_by_fee_type_def)
  qed
  with ls cnt keys show ?thesis by blast
qed

lemma counts_of_paid_partial: "sc_paid (counts_of ss) + sc_partial (counts_of ss) = length (filter (\<lambda>s. s \<noteq> Not_Paid) ss)"
proof (induction ss)
  case (Cons s ss)
  then show ?case by (cases s) (simp_all add: counts_of_def)
qed (simp add: counts_of_def)

lemma payment_status_mem:
  assumes "(l, ls) \<in> set (get_payment_status_by_fee_type db)"
  shows "l \<in> set display_labels \<and> map_of (get_payment_status_by_fee_type db) l = Some ls"
proof
  have "distinct (map fst (get_payment_status_by_fee_type db))"
    by (simp add: keys_payment_status display_labels_def)
  then show "map_of (get_payment_status_by_fee_type db) l = Some ls"
    using assms by (rule map_of_is_SomeI)
  have "l \<in> set (map fst (get_payment_status_by_fee_type db))"
    using imageI [OF assms, of fst] by simp
  then show "l \<in> set display_labels"
    by (simp only: keys_payment_status)
qed

lemma sc_not_paid_counts_of: "sc_not_paid (counts_of ss) = length (filter (\<lambda>s. s = Not_Paid) ss)"
  by (simp add: counts_of_def)

lemma sc_total_counts_of: "sc_total (counts_of ss) = length ss"
  by (simp add: counts_of_def)

subsection \<open>Properties\<close>

text \<open>
  C15: for each display label, the dashboard's overall counters are the counts of the
  statuses \<open>entry_status\<close> gives the fee entries with that label, one per fee entry of
  a student with fee entries; \<open>entry_status\<close> is the status \<open>student_details\<close>
  shows, so the two views agree entry by entry, and the total splits exactly into
  paid, partially paid and not paid.
\<close>

theorem dashboard_counts_entry_statuses:
  assumes "l \<in> set display_labels"
  shows "\<exists>ls. map_of (get_payment_status_by_fee_type db) l = Some ls
     \<and> ls_counts ls = counts_of [entry_status db e. (b, e) \<leftarrow> status_rows db,
                                  get_standardized_fee_type_label (fee_type e) = l]
     \<and> sc_total (ls_counts ls) = sc_paid (ls_counts ls) + sc_partial (ls_counts ls) + sc_not_paid (ls_counts ls)"
proof -
  let ?ls0 = "\<lparr>ls_counts = zero_counts, ls_by_batch = map (\<lambda>y. (y, zero_counts)) (batch_years db)\<rparr>"
  have init: "map_of (initial_stats db) l = Some ?ls0" by (rule map_of_initial_stats [OF assms])
  have z: "ls_counts ?ls0 = counts_of []" by (simp add: zero_counts_of)
  obtain ls where ls: "map_of (get_payment_status_by_fee_type db) l = Some ls"
    and c: "ls_counts ls = counts_of ([] @ [entry_status db e. (b, e) \<leftarrow> status_rows db,
                                  get_standardized_fee_type_label (fee_type e) = l])"
    using map_of_stats_fold_counts [OF init z, where db = db and rows = "status_rows db"]
    by (auto simp: get_payment_status_by_fee_type_def)
  with counts_of_split show ?thesis by auto
qed

theorem dashboard_counts_entry_statuses_witness:
  "\<exists>ls. map_of (get_payment_status_by_fee_type sample_db) ''CRT'' = Some ls
     \<and> ls_counts ls = counts_of [entry_status sample_db e. (b, e) \<leftarrow> status_rows sample_db,
                                  get_standardized_fee_type_label (fee_type e) = ''CRT'']
     \<and> sc_total (ls_counts ls) = sc_paid (ls_counts ls) + sc_partial (ls_counts ls) + sc_not_paid (ls_counts ls)"
  by (rule dashboard_counts_entry_statuses) (simp add: display_labels_def)

text \<open>
  C16: a fee-type summary card classifies each student once (by the last matching fee
  entry) while its ``total students'' counts matching fee entries: the three status
  counts add up to the number of distinct students, which is at most that total.
\<close>

theorem fee_summary_counts_students:
  "fs_fully_paid (get_fee_type_summary db ft) + fs_partially_paid (get_fee_type_summary db ft)
     + fs_not_paid (get_fee_type_summary db ft)
   = length (remdups (map fee_regd_no [e \<leftarrow> fee_master db. fee_type_like (fee_type e) (normalize_fee_type ft)]))
   \<and> length (remdups (map fee_regd_no [e \<leftarrow> fee_master db. fee_type_like (fee_type e) (normalize_fee_type ft)]))
     \<le> fs_total_students (get_fee_type_summary db ft)"
proof -
  let ?es = "[e \<leftarrow> fee_master db. fee_type_like (fee_type e) (normalize_fee_type ft)]"
  let ?sf = "foldl (\<lambda>m e. AList.update (fee_regd_no e) (amount e) m) [] ?es"
  let ?m = "filter (\<lambda>p. fee_type_like (pay_fee_type p) (normalize_fee_type ft)) (payments db)"
  let ?sp = "map (\<lambda>r. (r, sum_list [amount_paid p. p \<leftarrow> ?m, pay_regd_no p = r])) (remdups (map pay_regd_no ?m))"
  obtain f p n where fpn: "foldl (summary_step ?sp) (0, 0, 0) ?sf = (f, p, n)"
    by (cases "foldl (summary_step ?sp) (0, 0, 0) ?sf") auto
  have "f + p + n = length ?sf"
    using summary_step_total [of ?sp 0 0 0 ?sf] fpn by simp
  then have "f + p + n = length (remdups (map fee_regd_no ?es))"
    by (simp add: length_student_fees)
  moreover have "length (remdups (map fee_regd_no ?es)) \<le> length ?es"
    by (metis length_map length_remdups_leq)
  ultimately show ?thesis
    using fpn by (simp add: get_fee_type_summary_def Let_def)
qed

text \<open>
  The Phase 2 card counts Phase III fee entries and payments: in a database with a
  single student who owes and has paid only Phase III, the Phase 2 summary reports one
  student, fully paid, and the dashboard's totals count that one fee twice.
\<close>

theorem phase_2_card_counts_phase_iii:
  "fs_total_students (get_fee_type_summary phase3_db ''Phase 2'') = 1
   \<and> fs_fully_paid (get_fee_type_summary phase3_db ''Phase 2'') = 1
   \<and> fs_total (get_fee_type_summary phase3_db ''Phase 2'') = 1000
   \<and> dashboard_status_counts phase3_db = (2, 2, 0)"
  by code_simp

end
