(* ===== verification/Charts.thy ===== *)
theory Charts
  imports Dashboard "HOL-Library.Product_Lexorder" "HOL-Library.Multiset"
begin

text \<open>
  The data behind the dashboard's charts and the dashboard route
  (\<open>src/fee_payments/app.py\<close>).  \<open>create_visualizations\<close> (lines 166--577) draws three
  charts; what is modelled is the table each one plots, not the image:
  \<^item> \<open>batch_completion\<close> (lines 194--315, its table lines 198--260): from \<open>get_payment_status_by_fee_type\<close>, one
    row per display label, batch year and status, with the fully and partially paid
    counts merged into ``Paid'', then a pivot table indexed by (fee type, batch year);
  \<^item> \<open>payments_over_time\<close> (lines 317--460): its first statement reads the name \<open>df\<close>,
    which is not defined in the function or the module, so the chart is always the
    error image; it is modelled as that error;
  \<^item> \<open>total_fee\<close> (lines 462--568, its table lines 465--530): the sums of \<open>Payment.amount_paid\<close> over the join of
    payments with students grouped by (batch year, raw fee type), added into a table of
    every batch year and standard fee type under the raw type's display label.  With
    no student the table has no columns, \<open>base_df.pivot\<close> raises \<open>KeyError\<close>, the handler
    at lines 571--575 records the error under \<open>charts["error"]\<close>, and there is no total-fee
    chart (\<open>None\<close>).
  \<open>debug_chart_data\<close> (lines 1953--2024) lists the CRT payments of batch 2023-2027
  grouped by raw fee type and one by one, ordered by date (a stable sort stands for SQL's
  \<open>ORDER BY\<close>).  \<open>dashboard\<close> (lines 579--635) composes the three fee-type cards, the totals, the
  card counters and the charts; its date filters reach only the daily chart.  SQL's
  \<open>GROUP BY\<close> order is unspecified: the groups are listed in join order, and the table
  they are added into does not depend on it.

  Lemmas: each bar pair of the fee-status chart counts the statuses \<open>student_details\<close>
  shows for that label and batch, with Partially Paid counted as Paid; the total-fee
  table is, cell by cell, the sum of the joined payments with that
  batch year and display label (a group-by followed by a fold refines a filtered sum),
  so payments of unregistered students and of fee types the labeler does not map to a
  standard label (``Phase III'') are left out.
\<close>

subsection \<open>The fee-status chart\<close>

definition status_chart_years :: "(string \<times> label_stats) list \<Rightarrow> string list" where
  "status_chart_years fee_status_data =
     sort (remdups (concat (map (\<lambda>(ft, ls). map fst (ls_by_batch ls)) fee_status_data)))"

definition status_rows_of :: "string \<Rightarrow> string \<Rightarrow> status_counts \<Rightarrow> (string \<times> string \<times> string \<times> nat) list" where
  "status_rows_of ft by c =
     (let paid_count = sc_paid c + sc_partial c; not_paid_count = sc_not_paid c in
      (if 0 < paid_count then [(ft, by, ''Paid'', paid_count)] else [])
      @ (if 0 < not_paid_count then [(ft, by, ''Unpaid'', not_paid_count)] else []))"

definition payment_status_data :: "(string \<times> label_stats) list \<Rightarrow> (string \<times> string \<times> string \<times> nat) list" where
  "payment_status_data fee_status_data =
     concat (map (\<lambda>(ft, ls).
       if 0 < sc_total (ls_counts ls)
       then concat (map (\<lambda>by. case map_of (ls_by_batch ls) by of
                                 None \<Rightarrow> []
                               | Some c \<Rightarrow> status_rows_of ft by c)
                      (status_chart_years fee_status_data))
       else []) fee_status_data)"

definition pivot_cell :: "(string \<times> string \<times> string \<times> nat) list \<Rightarrow> string \<times> string \<Rightarrow> string \<Rightarrow> nat" where
  "pivot_cell rows k s =
     (case find (\<lambda>(f, b, s', c). (f, b) = k \<and> s' = s) rows of
        None \<Rightarrow> 0
      | Some (f, b, s', c) \<Rightarrow> c)"

definition status_pivot :: "(string \<times> string \<times> string \<times> nat) list \<Rightarrow> (string \<times> string \<times> nat \<times> nat) list" where
  "status_pivot rows =
     map (\<lambda>(f, b). (f, b, pivot_cell rows (f, b) ''Paid'', pivot_cell rows (f, b) ''Unpaid''))
       (sort (remdups (map (\<lambda>(f, b, s, c). (f, b)) rows)))"

datatype status_chart = No_Payment_Status_Data | Status_Bars "(string \<times> string \<times> nat \<times> nat) list"

definition batch_completion_chart :: "fee_db \<Rightarrow> status_chart" where
  "batch_completion_chart db =
     (let rows = payment_status_data (get_payment_status_by_fee_type db) in
      if rows = [] then No_Payment_Status_Data else Status_Bars (status_pivot rows))"

subsection \<open>The total-fee chart\<close>

definition standard_fee_types :: "string list" where
  "standard_fee_types = [''CRT'', ''Phase 2'', ''Phase 3'']"

definition payment_join :: "fee_db \<Rightarrow> (student \<times> payment) list" where
  "payment_join db = [(s, p). s \<leftarrow> students db, p \<leftarrow> payments db, pay_regd_no p = regd_no s]"

definition fee_totals_query :: "fee_db \<Rightarrow> (string \<times> string \<times> money) list" where
  "fee_totals_query db =
     map (\<lambda>(by, ft). (by, ft, sum_list (map (\<lambda>(s, p). amount_paid p)
                                   (filter (\<lambda>(s, p). (batch_year s, pay_fee_type p) = (by, ft)) (payment_join db)))))
       (remdups (map (\<lambda>(s, p). (batch_year s, pay_fee_type p)) (payment_join db)))"

definition base_df :: "fee_db \<Rightarrow> ((string \<times> string) \<times> money) list" where
  "base_df db = [((by, ft), 0). by \<leftarrow> batch_years db, ft \<leftarrow> standard_fee_types]"

definition total_fee_step :: "((string \<times> string) \<times> money) list \<Rightarrow> string \<times> string \<times> money \<Rightarrow> ((string \<times> string) \<times> money) list" where
  "total_fee_step df row =
     (case row of (by, ft, total_paid) \<Rightarrow>
       (let std_fee_type = get_standardized_fee_type_label ft in
        if std_fee_type \<in> set standard_fee_types \<and> list_ex (\<lambda>(k, v). k = (by, std_fee_type)) df
        then map (\<lambda>(k, v). if k = (by, std_fee_type) then (k, v + total_paid) else (k, v)) df
        else df))"

definition df_cell :: "((string \<times> string) \<times> money) list \<Rightarrow> string \<times> string \<Rightarrow> money" where
  "df_cell df k = (case map_of df k of None \<Rightarrow> 0 | Some v \<Rightarrow> v)"

definition total_fee_chart :: "fee_db \<Rightarrow> (string \<times> money list) list option" where
  "total_fee_chart db =
     (if batch_years db = [] then None
      else
        (let df = foldl total_fee_step (base_df db) (fee_totals_query db) in
         Some (map (\<lambda>by. (by, map (\<lambda>ft. df_cell df (by, ft)) standard_fee_types)) (batch_years db))))"

subsection \<open>The charts and the dashboard\<close>

record charts =
  batch_completion :: status_chart
  payments_over_time :: "string + unit"
  total_fee :: "(string \<times> money list) list option"
  charts_error :: "string option"

definition create_visualizations :: "fee_db \<Rightarrow> charts" where
  "create_visualizations db =
     \<lparr>batch_completion = batch_completion_chart db,
      payments_over_time = Inl ''Error creating chart: name 'df' is not defined'',
      total_fee = total_fee_chart db,
      charts_error = (if total_fee_chart db = None then Some (CHR 0x27 # ''batch_year'' @ [CHR 0x27]) else None)\<rparr>"

record dashboard_view =
  crt_data :: fee_summary
  phase2_data :: fee_summary
  phase3_data :: fee_summary
  total_data :: "money \<times> nat"
  payment_status_counts :: "nat \<times> nat \<times> nat"
  dv_charts :: charts
  dv_batch_years :: "string list"

definition dashboard :: "fee_db \<Rightarrow> dashboard_view" where
  "dashboard db =
     \<lparr>crt_data = get_fee_type_summary db ''CRT'',
      phase2_data = get_fee_type_summary db ''Phase 2'',
      phase3_data = get_fee_type_summary db ''Phase 3'',
      total_data = get_total_summary db,
      payment_status_counts = dashboard_status_counts db,
      dv_charts = create_visualizations db,
      dv_batch_years = remdups (map batch_year (students db))\<rparr>"

subsection \<open>The chart debug page\<close>

definition debug_payments :: "fee_db \<Rightarrow> (student \<times> payment) list" where
  "debug_payments db =
     filter (\<lambda>(s, p). batch_year s = ''2023-2027'' \<and> fee_type_like (pay_fee_type p) ''crt'') (payment_join db)"

record debug_summary_row =
  ds_batch_year :: string
  ds_fee_type :: string
  ds_standardized_fee_type :: string
  ds_amount_paid :: money

record debug_payment_row =
  dp_batch_year :: string
  dp_regd_no :: string
  dp_name :: string
  dp_fee_type :: string
  dp_amount :: money
  dp_date :: date

definition debug_chart_data :: "fee_db \<Rightarrow> debug_summary_row list \<times> debug_payment_row list" where
  "debug_chart_data db =
     (let rows = debug_payments db;
          results = map (\<lambda>(y, ft). \<lparr>ds_batch_year = y, ds_fee_type = ft,
                                    ds_standardized_fee_type = get_standardized_fee_type_label ft,
                                    ds_amount_paid = sum_list (map (\<lambda>(s, p). amount_paid p)
                                      (filter (\<lambda>(s, p). (batch_year s, pay_fee_type p) = (y, ft)) rows))\<rparr>)
                      (remdups (map (\<lambda>(s, p). (batch_year s, pay_fee_type p)) rows));
          payment_details = map (\<lambda>(s, p). \<lparr>dp_batch_year = batch_year s, dp_regd_no = regd_no s, dp_name = name s,
                                           dp_fee_type = pay_fee_type p, dp_amount = amount_paid p,
                                           dp_date = pay_date p\<rparr>)
                              (sort_key (\<lambda>(s, p). pay_date p) rows)
      in (results, payment_details))"

subsection \<open>Reference views and a witness database\<close>

text \<open>
  The statuses that \<open>student_details\<close> shows for the fee entries with display label
  \<open>l\<close> of the students of batch \<open>y\<close>, in the order the dashboard visits them.
\<close>

definition batch_statuses :: "fee_db \<Rightarrow> string \<Rightarrow> string \<Rightarrow> pay_status list" where
  "batch_statuses db l y =
     [entry_status db e. (b, e) \<leftarrow> status_rows db, get_standardized_fee_type_label (fee_type e) = l \<and> b = y]"

text \<open>
  Two students of batch 2022-2026: R1 owes and has paid 1000 for CRT; R2 owes 1000 for
  CRT and has paid 400, and owes and has paid 1000 for a fee typed ``Phase III''.  A
  payment of 500 is recorded for R9, who is not registered.
\<close>

definition chart_db :: fee_db where
  "chart_db =
     \<lparr>students = [sample_student 1 ''R1'', sample_student 2 ''R2''],
      fee_master = [sample_fee 1 ''R1'' ''crt fee'' 1000, sample_fee 2 ''R2'' ''crt fee'' 1000,
                    sample_fee 3 ''R2'' ''Phase III'' 1000],
      payments = [sample_payment 1 ''R1'' ''crt fee'' 1000, sample_payment 2 ''R2'' ''crt fee'' 400,
                  sample_payment 3 ''R2'' ''Phase III'' 1000, sample_payment 4 ''R9'' ''crt fee'' 500]\<rparr>"

subsection \<open>Lemmas on the chart tables\<close>

lemma df_keys_step [simp]: "map fst (total_fee_step df row) = map fst df"
  by (auto simp: total_fee_step_def Let_def split: prod.splits)

lemma df_keys_fold: "map fst (foldl total_fee_step df rows) = map fst df"
  by (induction rows arbitrary: df) simp_all

lemma map_of_map_add:
  "map_of (map (\<lambda>(k, v). if k = k0 then (k, v + t) else (k, v)) df) k
   = map_option (\<lambda>v. if k = k0 then v + t else v) (map_of df k)"
  by (induction df) auto

lemma df_cell_step:
  assumes "k \<in> set (map fst df)" and "snd k \<in> set standard_fee_types"
  shows "df_cell (total_fee_step df (b, f, t)) k
       = df_cell df k + (if (b, get_standardized_fee_type_label f) = k then t else 0)"
proof (cases "(b, get_standardized_fee_type_label f) = k")
  case True
  with assms have "list_ex (\<lambda>(k', v). k' = (b, get_standardized_fee_type_label f)) df"
    by (fastforce simp: list_ex_iff)
  with True assms(2) obtain v where "map_of df k = Some v" 
    using assms(1) by (cases "map_of df k") (auto simp: map_of_eq_None_iff)
  with True assms show ?thesis
    by (auto simp: total_fee_step_def df_cell_def map_of_map_add list_ex_iff)
qed (auto simp: total_fee_step_def df_cell_def Let_def map_of_map_add split: option.split)

lemma df_cell_fold:
  assumes "k \<in> set (map fst df)" and "snd k \<in> set standard_fee_types"
  shows "df_cell (foldl total_fee_step df rows) k
       = df_cell df k + sum_list (map (snd \<circ> snd) (filter (\<lambda>(b, f, t). (b, get_standardized_fee_type_label f) = k) rows))"
  using assms
proof (induction rows arbitrary: df)
  case (Cons row rows)
  obtain b f t where row: "row = (b, f, t)" by (cases row)
  have "k \<in> set (map fst (total_fee_step df row))" using Cons.prems(1) by simp
  from Cons.IH [OF this Cons.prems(2)] Cons.prems row show ?case
    by (simp add: df_cell_step add.assoc)
qed simp

lemma base_df_keys: "set (map fst (base_df db)) = set (batch_years db) \<times> set standard_fee_types"
  by (force simp: base_df_def)

lemma df_cell_base_df: "df_cell (base_df db) k = 0"
  by (auto simp: df_cell_def base_df_def split: option.split dest: map_of_SomeD)

lemma fee_totals_query_sum:
  "sum_list (map (snd \<circ> snd) (filter (\<lambda>(b, f, t). (b, get_standardized_fee_type_label f) = k) (fee_totals_query db)))
   = sum_list (map (\<lambda>(s, p). amount_paid p)
       (filter (\<lambda>(s, p). (batch_year s, get_standardized_fee_type_label (pay_fee_type p)) = k) (payment_join db)))"
proof -
  let ?J = "payment_join db"
  let ?g = "\<lambda>(s::student, p). (batch_year s, pay_fee_type p)"
  let ?v = "\<lambda>(s::student, p). amount_paid p"
  let ?P = "\<lambda>(b, f). (b, get_standardized_fee_type_label f) = k"
  let ?S = "\<lambda>kk. sum_list (map ?v (filter (\<lambda>x. ?g x = kk) ?J))"
  have q: "fee_totals_query db = map (\<lambda>kk. (fst kk, snd kk, ?S kk)) (remdups (map ?g ?J))"
    by (simp add: fee_totals_query_def split_def)
  have grp: "sum_list (map ?S (filter ?P (remdups (map ?g ?J)))) = sum_list (map ?v (filter (\<lambda>x. ?P (?g x)) ?J))"
    by (rule sum_list_group_by) auto
  have flt: "filter (\<lambda>(b, f, t). (b, get_standardized_fee_type_label f) = k) (fee_totals_query db)
      = map (\<lambda>kk. (fst kk, snd kk, ?S kk)) (filter ?P (remdups (map ?g ?J)))"
    unfolding q filter_map by (simp add: comp_def split_def)
  have sel: "(snd \<circ> snd) \<circ> (\<lambda>kk. (fst kk, snd kk, ?S kk)) = ?S"
    by (simp add: comp_def)
  have key: "(\<lambda>x. ?P (?g x)) = (\<lambda>(s, p). (batch_year s, get_standardized_fee_type_label (pay_fee_type p)) = k)"
    by auto
  show ?thesis
    unfolding flt map_map sel key [symmetric] by (rule grp)
qed

lemma status_chart_years_eq: "status_chart_years (get_payment_status_by_fee_type db) = batch_years db"
proof -
  let ?F = "get_payment_status_by_fee_type db"
  have "set (concat (map (\<lambda>(ft, ls). map fst (ls_by_batch ls)) ?F)) = set (batch_years db)"
  proof
    show "set (concat (map (\<lambda>(ft, ls). map fst (ls_by_batch ls)) ?F)) \<subseteq> set (batch_years db)"
    proof
      fix y assume "y \<in> set (concat (map (\<lambda>(ft, ls). map fst (ls_by_batch ls)) ?F))"
      then obtain l ls where "(l, ls) \<in> set ?F" and y: "y \<in> set (map fst (ls_by_batch ls))" by auto
      then have "l \<in> set display_labels" and "map_of ?F l = Some ls"
        by (simp_all add: payment_status_mem)
      with payment_status_label [of l db] y show "y \<in> set (batch_years db)" by auto
    qed
    show "set (batch_years db) \<subseteq> set (concat (map (\<lambda>(ft, ls). map fst (ls_by_batch ls)) ?F))"
    proof
      fix y assume y: "y \<in> set (batch_years db)"
      obtain ls where m: "map_of ?F ''CRT'' = Some ls" and k: "map fst (ls_by_batch ls) = batch_years db"
        using payment_status_label [of "''CRT''" db] by (auto simp: display_labels_def)
      have c: "(''CRT'', ls) \<in> set ?F" using m by (rule map_of_SomeD)
      have "y \<in> set (map fst (ls_by_batch ls))" using y k by simp
      with c show "y \<in> set (concat (map (\<lambda>(ft, ls). map fst (ls_by_batch ls)) ?F))"
        by (auto intro!: bexI [of _ "(''CRT'', ls)"])
    qed
  qed
  note eq = this
  show ?thesis
    unfolding status_chart_years_def
    by (rule sorted_distinct_set_unique, simp, simp, rule sorted_batch_years, rule distinct_batch_years)
       (simp only: set_sort set_remdups eq)
qed

lemma status_rows_of_mem:
  "(f, b, s, c) \<in> set (status_rows_of f' b' cs) \<longleftrightarrow> f = f' \<and> b = b' \<and> 0 < c
     \<and> (s = ''Paid'' \<and> c = sc_paid cs + sc_partial cs \<or> s = ''Unpaid'' \<and> c = sc_not_paid cs)"
  by (auto simp: status_rows_of_def Let_def)

lemma payment_status_data_mem:
  assumes "(l, y, s, c) \<in> set (payment_status_data (get_payment_status_by_fee_type db))"
  shows "y \<in> set (batch_years db) \<and> 0 < c \<and>
     (let ss = [entry_status db e. (b, e) \<leftarrow> status_rows db, get_standardized_fee_type_label (fee_type e) = l \<and> b = y] in
      s = ''Paid'' \<and> c = length (filter (\<lambda>s. s \<noteq> Not_Paid) ss)
      \<or> s = ''Unpaid'' \<and> c = length (filter (\<lambda>s. s = Not_Paid) ss))"
proof -
  let ?F = "get_payment_status_by_fee_type db"
  from assms obtain f ls y' cs where mem: "(f, ls) \<in> set ?F" and y: "y' \<in> set (batch_years db)"
    and cs: "Some cs = map_of (ls_by_batch ls) y'" and row: "(l, y, s, c) \<in> set (status_rows_of f y' cs)"
    by (auto simp: payment_status_data_def status_chart_years_eq split: if_splits option.splits)
  from row have "f = l" "y' = y" by (simp_all add: status_rows_of_mem)
  with mem y cs row have mem: "(l, ls) \<in> set ?F" and y: "y \<in> set (batch_years db)"
    and cs: "map_of (ls_by_batch ls) y = Some cs" and row: "(l, y, s, c) \<in> set (status_rows_of l y cs)"
    by simp_all
  have "l \<in> set display_labels" and "map_of ?F l = Some ls"
    using payment_status_mem [OF mem] by simp_all
  with payment_status_label [of l db] y cs have cs_eq:
    "cs = counts_of [entry_status db e. (b, e) \<leftarrow> status_rows db, get_standardized_fee_type_label (fee_type e) = l \<and> b = y]"
    by auto
  from row have "0 < c \<and> (s = ''Paid'' \<and> c = sc_paid cs + sc_partial cs \<or> s = ''Unpaid'' \<and> c = sc_not_paid cs)"
    by (simp add: status_rows_of_mem)
  then show ?thesis
    unfolding Let_def cs_eq counts_of_paid_partial sc_not_paid_counts_of using y by blast
qed

lemma pivot_cell_eq:
  assumes "\<And>c. (f, b, s, c) \<in> set rows \<Longrightarrow> c = N" and "0 < N \<Longrightarrow> (f, b, s, N) \<in> set rows"
  shows "pivot_cell rows (f, b) s = N"
proof (cases "find (\<lambda>(f', b', s', c). (f', b') = (f, b) \<and> s' = s) rows")
  case None
  then have "(f, b, s, N) \<notin> set rows" by (auto simp: find_None_iff)
  with assms(2) have "N = 0" by auto
  with None show ?thesis by (simp add: pivot_cell_def)
next
  case (Some r)
  then have "r \<in> set rows" and "(\<lambda>(f', b', s', c). (f', b') = (f, b) \<and> s' = s) r"
    by (auto simp: find_Some_iff) (metis nth_mem)
  with Some assms(1) show ?thesis by (auto simp: pivot_cell_def)
qed

lemma payment_status_data_row:
  assumes "l \<in> set display_labels" and "y \<in> set (batch_years db)"
    and "cs = counts_of (batch_statuses db l y)" and "(s = ''Paid'' \<and> c = sc_paid cs + sc_partial cs \<or> s = ''Unpaid'' \<and> c = sc_not_paid cs)"
    and "0 < c"
  shows "(l, y, s, c) \<in> set (payment_status_data (get_payment_status_by_fee_type db))"
proof -
  let ?F = "get_payment_status_by_fee_type db"
  obtain ls where ls: "map_of ?F l = Some ls"
    and tot: "ls_counts ls = counts_of [entry_status db e. (b, e) \<leftarrow> status_rows db, get_standardized_fee_type_label (fee_type e) = l]"
    and byb: "map_of (ls_by_batch ls) y = Some cs"
    using payment_status_label [OF assms(1), of db] assms(2,3) by (auto simp: batch_statuses_def)
  let ?L = "[entry_status db e. (b, e) \<leftarrow> status_rows db, get_standardized_fee_type_label (fee_type e) = l]"
  have "batch_statuses db l y \<noteq> []"
    using assms(3-5) by (auto simp: counts_of_def)
  then obtain x where "x \<in> set (batch_statuses db l y)" by (cases "batch_statuses db l y") auto
  moreover have "set (batch_statuses db l y) \<subseteq> set ?L"
    by (auto simp: batch_statuses_def)
  ultimately have "x \<in> set ?L" by blast
  then have "0 < length ?L" by (rule length_pos_if_in_set)
  then have "0 < sc_total (ls_counts ls)"
    by (simp only: tot sc_total_counts_of)
  moreover have "(l, ls) \<in> set ?F" using ls by (rule map_of_SomeD)
  moreover have "(l, y, s, c) \<in> set (status_rows_of l y cs)"
    using assms(4,5) by (auto simp: status_rows_of_mem)
  ultimately show ?thesis
    using assms(2) byb by (force simp: payment_status_data_def status_chart_years_eq)
qed

lemma sum_list_sort_key:
  fixes f :: "'a \<Rightarrow> 'b::comm_monoid_add"
  shows "sum_list (map f (sort_key k xs)) = sum_list (map f xs)"
proof -
  have "sum_mset (mset (map f (sort_key k xs))) = sum_mset (mset (map f xs))" by simp
  then show ?thesis by (simp only: sum_mset_sum_list)
qed

subsection \<open>Properties of the charts\<close>

text \<open>
  C34: the total-fee chart refines a filtered sum.  Its table has one row per batch year
  and one column per standard fee type, and each cell is the sum of the amounts of the
  payments joined with a student of that batch year whose fee type has that display
  label: the \<open>GROUP BY\<close> query followed by the fold into the table adds up exactly those
  payments, each once.
\<close>

theorem total_fee_chart_sums_joined_payments:
  "total_fee_chart db =
     (if batch_years db = [] then None
      else Some (map (\<lambda>by. (by, map (\<lambda>ft. sum_list (map (\<lambda>(s, p). amount_paid p)
                   (filter (\<lambda>(s, p). batch_year s = by \<and> get_standardized_fee_type_label (pay_fee_type p) = ft)
                      (payment_join db)))) standard_fee_types))
       (batch_years db)))"
proof -
  have "df_cell (foldl total_fee_step (base_df db) (fee_totals_query db)) (y, ft)
      = sum_list (map (\<lambda>(s, p). amount_paid p)
          (filter (\<lambda>(s, p). batch_year s = y \<and> get_standardized_fee_type_label (pay_fee_type p) = ft) (payment_join db)))"
    if "y \<in> set (batch_years db)" "ft \<in> set standard_fee_types" for y ft
  proof -
    have "(y, ft) \<in> set (map fst (base_df db))" using that by (simp only: base_df_keys) simp
    then have "df_cell (foldl total_fee_step (base_df db) (fee_totals_query db)) (y, ft)
        = sum_list (map (\<lambda>(s, p). amount_paid p)
            (filter (\<lambda>(s, p). (batch_year s, get_standardized_fee_type_label (pay_fee_type p)) = (y, ft)) (payment_join db)))"
      using that(2) by (simp only: df_cell_fold df_cell_base_df fee_totals_query_sum add_0 snd_conv)
    also have "\<dots> = sum_list (map (\<lambda>(s, p). amount_paid p)
          (filter (\<lambda>(s, p). batch_year s = y \<and> get_standardized_fee_type_label (pay_fee_type p) = ft) (payment_join db)))"
      by (simp only: prod.inject)
    finally show ?thesis .
  qed
  then show ?thesis
    by (simp add: total_fee_chart_def)
qed

text \<open>
  C35: the fee-status chart merges partially paid into paid.  For every bar group of the
  chart (a display label and a batch year), the ``Paid'' bar is the number of those fee
  entries whose status in \<open>student_details\<close> is Paid or Partially Paid, and the
  ``Unpaid'' bar the number that are Not Paid.
\<close>

theorem batch_completion_chart_merges_partially_paid:
  assumes "batch_completion_chart db = Status_Bars bars" and "(l, y, paid, unpaid) \<in> set bars"
  shows "paid = length (filter (\<lambda>s. s \<noteq> Not_Paid) (batch_statuses db l y))
       \<and> unpaid = length (filter (\<lambda>s. s = Not_Paid) (batch_statuses db l y))"
proof -
  let ?rows = "payment_status_data (get_payment_status_by_fee_type db)"
  have bars: "bars = status_pivot ?rows" and "?rows \<noteq> []"
    using assms(1) by (auto simp: batch_completion_chart_def Let_def split: if_splits)
  from assms(2) obtain s c where row: "(l, y, s, c) \<in> set ?rows"
    and paid: "paid = pivot_cell ?rows (l, y) ''Paid''" and unpaid: "unpaid = pivot_cell ?rows (l, y) ''Unpaid''"
    unfolding bars status_pivot_def by auto
  have y: "y \<in> set (batch_years db)" using payment_status_data_mem [OF row] by simp
  have l: "l \<in> set display_labels"
    using row by (auto simp: payment_status_data_def status_rows_of_mem dest!: payment_status_mem)
  let ?cs = "counts_of (batch_statuses db l y)"
  have "pivot_cell ?rows (l, y) ''Paid'' = sc_paid ?cs + sc_partial ?cs"
  proof (rule pivot_cell_eq)
    show "c' = sc_paid ?cs + sc_partial ?cs" if "(l, y, ''Paid'', c') \<in> set ?rows" for c'
      using payment_status_data_mem [OF that] by (simp add: Let_def batch_statuses_def counts_of_paid_partial)
    show "(l, y, ''Paid'', sc_paid ?cs + sc_partial ?cs) \<in> set ?rows" if "0 < sc_paid ?cs + sc_partial ?cs"
      using payment_status_data_row [OF l y refl _ that] by simp
  qed
  moreover have "pivot_cell ?rows (l, y) ''Unpaid'' = sc_not_paid ?cs"
  proof (rule pivot_cell_eq)
    show "c' = sc_not_paid ?cs" if "(l, y, ''Unpaid'', c') \<in> set ?rows" for c'
      using payment_status_data_mem [OF that] by (simp add: Let_def batch_statuses_def sc_not_paid_counts_of)
    show "(l, y, ''Unpaid'', sc_not_paid ?cs) \<in> set ?rows" if "0 < sc_not_paid ?cs"
      using payment_status_data_row [OF l y refl _ that] by simp
  qed
  ultimately show ?thesis
    using paid unpaid by (simp add: counts_of_paid_partial sc_not_paid_counts_of)
qed

theorem batch_completion_chart_merges_partially_paid_witness:
  "length (filter (\<lambda>s. s \<noteq> Not_Paid) (batch_statuses chart_db ''CRT'' ''2022-2026'')) = 2"
proof -
  have "batch_completion_chart chart_db = Status_Bars [(''CRT'', ''2022-2026'', 2, 0)]"
    by code_simp
  from batch_completion_chart_merges_partially_paid [OF this, of "''CRT''" "''2022-2026''" 2 0]
  show ?thesis by simp
qed

text \<open>
  The total-fee chart leaves out the payment of the unregistered student R9 and the
  payment typed ``Phase III'', whose display label is ``Phase Iii'' although it
  normalises to the Phase III key: it shows 1400 where 2900 has been paid.
\<close>

theorem total_fee_chart_omits_payments:
  "total_fee_chart chart_db = Some [(''2022-2026'', [1400, 0, 0])]
   \<and> fst (get_total_summary chart_db) = 2900
   \<and> normalize_fee_type ''Phase III'' = ''smart interviews phase-iii''
   \<and> get_standardized_fee_type_label ''Phase III'' = ''Phase Iii''"
  by code_simp


text \<open>
  The chart debug page is consistent: the amounts of its summary table, one per
  (batch year, raw fee type) group, add up to the amounts of its payment list, and each
  group's amount is the sum of the listed payments of that fee type.
\<close>

theorem debug_chart_data_consistent:
  "sum_list (map ds_amount_paid (fst (debug_chart_data db))) = sum_list (map dp_amount (snd (debug_chart_data db)))
   \<and> (\<forall>r \<in> set (fst (debug_chart_data db)).
        ds_amount_paid r = sum_list (map dp_amount (filter (\<lambda>d. dp_fee_type d = ds_fee_type r) (snd (debug_chart_data db)))))"
proof
  let ?R = "debug_payments db"
  let ?g = "\<lambda>(s::student, p). (batch_year s, pay_fee_type p)"
  let ?v = "\<lambda>(s::student, p). amount_paid p"
  have batch: "batch_year s = ''2023-2027''" if "(s, p) \<in> set ?R" for s p
    using that by (auto simp: debug_payments_def)
  have grp: "sum_list (map (\<lambda>k. sum_list (map ?v (filter (\<lambda>x. ?g x = k) ?R))) (filter (\<lambda>k. True) (remdups (map ?g ?R))))
      = sum_list (map ?v (filter (\<lambda>x. True) ?R))"
    by (rule sum_list_group_by) auto
  have q1: "map ds_amount_paid (fst (debug_chart_data db))
      = map (\<lambda>k. sum_list (map ?v (filter (\<lambda>x. ?g x = k) ?R))) (remdups (map ?g ?R))"
    by (simp add: debug_chart_data_def Let_def split_def)
  have q2: "map dp_amount (snd (debug_chart_data db)) = map ?v (sort_key (\<lambda>(s, p). pay_date p) ?R)"
    by (simp add: debug_chart_data_def Let_def split_def)
  show "sum_list (map ds_amount_paid (fst (debug_chart_data db))) = sum_list (map dp_amount (snd (debug_chart_data db)))"
    unfolding q1 q2 sum_list_sort_key using grp by simp
  let ?row = "\<lambda>k. \<lparr>ds_batch_year = fst k, ds_fee_type = snd k,
                    ds_standardized_fee_type = get_standardized_fee_type_label (snd k),
                    ds_amount_paid = sum_list (map ?v (filter (\<lambda>x. ?g x = k) ?R))\<rparr>"
  have q3: "fst (debug_chart_data db) = map ?row (remdups (map ?g ?R))"
    by (simp add: debug_chart_data_def Let_def split_def)
  have q4: "map dp_amount (filter (\<lambda>d. dp_fee_type d = ft) (snd (debug_chart_data db)))
      = map ?v (sort_key (\<lambda>(s, p). pay_date p) (filter (\<lambda>x. pay_fee_type (snd x) = ft) ?R))" for ft
    by (simp add: debug_chart_data_def Let_def split_def filter_map comp_def filter_sort)
  show "\<forall>r \<in> set (fst (debug_chart_data db)).
        ds_amount_paid r = sum_list (map dp_amount (filter (\<lambda>d. dp_fee_type d = ds_fee_type r) (snd (debug_chart_data db))))"
  proof
    fix r assume "r \<in> set (fst (debug_chart_data db))"
    then obtain k where r: "r = ?row k" and "k \<in> set (remdups (map ?g ?R))"
      unfolding q3 set_map by (rule imageE)
    then have k: "k \<in> set (map ?g ?R)" by simp
    have y: "fst k = ''2023-2027''" using k batch by auto
    have "filter (\<lambda>x. ?g x = k) ?R = filter (\<lambda>x. pay_fee_type (snd x) = snd k) ?R"
      using batch y by (auto intro!: filter_cong simp: prod_eq_iff)
    then show "ds_amount_paid r = sum_list (map dp_amount (filter (\<lambda>d. dp_fee_type d = ds_fee_type r) (snd (debug_chart_data db))))"
      unfolding q4 sum_list_sort_key using r by simp
  qed
qed

end
