(* ===== verification/Pages.thy ===== *)
theory Pages
  imports Upload Details "HOL-Library.Product_Lexorder" "HOL-Library.Multiset" "HOL-Library.List_Lexorder" "HOL-Library.Char_ord"
begin

text \<open>
  The pages that read the tables for forms (\<open>src/fee_payments/app.py\<close>):
  \<^item> the payments page (\<open>payments\<close>, lines 955--1212): the form pre-filled from the query
    (\<open>regd_no\<close>, the normalised \<open>fee_type\<close>, the student's name and batch year) and the
    ten most recent payments (an outer join with the students, \<open>ORDER BY date DESC
    LIMIT 10\<close>), each shown with its display label and the status ``Paid''.  The history
    is read before a POST is handled: a POST that records a payment redirects to the
    student details, one that fails renders the page with that earlier history
    (\<open>payments_error_page\<close>), the form's batch year, and the value the name
    \<open>fee_type\<close> holds at the failing \<open>return\<close> (lines 1044--1050, 1097--1102, 1127--1132,
    1164--1169, 1207--1212): the normalising loop reuses that name, so it is the last
    stripped entry of the form's list, the last normalised key, or the single fee type
    looked up; the student name is the one the POST looked up (\<open>Unknown\<close> when absent)
    except on the missing-fields return, which precedes that lookup.  Form fields are
    strings, an absent one empty;
  \<^item> the student details page (\<open>student_details\<close>, lines 1298--1562): its filter
    options (lines 1322--1353: the distinct batch years and fee types, with fixed
    fallbacks when the tables are empty, and the branches, the sorted union of the
    stored ones with a fixed list) and its two displays, the plain student list
    (lines 1361--1395) and the payment details (\<open>Details.payment_details\<close>);
  \<^item> the spreadsheet template (\<open>download_template\<close>, lines 1214--1294): three sample
    rows in the seven required columns, as CSV or, by default, as Excel with two notes
    written below the rows.
  SQL leaves the order of payments with the same date open; here they come newest
  row first.  The CSV template is given to \<open>upload\<close> as the rows pandas reads from it
  (\<open>template_upload\<close>); the Excel notes become rows whose empty cells pandas reads as
  NaN, which is outside the rational model.

  Lemmas: every student the payment details list is in the plain list for the same
  filters; the history holds the ten newest payments, newest first, and every payment
  left out is no newer than any shown; the template, uploaded back, imports its three
  students and their fees without an error.
\<close>

subsection \<open>The payments page\<close>

record history_row =
  hr_regd_no :: string
  hr_student_name :: string
  hr_batch_year :: string
  hr_fee_type :: string
  hr_amount :: money
  hr_date :: date
  hr_received_by :: string
  hr_status :: string

definition recent_payments :: "fee_db \<Rightarrow> payment list" where
  "recent_payments db = take 10 (rev (sort_key pay_date (payments db)))"

definition history_row_of :: "fee_db \<Rightarrow> payment \<Rightarrow> history_row" where
  "history_row_of db p =
     \<lparr>hr_regd_no = pay_regd_no p,
      hr_student_name = (case find_student db (pay_regd_no p) of
                           Some s \<Rightarrow> if name s = [] then ''Unknown'' else name s
                         | None \<Rightarrow> ''Unknown''),
      hr_batch_year = pay_batch_year p,
      hr_fee_type = get_standardized_fee_type_label (pay_fee_type p),
      hr_amount = amount_paid p, hr_date = pay_date p, hr_received_by = received_by p,
      hr_status = ''Paid''\<rparr>"

record payments_page =
  pp_history :: "history_row list"
  pp_reg_no :: string
  pp_fee_type :: string
  pp_student_name :: string
  pp_batch_year :: string

definition payments_get :: "fee_db \<Rightarrow> string \<Rightarrow> string \<Rightarrow> payments_page" where
  "payments_get db reg ft_arg =
     (let ft = (if ft_arg \<noteq> [] then normalize_fee_type ft_arg else ft_arg);
          st = (if reg \<noteq> [] then find_student db reg else None)
      in \<lparr>pp_history = map (history_row_of db) (recent_payments db),
          pp_reg_no = reg, pp_fee_type = ft,
          pp_student_name = (case st of None \<Rightarrow> [] | Some s \<Rightarrow> name s),
          pp_batch_year = (case st of None \<Rightarrow> [] | Some s \<Rightarrow> batch_year s)\<rparr>)"

datatype payments_response =
    Payments_Page payments_page
  | Redirect_Student_Details "string list"
  | Payments_Error_Page payments_page pay_error

definition payments_error_page :: "fee_db \<Rightarrow> payments_page \<Rightarrow> payment_form \<Rightarrow> pay_error \<Rightarrow> payments_page" where
  "payments_error_page db page f e =
     (let raw = (if pf_fee_type_combined f = [] then [] else py_split CHR ''|'' (pf_fee_type_combined f));
          loop_fee_type = (if raw = [] then pp_fee_type page else py_strip (last raw));
          fts = normalized_fee_types (pf_fee_type_combined f);
          single_fee_type = (case first_fee_entry db (pf_regd_no f) (hd fts) of Some e \<Rightarrow> fee_type e | None \<Rightarrow> hd fts);
          posted_name = (case find_student db (pf_regd_no f) of Some s \<Rightarrow> name s | None \<Rightarrow> ''Unknown'')
      in page\<lparr>pp_fee_type :=
                 (case e of
                    Missing_Fields \<Rightarrow> loop_fee_type
                  | Invalid_Amount \<Rightarrow> loop_fee_type
                  | No_Matching_Fees \<Rightarrow> last fts
                  | Invalid_Date \<Rightarrow> if 1 < length fts then last fts else single_fee_type),
              pp_student_name := (if e = Missing_Fields then pp_student_name page else posted_name),
              pp_batch_year := pf_batch_year f\<rparr>)"

definition payments_route ::
  "(string \<Rightarrow> money option) \<Rightarrow> (string \<Rightarrow> date option) \<Rightarrow> string \<Rightarrow> string \<Rightarrow> payment_form option \<Rightarrow> fee_db
   \<Rightarrow> payments_response \<times> fee_db" where
  "payments_route parse_float parse_date reg ft_arg post db =
     (let page = payments_get db reg ft_arg in
      case post of
        None \<Rightarrow> (Payments_Page page, db)
      | Some f \<Rightarrow>
          (case record_payment parse_float parse_date f db of
             Inr db' \<Rightarrow> (Redirect_Student_Details [pf_regd_no f], db')
           | Inl e \<Rightarrow> (Payments_Error_Page (payments_error_page db page f e) e, db)))"

subsection \<open>The filter options of the student details page\<close>

definition default_batch_years :: "string list" where
  "default_batch_years = [''2020-2024'', ''2021-2025'', ''2022-2026'', ''2023-2027'', ''2024-2028'', ''2025-2029'', ''2026-2030'']"

definition default_branches :: "string list" where
  "default_branches = [''CSE'', ''IT'', ''CSE-AI&DS'', ''CSE-AI&ML'', ''ECE'', ''EEE'', ''CE'', ''ME'']"

record details_options =
  do_batch_years :: "string list"
  do_fee_types :: "string list"
  do_branches :: "string list"

definition details_options :: "fee_db \<Rightarrow> details_options" where
  "details_options db =
     (let batch_years = remdups (map batch_year (students db));
          fee_types = remdups (map fee_type (fee_master db))
      in \<lparr>do_batch_years = (if batch_years = [] then default_batch_years else batch_years),
          do_fee_types = (if fee_types = [] then [''CRT'', ''Phase 2'', ''Phase 3''] else fee_types),
          do_branches = sort (remdups (remdups (map branch (students db)) @ default_branches))\<rparr>)"

record listed_student =
  st_batch_year :: string
  st_registration_number :: string
  st_name :: string
  st_branch :: string
  st_mobile :: "string option"

definition student_list :: "fee_db \<Rightarrow> details_filter \<Rightarrow> listed_student list" where
  "student_list db f =
     map (\<lambda>s. \<lparr>st_batch_year = batch_year s, st_registration_number = regd_no s, st_name = name s,
               st_branch = branch s, st_mobile = mobile s\<rparr>)
       (filter (student_matches f) (students db))"

datatype details_view = Student_List "listed_student list" | Payment_Details "student_record list"

definition student_details :: "fee_db \<Rightarrow> details_filter \<Rightarrow> string \<Rightarrow> string \<Rightarrow> string \<Rightarrow> details_options \<times> details_view" where
  "student_details db f fee_type_arg ps display_type =
     (details_options db,
      if display_type = ''student_details'' then Student_List (student_list db f)
      else Payment_Details (payment_details db f fee_type_arg ps))"

subsection \<open>The spreadsheet template\<close>

definition template_columns :: "string list" where
  "template_columns = [''batch_year'', ''regd_no'', ''name'', ''branch'', ''mobile'', ''fee_type'', ''amount'']"

definition template_rows :: "(string \<times> string \<times> string \<times> string \<times> string \<times> string \<times> money) list" where
  "template_rows =
     [(''2022-2026'', ''REG2022001'', ''John Doe'', ''CSE'', ''9876543210'', ''CRT'', 10000),
      (''2021-2025'', ''REG2021002'', ''Jane Smith'', ''IT'', ''8765432109'', ''Phase 2'', 15000),
      (''2022-2026'', ''REG2022003'', ''Alice Johnson'', ''CSE-AI&DS'', ''7654321098'', ''Phase 3'', 20000)]"

definition template_notes :: "string list" where
  "template_notes =
     [''Note: For Smart Interviews fee types, please specify a batch in the batch column.'',
      ''The remarks column is optional and can be used to provide additional information.'']"

datatype template_file =
    Template_Csv string "string list" "(string \<times> string \<times> string \<times> string \<times> string \<times> string \<times> money) list"
  | Template_Excel string "string list" "(string \<times> string \<times> string \<times> string \<times> string \<times> string \<times> money) list" "string list"

definition download_template :: "string \<Rightarrow> template_file" where
  "download_template format_type =
     (if py_lower format_type = ''csv''
      then Template_Csv ''student_fee_template.csv'' template_columns template_rows
      else Template_Excel ''student_fee_template.xlsx'' template_columns template_rows template_notes)"

text \<open>
  A CSV template as \<open>upload\<close> receives it: its name and header, and each row as the
  values the handler reads (no remarks, no payment columns).
\<close>

definition template_upload :: "template_file \<Rightarrow> upload_file option" where
  "template_upload t =
     (case t of
        Template_Csv fname cols rows \<Rightarrow>
          Some \<lparr>up_present = True, up_filename = fname, up_columns = cols,
                up_rows = map (\<lambda>(by, r, nm, br, mob, ft, amt).
                           \<lparr>row_regd_no = r, row_name = nm, row_batch_year = by, row_branch = br,
                            row_mobile = Some mob, row_fee_type = ft, row_amount = Some amt, row_remarks = [],
                            row_paid_amount = None, row_payment_date = None, row_received_by = None\<rparr>) rows\<rparr>
      | Template_Excel fname cols rows notes \<Rightarrow> None)"

definition unknown_payment_db :: fee_db where
  "unknown_payment_db =
     \<lparr>students = [sample_student 1 ''R1''], fee_master = [sample_fee 1 ''R1'' ''crt fee'' 1000],
      payments = [sample_payment 1 ''R1'' ''crt fee'' 400, sample_payment 2 ''R9'' ''crt fee'' (-50)]\<rparr>"

subsection \<open>Lemmas on the history\<close>

lemma sorted_rev_take_rev:
  "sorted xs \<Longrightarrow> sorted (rev (take n (rev xs)))"
  by (simp add: rev_take sorted_wrt_drop)

lemma details_options_branches:
  "set default_branches \<subseteq> set (do_branches (details_options db))
   \<and> sorted (do_branches (details_options db)) \<and> distinct (do_branches (details_options db))"
  by (auto simp: details_options_def Let_def)

lemma payments_route_failed_post:
  assumes "record_payment parse_float parse_date f db = Inl e"
  shows "payments_route parse_float parse_date reg ft (Some f) db
           = (Payments_Error_Page (payments_error_page db (payments_get db reg ft) f e) e, db)
         \<and> pp_history (payments_error_page db (payments_get db reg ft) f e) = pp_history (payments_get db reg ft)"
  using assms by (simp add: payments_route_def payments_error_page_def Let_def)

lemma payment_details_students:
  "set (map sr_regd_no (payment_details db f ft ps)) \<subseteq> set (map st_registration_number (student_list db f))"
proof
  fix r assume "r \<in> set (map sr_regd_no (payment_details db f ft ps))"
  then obtain x where x: "x \<in> set (payment_details db f ft ps)" and r: "r = sr_regd_no x" by auto
  let ?rows = "remdups (map (\<lambda>s. (batch_year s, regd_no s, name s, branch s)) (filter (student_matches f) (students db)))"
  let ?g = "\<lambda>(b, r, n, br). map_option
              (\<lambda>info. \<lparr>sr_batch_year = b, sr_regd_no = r, sr_name = n, sr_branch = br, sr_fee_info = info\<rparr>)
              (student_fee_info db (if ft = [] then [] else normalize_fee_type ft) r)"
  have "x \<in> set (List.map_filter ?g ?rows)"
    using x by (auto simp: payment_details_def Let_def status_filter_def split: if_splits)
  then obtain y where "y \<in> set ?rows" and "?g y = Some x" by (auto simp: List.map_filter_def)
  moreover obtain b r' n br where y: "y = (b, r', n, br)" by (cases y)
  ultimately have "sr_regd_no x = r'" and "(b, r', n, br) \<in> set ?rows" by auto
  then obtain s where "s \<in> set (filter (student_matches f) (students db))" and "regd_no s = sr_regd_no x"
    by auto
  then show "r \<in> set (map st_registration_number (student_list db f))"
    using r by (force simp: student_list_def)
qed

subsection \<open>Properties of the pages\<close>

text \<open>
  C22: the payments page shows the ten newest payments, newest first.  Its history has
  \<open>min 10 n\<close> rows for \<open>n\<close> payments, their dates descend, they are payments of the
  table, and every payment left out is dated no later than every one shown.
\<close>

theorem payments_page_history_newest_first:
  "length (pp_history (payments_get db reg ft)) = min 10 (length (payments db))
   \<and> sorted (rev (map hr_date (pp_history (payments_get db reg ft))))
   \<and> mset (recent_payments db) \<subseteq># mset (payments db)
   \<and> map hr_date (pp_history (payments_get db reg ft)) = map pay_date (recent_payments db)
   \<and> (\<forall>p \<in># mset (payments db) - mset (recent_payments db).
        \<forall>h \<in> set (pp_history (payments_get db reg ft)). pay_date p \<le> hr_date h)"
proof -
  let ?S = "rev (sort_key pay_date (payments db))"
  have hist: "map hr_date (pp_history (payments_get db reg ft)) = map pay_date (take 10 ?S)"
    by (simp add: payments_get_def Let_def recent_payments_def history_row_of_def comp_def)
  have ms: "mset ?S = mset (payments db)" by simp
  have srt: "sorted (map pay_date (rev ?S))" by simp
  have split: "?S = take 10 ?S @ drop 10 ?S" by simp
  have "sorted (rev (map pay_date (take 10 ?S)))"
    using sorted_rev_take_rev [OF srt, of 10] by (simp add: rev_map take_map)
  moreover have "mset (take 10 ?S) \<subseteq># mset (payments db)"
    using ms split by (metis mset_append mset_subset_eq_add_left)
  moreover have "pay_date p \<le> pay_date q" if "p \<in> set (drop 10 ?S)" "q \<in> set (take 10 ?S)" for p q
  proof -
    have "sorted (map pay_date (rev (drop 10 ?S)) @ map pay_date (rev (take 10 ?S)))"
      using srt split by (metis map_append rev_append)
    with that show ?thesis by (auto simp: sorted_append)
  qed
  moreover have "mset (payments db) - mset (take 10 ?S) = mset (drop 10 ?S)"
    using ms split by (metis add_diff_cancel_left' mset_append)
  moreover have "length (pp_history (payments_get db reg ft)) = length (take 10 ?S)"
    by (simp add: payments_get_def Let_def recent_payments_def)
  moreover have "hr_date h \<in> set (map pay_date (take 10 ?S))" if "h \<in> set (pp_history (payments_get db reg ft))" for h
  proof -
    from that have "hr_date h \<in> set (map hr_date (pp_history (payments_get db reg ft)))" by simp
    then show ?thesis unfolding hist .
  qed
  ultimately show ?thesis
    unfolding hist by (fastforce simp: recent_payments_def min_def)
qed

theorem payments_page_history_newest_first_witness:
  "length (pp_history (payments_get unknown_payment_db [] [])) = 2
   \<and> sorted (rev (map hr_date (pp_history (payments_get unknown_payment_db [] []))))"
proof -
  have len: "length (payments unknown_payment_db) = 2" by (simp add: unknown_payment_db_def)
  from payments_page_history_newest_first [of unknown_payment_db "[]" "[]"]
  have l: "length (pp_history (payments_get unknown_payment_db [] [])) = min 10 (length (payments unknown_payment_db))"
    and s: "sorted (rev (map hr_date (pp_history (payments_get unknown_payment_db [] []))))"
    by blast+
  have "length (pp_history (payments_get unknown_payment_db [] [])) = 2"
    unfolding l len by simp
  with s show ?thesis by blast
qed

text \<open>
  The history labels every payment ``Paid'' and the student of an unregistered number
  ``Unknown'': a payment of 400 toward a fee of 1000 and a payment of -50 for R9 are both
  shown as paid.
\<close>

theorem payments_history_always_paid:
  "map (\<lambda>h. (hr_student_name h, hr_amount h, hr_status h)) (pp_history (payments_get unknown_payment_db [] []))
   = [(''Unknown'', -50, ''Paid''), (''Student R1'', 400, ''Paid'')]"
  by code_simp

text \<open>
  The template uploads.  The CSV template that \<open>download_template\<close> offers, read by
  \<open>upload\<close> into an empty database, is accepted: its three rows are processed without
  an error, and the three sample students and their fees, under the canonical keys of
  CRT, Phase II and Phase III, are stored in a well-formed database.
\<close>

theorem template_upload_imports_samples:
  "(case map_option (\<lambda>f. upload f empty_db) (template_upload (download_template ''csv'')) of
      Some (Inr st) \<Rightarrow>
        us_processed st = 3 \<and> us_errors st = []
        \<and> map regd_no (students (us_db st)) = [''REG2022001'', ''REG2021002'', ''REG2022003'']
        \<and> map fee_type (fee_master (us_db st))
            = [''crt fee'', ''smart interviews phase-ii'', ''smart interviews phase-iii'']
        \<and> db_wf (us_db st)
    | _ \<Rightarrow> False)"
  by code_simp

end
