(* ===== verification/Spec2Isabelle.thy ===== *)
theory Spec2Isabelle
  imports Auth Schema Reports Charts Pages
begin

text \<open>
  \<^bold>\<open>A verification library for the CRT fee tracker.\<close>

  The program (\<open>src/fee_payments/\<close>) is a Flask application over a SQLite database
  with the tables \<open>student\<close>, \<open>fee_master\<close>, \<open>payment\<close> and \<open>admin\<close>
  (\<open>models.py\<close>).  Its business rules live in \<open>app.py\<close>: a normaliser and a display
  labeler for free-text fee types, a payment-status rule with a tolerance of 0.01
  repeated in several handlers, a proportional distributor that splits one payment over
  several fees, and route handlers that query and update the tables with
  \<open>lower(fee_type) LIKE '%key%'\<close> filters, some of them behind \<open>@login_required\<close>.
  \<open>sqlite_uploader.py\<close> is a second, direct-SQL importer with its own schema;
  \<open>init_admin.py\<close> creates admins from the console.

  \<^bold>\<open>Theories\<close> (each opens with a text saying what it models and shows).
  \<^item> \<open>Prelude\<close>: money as \<open>rat\<close> (Python floats without binary rounding); Python's
    \<open>str.lower\<close>, \<open>strip\<close>, \<open>title\<close>, \<open>split\<close> and \<open>in\<close> on ASCII text, with their
    lemmas (idempotence, \<open>split\<close>/join round trip); list helpers (\<open>update_first\<close> for
    \<open>.first()\<close> followed by an attribute update).
  \<^item> \<open>FeeType\<close>: \<open>normalize_fee_type\<close>, \<open>get_standardized_fee_type_label\<close> and the
    abstract specification \<open>fee_category\<close> with one marker table written with the
    specification's own marker strings; refinement, stability of normalised keys,
    idempotence of the labeler, agreement and disagreement of the two functions.
  \<^item> \<open>Status\<close>, \<open>Money\<close>, \<open>Distribution\<close>: the status rule (monotone, with the
    specification's examples), \<open>round(x, 2)\<close> half-to-even, and the distribution loop
    (exact on whole cents, within half a cent otherwise, proportional shares).
  \<^item> \<open>Like\<close>, \<open>Store\<close>: SQLite \<open>LIKE\<close> and its equivalence with substring search; the
    tables as lists in row-id order, the paid-total queries and the table invariant
    \<open>db_wf\<close> (unique keys, foreign keys, one entry per student and fee type).
  \<^item> \<open>Details\<close>, \<open>Dashboard\<close>, \<open>Unpaid\<close>: the views \<open>student_details\<close>,
    \<open>get_payment_status_by_fee_type\<close>, \<open>get_fee_type_summary\<close>,
    \<open>get_total_summary\<close> and \<open>unpaid_students\<close>, with what each shows and where they
    disagree.
  \<^item> \<open>Payments\<close>, \<open>Preview\<close>, \<open>Upload\<close>, \<open>Delete\<close>, \<open>Api\<close>: the handlers
    \<open>payments\<close> (POST), \<open>calculate_distribution\<close>, \<open>upload\<close>,
    \<open>delete_paid_students\<close>, \<open>update_remarks\<close>, \<open>api_students\<close>,
    \<open>api_student_fees\<close> and \<open>get_registrations_by_batch\<close> as functions from the
    database to an error or a new database (a JSON body as the dict \<open>get_json\<close>
    returns); which keep \<open>db_wf\<close> and which break it: a payment is recorded for any
    registration number and any amount, a failing upload row keeps its earlier changes,
    deleting a paid Phase II fee deletes Phase III payments.
  \<^item> \<open>Uploader\<close>: \<open>process_excel_file\<close> with its schema, enforced foreign keys,
    \<open>AUTOINCREMENT\<close> counters and commit-or-rollback rule; a rollback loses rows
    reported as processed, and on the application's schema every row fails.
  \<^item> \<open>Auth\<close>: admins, \<open>create_default_admin\<close>, \<open>create_admin_user\<close>, login, logout,
    \<open>load_user\<close> and the \<open>@login_required\<close> guard; the application as a state with a
    request function \<open>serve\<close> and the inductive set of reachable states; while nobody
    is logged in, only an upload or a payment form changes the tables.
  \<^item> \<open>Pages\<close>: the read-only pages: the payments page (pre-filled form, the ten
    newest payments) and its route around the POST handler, with the values the page
    renders after a failed POST, the student details page
    (filter options, plain list, payment details), and the spreadsheet template, fed
    back to \<open>upload\<close>.
  \<^item> \<open>Reports\<close>: the unpaid-students route with its downloads; Python's CSV writer
    (QUOTE_MINIMAL) and a reader that, like Python's, ends a row at CR, LF or CR LF
    outside quotes, with the round trip of the exported report; the
    Excel branch, which always fails on an undefined function.
  \<^item> \<open>Charts\<close>: the tables behind \<open>create_visualizations\<close>' charts and the
    \<open>dashboard\<close> route; the fee-status chart counts what \<open>student_details\<close> shows
    (Partially Paid as Paid), the total-fee chart is absent when there is no student
    (the pivot raises and the error is recorded) and otherwise refines a filtered sum
    over the payments joined with students, and the daily chart always fails on an
    undefined name.
  \<^item> \<open>Schema\<close>: a database file as its schema and fee tables; \<open>create_db.py\<close>'s
    \<open>check_full_schema\<close>, \<open>create_tables\<close> and main block, \<open>init_database.py\<close>, and
    \<open>manage.py\<close> (\<open>drop_all\<close> and \<open>create_all\<close>: the model tables recreated empty,
    any other table kept); the check rejects the schema \<open>models.py\<close> declares, so the
    script deletes the application's data.
  \<^item> This theory: the property spanning the preview and the payment handler (the
    preview shows the rows the handler then records).

  \<^bold>\<open>Parameters instead of fuel.\<close>  Every loop of the program runs over a finite list
  (rows, fee entries, fee types, students), so every definition is a total function by
  structural recursion or a fold and no fuel is needed.  What the program obtains from
  its environment is a parameter: \<open>float()\<close> and \<open>strptime\<close> as partial parsers,
  \<open>datetime.now()\<close> as a number, the spreadsheet as the list of rows pandas reads.  There is no
  \<open>while\<close> loop or recursion in the sources, so no termination property is stated:
  totality of the model's functions is what HOL already guarantees.

  \<^bold>\<open>Not modelled.\<close>  HTML rendering and flash messages; the chart images
  (matplotlib figures of the tables \<open>Charts\<close> models) and the debug routes
  \<open>chart_debug\<close> and \<open>debug_chart_data\<close> (template output); the bytes of the
  spreadsheet template and the Excel template read back (its notes become rows of NaN
  cells); the text of floats in the CSV export; column types and the table listings the set-up scripts
  print; Flask sessions beyond the logged-in admin id; the salt of password hashes;
  binary rounding of float sums; NaN amounts; non-ASCII text (Python would case-map it,
  the model leaves it).  The \<open>admin\<close> rows of a database file are modelled in
  \<open>Auth\<close> only, not in \<open>Schema\<close>'s file contents.
\<close>

definition preview_request :: "payment_form \<Rightarrow> dist_request" where
  "preview_request f =
     \<lparr>dr_regd_no = Some (pf_regd_no f),
      dr_fee_types = filter (\<lambda>t. t \<noteq> []) (map py_strip (py_split CHR ''|'' (pf_fee_type_combined f))),
      dr_amount = Some (pf_amount f)\<rparr>"

subsection \<open>The preview and the payment handler\<close>

lemma payment_form_keys:
  assumes "1 < length (normalized_fee_types (pf_fee_type_combined f))"
  shows "normalized_fee_types (pf_fee_type_combined f) = map normalize_fee_type (dr_fee_types (preview_request f))"
    and "dr_fee_types (preview_request f) \<noteq> []"
proof -
  have "pf_fee_type_combined f \<noteq> []"
    using assms by (auto simp: normalized_fee_types_def)
  then show eq: "normalized_fee_types (pf_fee_type_combined f) = map normalize_fee_type (dr_fee_types (preview_request f))"
    by (simp add: normalized_fee_types_def preview_request_def)
  from assms show "dr_fee_types (preview_request f) \<noteq> []"
    by (auto simp: eq)
qed

text \<open>
  C23: the preview shows what the payment handler records.  When a payment over several
  fee types is recorded, the preview for the same form (the same student, the same
  non-blank fee types, the same amount) succeeds, and its allocations are, in order,
  the fee types and the amounts of the payment rows the handler adds.
\<close>

theorem preview_shows_recorded_payment:
  assumes "record_payment parse_float parse_date f db = Inr db'"
    and "parse_float (pf_amount f) = Some t"
    and "1 < length (normalized_fee_types (pf_fee_type_combined f))"
  shows "\<exists>resp new. calculate_distribution parse_float (Some (preview_request f)) db = Inr resp
           \<and> payments db' = payments db @ new
           \<and> map pay_fee_type new = map di_fee_type (resp_distribution resp)
           \<and> map amount_paid new = map di_distribution (resp_distribution resp)"
proof -
  let ?r = "pf_regd_no f"
  let ?raw = "dr_fee_types (preview_request f)"
  let ?es = "List.map_filter (first_fee_entry db ?r) (normalized_fee_types (pf_fee_type_combined f))"
  let ?fds = "List.map_filter (fee_detail_of db ?r) ?raw"
  have keys: "normalized_fee_types (pf_fee_type_combined f) = map normalize_fee_type ?raw" and "?raw \<noteq> []"
    using assms(3) by (rule payment_form_keys)+
  have "?r \<noteq> []"
    using assms(1) by (cases rule: record_payment_Inr) (simp_all add: form_complete_def)
  with \<open>?raw \<noteq> []\<close> assms(2) have resp:
    "calculate_distribution parse_float (Some (preview_request f)) db
       = Inr \<lparr>resp_total_amount = t, resp_total_fee_amount = sum_list (map fd_amount ?fds),
              resp_distribution = map2 (dist_item_of (sum_list (map fd_amount ?fds))) ?fds (distribute t (map fd_amount ?fds))\<rparr>"
    by (simp add: calculate_distribution_def preview_request_def Let_def)
  have agree: "map fd_fee_type ?fds = map fee_type ?es" "map fd_amount ?fds = map amount ?es"
    unfolding keys by (rule preview_lookup_agrees)+
  have items: "map di_fee_type (map2 (dist_item_of (sum_list (map fd_amount ?fds))) ?fds (distribute t (map fd_amount ?fds))) = map fd_fee_type ?fds
     \<and> map di_distribution (map2 (dist_item_of (sum_list (map fd_amount ?fds))) ?fds (distribute t (map fd_amount ?fds))) = distribute t (map fd_amount ?fds)"
    by (rule map_dist_items) (simp add: distribute_def)
  obtain new where "payments db' = payments db @ new"
    and rows: "map (\<lambda>p. (pay_fee_type p, amount_paid p)) new = zip (map fee_type ?es) (distribute t (map amount ?es))"
    using record_payment_multi_Inr [OF assms] by blast
  moreover have "length (map fee_type ?es) = length (distribute t (map amount ?es))"
    by (simp add: distribute_def)
  ultimately show ?thesis
    using resp items agree by (auto simp: rows_zip_iff)
qed

theorem preview_shows_recorded_payment_witness:
  "map di_distribution (resp_distribution (projr (calculate_distribution sample_parse_float
      (Some (preview_request (sample_form ''R6'' ''Phase 2|Phase 3'' ''3000''))) order_db)))
   = map amount_paid (payments (projr (record_payment sample_parse_float sample_parse_date
      (sample_form ''R6'' ''Phase 2|Phase 3'' ''3000'') order_db)))"
proof -
  let ?f = "sample_form ''R6'' ''Phase 2|Phase 3'' ''3000''"
  have ok: "record_payment sample_parse_float sample_parse_date ?f order_db
     = Inr (projr (record_payment sample_parse_float sample_parse_date ?f order_db))"
    by code_simp
  have amt: "sample_parse_float (pf_amount ?f) = Some 3000"
    by (simp add: sample_parse_float_def sample_form_def)
  have "1 < length (normalized_fee_types (pf_fee_type_combined ?f))"
    by code_simp
  from preview_shows_recorded_payment [OF ok amt this] obtain resp new where
    "calculate_distribution sample_parse_float (Some (preview_request ?f)) order_db = Inr resp"
    and "payments (projr (record_payment sample_parse_float sample_parse_date ?f order_db)) = payments order_db @ new"
    and "map amount_paid new = map di_distribution (resp_distribution resp)"
    by blast
  then show ?thesis by (simp add: order_db_def)
qed

end
